theory Spec2Isabelle
  imports Complex_Main "HOL-Library.Word" "HOL-Library.Finite_Map"
begin

section \<open>The samplers of sampler.go\<close>

text \<open>
  A shallow embedding of \<^verbatim>\<open>sampler.go\<close>. Every method that mutates its receiver
  returns the new receiver beside its result. Methods that read the clock (through
  \<^verbatim>\<open>utils.NewRateLimiter\<close> and \<^verbatim>\<open>CheckCredit\<close>) take the reading as the argument
  \<open>now\<close>, in seconds.

  A \<^verbatim>\<open>float64\<close> of the source is a \<open>float64\<close> of the model: a real number, an
  infinity or NaN. Times are real numbers.

  Names are those of the source, with these changes. A method \<^verbatim>\<open>T.m\<close> is \<open>T_m\<close>, and
  \<open>GTPS\<close> stands for \<^verbatim>\<open>GuaranteedThroughputProbabilisticSampler\<close> in the names of its
  methods. Fields that several structs share carry the initial of their struct:
  \<open>c_tags\<close>, \<open>p_tags\<close>, \<open>r_tags\<close>, \<open>g_tags\<close> for \<^verbatim>\<open>tags\<close>, \<open>g_lowerBound\<close> and
  \<open>a_lowerBound\<close> for \<^verbatim>\<open>lowerBound\<close>, \<open>a_maxOperations\<close> for \<^verbatim>\<open>maxOperations\<close> of
  the adaptive sampler. The parameter \<^verbatim>\<open>id\<close> is \<open>tid\<close> and the other sampler \<^verbatim>\<open>o\<close> of
  \<^verbatim>\<open>Equal\<close> is \<open>o'\<close>.
\<close>

subsection \<open>Floating-point values\<close>

text \<open>
  The values of a \<^verbatim>\<open>float64\<close>. The finite ones are taken as real numbers (rounding is
  not modelled; the one product the source computes is exact, see \<open>samplingBoundary\<close>).
  The comparisons are those of IEEE 754, which Go follows: every ordered comparison
  with NaN is false, and \<^verbatim>\<open>!=\<close> with NaN is true, also between NaN and itself.
\<close>

datatype float64 = Finite real | PosInf | NegInf | NaN

fun f_lt :: "float64 \<Rightarrow> float64 \<Rightarrow> bool" where
  "f_lt (Finite a) (Finite b) = (a < b)"
| "f_lt (Finite a) PosInf = True"
| "f_lt NegInf (Finite b) = True"
| "f_lt NegInf PosInf = True"
| "f_lt _ _ = False"

definition f_gt :: "float64 \<Rightarrow> float64 \<Rightarrow> bool" where
  "f_gt a b = f_lt b a"

fun f_ne :: "float64 \<Rightarrow> float64 \<Rightarrow> bool" where
  "f_ne NaN _ = True"
| "f_ne _ NaN = True"
| "f_ne a b = (a \<noteq> b)"

definition f_eq :: "float64 \<Rightarrow> float64 \<Rightarrow> bool" where
  "f_eq a b = (\<not> f_ne a b)"

subsection \<open>Tags and the constants of the tag vocabulary\<close>

datatype tag_value = BoolValue bool | FloatValue float64 | StringValue string

record Tag =
  key :: string
  val :: tag_value

text \<open>
  Modelled from the spec: the constants \<^verbatim>\<open>SamplerTypeTagKey\<close>, \<^verbatim>\<open>SamplerParamTagKey\<close>
  and \<^verbatim>\<open>SamplerType...\<close> are declared in another file of the package; their values are
  those of the tag vocabulary (\<^verbatim>\<open>sampler.type\<close>, \<^verbatim>\<open>sampler.param\<close>, \<^verbatim>\<open>const\<close>,
  \<^verbatim>\<open>probabilistic\<close>, \<^verbatim>\<open>ratelimiting\<close>, \<^verbatim>\<open>lowerbound\<close>).
\<close>

definition SamplerTypeTagKey :: string where
  "SamplerTypeTagKey = ''sampler.type''"

definition SamplerParamTagKey :: string where
  "SamplerParamTagKey = ''sampler.param''"

definition SamplerTypeConst :: string where
  "SamplerTypeConst = ''const''"

definition SamplerTypeProbabilistic :: string where
  "SamplerTypeProbabilistic = ''probabilistic''"

definition SamplerTypeRateLimiting :: string where
  "SamplerTypeRateLimiting = ''ratelimiting''"

definition SamplerTypeLowerBound :: string where
  "SamplerTypeLowerBound = ''lowerbound''"

text \<open>The two-element tag slice every constructor builds; \<^verbatim>\<open>nil\<close> is the empty list.\<close>

definition mkTags :: "string \<Rightarrow> tag_value \<Rightarrow> Tag list" where
  "mkTags ty param =
     [\<lparr>key = SamplerTypeTagKey, val = StringValue ty\<rparr>,
      \<lparr>key = SamplerParamTagKey, val = param\<rparr>]"

datatype error =
    SamplingRateOutOfRange float64
  | UnsupportedStrategyType
  | QueryFailed
  | NilPointerDereference

subsection \<open>ConstSampler\<close>

record ConstSampler =
  Decision :: bool
  c_tags :: "Tag list"

definition NewConstSampler :: "bool \<Rightarrow> ConstSampler" where
  "NewConstSampler sample =
     \<lparr>Decision = sample, c_tags = mkTags SamplerTypeConst (BoolValue sample)\<rparr>"

definition ConstSampler_IsSampled :: "ConstSampler \<Rightarrow> 64 word \<Rightarrow> string \<Rightarrow> bool \<times> Tag list" where
  "ConstSampler_IsSampled s tid operation = (Decision s, c_tags s)"

subsection \<open>ProbabilisticSampler\<close>

record ProbabilisticSampler =
  SamplingBoundary :: "64 word"
  p_tags :: "Tag list"

text \<open>
  \<^verbatim>\<open>uint64(float64(maxRandomNumber) * samplingRate)\<close>. The constant
  \<^verbatim>\<open>maxRandomNumber\<close> is \<open>2^63 - 1\<close>; its conversion to \<^verbatim>\<open>float64\<close> rounds to the
  nearest representable value, which is \<open>2^63\<close>. Multiplying a finite \<^verbatim>\<open>float64\<close> in
  \<open>[0, 1]\<close> by a power of two is exact, and the conversion to \<^verbatim>\<open>uint64\<close> truncates,
  so the boundary of such a rate is the floor of \<open>2^63 * samplingRate\<close>. The product
  with NaN is NaN, and Go leaves the conversion of a value that \<^verbatim>\<open>uint64\<close> cannot
  represent implementation-dependent: the model gives it the value \<open>undefined\<close>, about
  which nothing is known. (Of the values that are no real numbers only NaN gets here:
  the guard of \<^verbatim>\<open>NewProbabilisticSampler\<close> turns the infinities away.)
\<close>

definition float64_maxRandomNumber :: real where
  "float64_maxRandomNumber = 2 ^ 63"

fun samplingBoundary :: "float64 \<Rightarrow> 64 word" where
  "samplingBoundary (Finite samplingRate) =
     word_of_int \<lfloor>float64_maxRandomNumber * samplingRate\<rfloor>"
| "samplingBoundary _ = undefined"

text \<open>
  The guard is that of the source, \<^verbatim>\<open>samplingRate < 0.0 || samplingRate > 1.0\<close>: NaN
  makes both comparisons false and is let through.
\<close>

definition NewProbabilisticSampler :: "float64 \<Rightarrow> error + ProbabilisticSampler" where
  "NewProbabilisticSampler samplingRate =
     (if f_lt samplingRate (Finite 0) \<or> f_gt samplingRate (Finite 1)
      then Inl (SamplingRateOutOfRange samplingRate)
      else Inr \<lparr>SamplingBoundary = samplingBoundary samplingRate,
                p_tags = mkTags SamplerTypeProbabilistic (FloatValue samplingRate)\<rparr>)"

definition ProbabilisticSampler_IsSampled ::
  "ProbabilisticSampler \<Rightarrow> 64 word \<Rightarrow> string \<Rightarrow> bool \<times> Tag list" where
  "ProbabilisticSampler_IsSampled s tid operation = (SamplingBoundary s \<ge> tid, p_tags s)"

definition ProbabilisticSampler_Equal :: "ProbabilisticSampler \<Rightarrow> ProbabilisticSampler \<Rightarrow> bool" where
  "ProbabilisticSampler_Equal s o' = (SamplingBoundary s = SamplingBoundary o')"

subsection \<open>The rate limiter and rateLimitingSampler\<close>

text \<open>
  Modelled from the spec: \<^verbatim>\<open>utils.RateLimiter\<close> (\<^verbatim>\<open>utils.NewRateLimiter\<close>,
  \<^verbatim>\<open>CheckCredit\<close>) is in another package. The spec describes a token bucket that accrues
  \<open>N\<close> tokens per second up to a burst cap of \<open>max N 1\<close> and grants a call iff it can
  take the cost of the call from the balance. Of the start it says that a sampler of
  rate 2 grants two calls made at once and that a sampler of rate 0 never samples: the
  bucket starts with \<open>N\<close> tokens. The spec speaks of rates that are numbers; a limiter
  made with NaN or an infinity is taken as one of rate 0.
\<close>

record RateLimiter =
  creditsPerSecond :: real
  balance :: real
  maxBalance :: real
  lastTick :: real

fun credits_of :: "float64 \<Rightarrow> real" where
  "credits_of (Finite n) = n"
| "credits_of _ = 0"

definition NewRateLimiter :: "float64 \<Rightarrow> real \<Rightarrow> RateLimiter" where
  "NewRateLimiter rate now =
     (let n = credits_of rate
      in \<lparr>creditsPerSecond = n, balance = n, maxBalance = max n 1, lastTick = now\<rparr>)"

definition CheckCredit :: "RateLimiter \<Rightarrow> real \<Rightarrow> real \<Rightarrow> bool \<times> RateLimiter" where
  "CheckCredit b itemCost now =
     (let accrued = min (maxBalance b) (balance b + (now - lastTick b) * creditsPerSecond b)
      in if accrued \<ge> itemCost
         then (True, b\<lparr>balance := accrued - itemCost, lastTick := now\<rparr>)
         else (False, b\<lparr>balance := accrued, lastTick := now\<rparr>))"

record rateLimitingSampler =
  maxTracesPerSecond :: float64
  rateLimiter :: RateLimiter
  r_tags :: "Tag list"

definition NewRateLimitingSampler :: "float64 \<Rightarrow> real \<Rightarrow> rateLimitingSampler" where
  "NewRateLimitingSampler n now =
     \<lparr>maxTracesPerSecond = n,
      rateLimiter = NewRateLimiter n now,
      r_tags = mkTags SamplerTypeRateLimiting (FloatValue n)\<rparr>"

definition rateLimitingSampler_IsSampled ::
  "rateLimitingSampler \<Rightarrow> 64 word \<Rightarrow> string \<Rightarrow> real \<Rightarrow> (bool \<times> Tag list) \<times> rateLimitingSampler" where
  "rateLimitingSampler_IsSampled s tid operation now =
     (case CheckCredit (rateLimiter s) 1 now of
        (granted, b) \<Rightarrow> ((granted, r_tags s), s\<lparr>rateLimiter := b\<rparr>))"

definition rateLimitingSampler_Equal :: "rateLimitingSampler \<Rightarrow> rateLimitingSampler \<Rightarrow> bool" where
  "rateLimitingSampler_Equal s o' = f_eq (maxTracesPerSecond s) (maxTracesPerSecond o')"

subsection \<open>GuaranteedThroughputProbabilisticSampler\<close>

text \<open>
  The fields \<^verbatim>\<open>probabilisticSampler\<close> and \<^verbatim>\<open>lowerBoundSampler\<close> have the interface
  type in the source and are assigned only results of \<^verbatim>\<open>NewProbabilisticSampler\<close> and
  \<^verbatim>\<open>NewRateLimitingSampler\<close>; the model gives them these types.
\<close>

record GuaranteedThroughputProbabilisticSampler =
  probabilisticSampler :: ProbabilisticSampler
  lowerBoundSampler :: rateLimitingSampler
  operation :: string
  g_tags :: "Tag list"
  samplingRate :: float64
  g_lowerBound :: float64

definition NewGuaranteedThroughputProbabilisticSampler ::
  "string \<Rightarrow> float64 \<Rightarrow> float64 \<Rightarrow> real
     \<Rightarrow> error + GuaranteedThroughputProbabilisticSampler" where
  "NewGuaranteedThroughputProbabilisticSampler op lowerBound rate now =
     (case NewProbabilisticSampler rate of
        Inl err \<Rightarrow> Inl err
      | Inr p \<Rightarrow> Inr \<lparr>probabilisticSampler = p,
                      lowerBoundSampler = NewRateLimitingSampler lowerBound now,
                      operation = op,
                      g_tags = mkTags SamplerTypeLowerBound (FloatValue rate),
                      samplingRate = rate,
                      g_lowerBound = lowerBound\<rparr>)"

definition GTPS_IsSampled ::
  "GuaranteedThroughputProbabilisticSampler \<Rightarrow> 64 word \<Rightarrow> string \<Rightarrow> real
     \<Rightarrow> (bool \<times> Tag list) \<times> GuaranteedThroughputProbabilisticSampler" where
  "GTPS_IsSampled s tid op now =
     (case ProbabilisticSampler_IsSampled (probabilisticSampler s) tid op of
        (True, tags) \<Rightarrow>
          (case rateLimitingSampler_IsSampled (lowerBoundSampler s) tid op now of
             (_, lb) \<Rightarrow> ((True, tags), s\<lparr>lowerBoundSampler := lb\<rparr>))
      | (False, _) \<Rightarrow>
          (case rateLimitingSampler_IsSampled (lowerBoundSampler s) tid op now of
             ((sampled, _), lb) \<Rightarrow> ((sampled, g_tags s), s\<lparr>lowerBoundSampler := lb\<rparr>)))"

text \<open>
  \<^verbatim>\<open>update\<close> returns its error beside the receiver as the call leaves it; on the error
  path nothing has been assigned yet.
\<close>

definition GTPS_update ::
  "GuaranteedThroughputProbabilisticSampler \<Rightarrow> float64 \<Rightarrow> float64 \<Rightarrow> real
     \<Rightarrow> error option \<times> GuaranteedThroughputProbabilisticSampler" where
  "GTPS_update s lowerBound rate now =
     (case (if f_ne (samplingRate s) rate
            then (case NewProbabilisticSampler rate of
                    Inl err \<Rightarrow> Inl err
                  | Inr p \<Rightarrow> Inr (s\<lparr>probabilisticSampler := p,
                                    samplingRate := rate,
                                    g_tags := mkTags SamplerTypeLowerBound (FloatValue rate)\<rparr>))
            else Inr s) of
        Inl err \<Rightarrow> (Some err, s)
      | Inr s1 \<Rightarrow>
          (None,
           if f_ne (g_lowerBound s1) lowerBound
           then s1\<lparr>lowerBoundSampler := NewRateLimitingSampler lowerBound now,
                   g_lowerBound := lowerBound\<rparr>
           else s1))"

subsection \<open>adaptiveSampler\<close>

text \<open>
  Modelled from the spec: the types of package \<^verbatim>\<open>sampling\<close> (generated from the
  Thrift definitions) are not in this file. A per-operation strategy is an operation
  name with its probabilistic rate; the strategies are the default probability, the
  default lower bound and the ordered list of per-operation entries; a response
  carries at most one of the three variants (each getter returns nil for an absent one).
\<close>

record OperationSamplingStrategy =
  Operation :: string
  SamplingRate :: float64

record PerOperationSamplingStrategies =
  DefaultSamplingProbability :: float64
  DefaultLowerBoundTracesPerSecond :: float64
  PerOperationStrategies :: "OperationSamplingStrategy list"

record SamplingStrategyResponse =
  OperationSampling :: "PerOperationSamplingStrategies option"
  ProbabilisticSampling :: "float64 option"
  RateLimitingSampling :: "int option"

text \<open>
  The map \<^verbatim>\<open>samplers\<close> holds pointers; the model holds the composites themselves and
  writes a mutated composite back under its key. \<^verbatim>\<open>len\<close> of the map is \<open>fcard\<close> of
  its domain. \<^verbatim>\<open>maxOperations\<close> is a Go \<^verbatim>\<open>int\<close> and may be negative.
\<close>

type_synonym samplers_map = "(string, GuaranteedThroughputProbabilisticSampler) fmap"

record adaptiveSampler =
  samplers :: samplers_map
  defaultSampler :: ProbabilisticSampler
  defaultSamplingProbability :: float64
  a_lowerBound :: float64
  a_maxOperations :: int

text \<open>The loop of \<^verbatim>\<open>NewAdaptiveSampler\<close>: the first failing entry aborts the construction.\<close>

fun NewAdaptiveSampler_loop ::
  "OperationSamplingStrategy list \<Rightarrow> float64 \<Rightarrow> real \<Rightarrow> samplers_map
     \<Rightarrow> error + samplers_map" where
  "NewAdaptiveSampler_loop [] lowerBound now m = Inr m"
| "NewAdaptiveSampler_loop (strategy # rest) lowerBound now m =
     (case NewGuaranteedThroughputProbabilisticSampler
             (Operation strategy) lowerBound (SamplingRate strategy) now of
        Inl err \<Rightarrow> Inl err
      | Inr sampler \<Rightarrow>
          NewAdaptiveSampler_loop rest lowerBound now (fmupd (Operation strategy) sampler m))"

definition NewAdaptiveSampler ::
  "PerOperationSamplingStrategies \<Rightarrow> int \<Rightarrow> real \<Rightarrow> error + adaptiveSampler" where
  "NewAdaptiveSampler strategies maxOperations now =
     (case NewAdaptiveSampler_loop (PerOperationStrategies strategies)
             (DefaultLowerBoundTracesPerSecond strategies) now fmempty of
        Inl err \<Rightarrow> Inl err
      | Inr m \<Rightarrow>
          (case NewProbabilisticSampler (DefaultSamplingProbability strategies) of
             Inl err \<Rightarrow> Inl err
           | Inr d \<Rightarrow> Inr \<lparr>samplers = m,
                           defaultSampler = d,
                           defaultSamplingProbability = DefaultSamplingProbability strategies,
                           a_lowerBound = DefaultLowerBoundTracesPerSecond strategies,
                           a_maxOperations = maxOperations\<rparr>))"

definition adaptiveSampler_IsSampled ::
  "adaptiveSampler \<Rightarrow> 64 word \<Rightarrow> string \<Rightarrow> real \<Rightarrow> (bool \<times> Tag list) \<times> adaptiveSampler" where
  "adaptiveSampler_IsSampled s tid op now =
     (case fmlookup (samplers s) op of
        None \<Rightarrow>
          if int (fcard (fmdom (samplers s))) \<ge> a_maxOperations s
          then (ProbabilisticSampler_IsSampled (defaultSampler s) tid op, s)
          else (case NewGuaranteedThroughputProbabilisticSampler
                       op (a_lowerBound s) (defaultSamplingProbability s) now of
                  Inl err \<Rightarrow> ((False, []), s)
                | Inr sampler \<Rightarrow>
                    (case GTPS_IsSampled sampler tid op now of
                       (r, sampler') \<Rightarrow> (r, s\<lparr>samplers := fmupd op sampler' (samplers s)\<rparr>)))
      | Some sampler \<Rightarrow>
          (case GTPS_IsSampled sampler tid op now of
             (r, sampler') \<Rightarrow> (r, s\<lparr>samplers := fmupd op sampler' (samplers s)\<rparr>)))"

text \<open>
  The loop of \<^verbatim>\<open>update\<close> works on the map of the receiver itself, so what it did before
  an error stays: the loop returns the map as it is when it stops.
\<close>

fun update_loop ::
  "OperationSamplingStrategy list \<Rightarrow> float64 \<Rightarrow> real \<Rightarrow> samplers_map
     \<Rightarrow> error option \<times> samplers_map" where
  "update_loop [] lowerBound now m = (None, m)"
| "update_loop (strategy # rest) lowerBound now m =
     (case fmlookup m (Operation strategy) of
        Some sampler \<Rightarrow>
          (case GTPS_update sampler lowerBound (SamplingRate strategy) now of
             (Some err, sampler') \<Rightarrow> (Some err, fmupd (Operation strategy) sampler' m)
           | (None, sampler') \<Rightarrow>
               update_loop rest lowerBound now (fmupd (Operation strategy) sampler' m))
      | None \<Rightarrow>
          (case NewGuaranteedThroughputProbabilisticSampler
                  (Operation strategy) lowerBound (SamplingRate strategy) now of
             Inl err \<Rightarrow> (Some err, m)
           | Inr sampler \<Rightarrow>
               update_loop rest lowerBound now (fmupd (Operation strategy) sampler m)))"

definition adaptiveSampler_update ::
  "adaptiveSampler \<Rightarrow> PerOperationSamplingStrategies \<Rightarrow> real \<Rightarrow> error option \<times> adaptiveSampler" where
  "adaptiveSampler_update s strategies now =
     (case update_loop (PerOperationStrategies strategies)
             (DefaultLowerBoundTracesPerSecond strategies) now (samplers s) of
        (Some err, m) \<Rightarrow> (Some err, s\<lparr>samplers := m\<rparr>)
      | (None, m) \<Rightarrow>
          (let s1 = s\<lparr>samplers := m,
                      a_lowerBound := DefaultLowerBoundTracesPerSecond strategies\<rparr>
           in if f_ne (defaultSamplingProbability s1) (DefaultSamplingProbability strategies)
              then (case NewProbabilisticSampler (DefaultSamplingProbability strategies) of
                      Inl err \<Rightarrow> (Some err, s1)
                    | Inr d \<Rightarrow>
                        (None, s1\<lparr>defaultSamplingProbability :=
                                     DefaultSamplingProbability strategies,
                                   defaultSampler := d\<rparr>))
              else (None, s1)))"

subsection \<open>RemotelyControlledSampler\<close>

text \<open>
  The samplers a controller can hold (a controller inside a controller is left out).
  \<^verbatim>\<open>Equal\<close> of the source starts with a type assertion on the other sampler; here
  that is the match on the constructor. \<^verbatim>\<open>Equal\<close> of the composite and of the
  adaptive sampler is always false.
\<close>

datatype Sampler =
    Const ConstSampler
  | Probabilistic ProbabilisticSampler
  | RateLimiting rateLimitingSampler
  | GuaranteedThroughput GuaranteedThroughputProbabilisticSampler
  | Adaptive adaptiveSampler

fun Sampler_IsSampled ::
  "Sampler \<Rightarrow> 64 word \<Rightarrow> string \<Rightarrow> real \<Rightarrow> (bool \<times> Tag list) \<times> Sampler" where
  "Sampler_IsSampled (Const s) tid op now = (ConstSampler_IsSampled s tid op, Const s)"
| "Sampler_IsSampled (Probabilistic s) tid op now =
     (ProbabilisticSampler_IsSampled s tid op, Probabilistic s)"
| "Sampler_IsSampled (RateLimiting s) tid op now =
     (case rateLimitingSampler_IsSampled s tid op now of (r, s') \<Rightarrow> (r, RateLimiting s'))"
| "Sampler_IsSampled (GuaranteedThroughput s) tid op now =
     (case GTPS_IsSampled s tid op now of (r, s') \<Rightarrow> (r, GuaranteedThroughput s'))"
| "Sampler_IsSampled (Adaptive s) tid op now =
     (case adaptiveSampler_IsSampled s tid op now of (r, s') \<Rightarrow> (r, Adaptive s'))"

fun Sampler_Equal :: "Sampler \<Rightarrow> Sampler \<Rightarrow> bool" where
  "Sampler_Equal (Const s) (Const o') = (Decision s = Decision o')"
| "Sampler_Equal (Probabilistic s) (Probabilistic o') = ProbabilisticSampler_Equal s o'"
| "Sampler_Equal (RateLimiting s) (RateLimiting o') = rateLimitingSampler_Equal s o'"
| "Sampler_Equal _ _ = False"

text \<open>
  Modelled from the spec: the type \<^verbatim>\<open>Metrics\<close> is declared in another file; the five
  counters the controller increments are natural numbers.
\<close>

record Metrics =
  SamplerRetrieved :: nat
  SamplerUpdated :: nat
  SamplerUpdateFailure :: nat
  SamplerQueryFailure :: nat
  SamplerParsingFailure :: nat

text \<open>
  The fields of the controller that decide what it samples and counts; the lock, the
  timer, the manager and the logger are left out.
\<close>

record RemotelyControlledSampler =
  sampler :: Sampler
  metrics :: Metrics
  maxOperations :: int

text \<open>
  \<^verbatim>\<open>extractSampler\<close> returns either the pointer the controller already holds (the
  adaptive sampler, to be updated in place) or a sampler it has just built.
\<close>

datatype candidate = Active | Built Sampler

fun deref :: "candidate \<Rightarrow> Sampler \<Rightarrow> Sampler" where
  "deref Active current = current"
| "deref (Built s) current = s"

definition extractSampler ::
  "RemotelyControlledSampler \<Rightarrow> SamplingStrategyResponse \<Rightarrow> real
     \<Rightarrow> error + candidate \<times> PerOperationSamplingStrategies option" where
  "extractSampler s res now =
     (case OperationSampling res of
        Some strategies \<Rightarrow>
          (case sampler s of
             Adaptive a \<Rightarrow> Inr (Active, Some strategies)
           | _ \<Rightarrow>
               (case NewAdaptiveSampler strategies (maxOperations s) now of
                  Inl err \<Rightarrow> Inl err
                | Inr a \<Rightarrow> Inr (Built (Adaptive a), Some strategies)))
      | None \<Rightarrow>
          (case ProbabilisticSampling res of
             Some rate \<Rightarrow>
               (case NewProbabilisticSampler rate of
                  Inl err \<Rightarrow> Inl err
                | Inr p \<Rightarrow> Inr (Built (Probabilistic p), None))
           | None \<Rightarrow>
               (case RateLimitingSampling res of
                  Some n \<Rightarrow>
                    Inr (Built (RateLimiting (NewRateLimitingSampler (Finite (of_int n)) now)),
                         None)
                | None \<Rightarrow> Inl UnsupportedStrategyType)))"

text \<open>
  \<^verbatim>\<open>lockAndUpdateSampler\<close>. With an adaptive sampler in place and no strategies the
  call of \<^verbatim>\<open>update\<close> dereferences nil: the result is the panic. A failed \<^verbatim>\<open>update\<close>
  leaves the adaptive sampler as \<^verbatim>\<open>update\<close> left it.
\<close>

definition lockAndUpdateSampler ::
  "RemotelyControlledSampler \<Rightarrow> candidate \<Rightarrow> PerOperationSamplingStrategies option \<Rightarrow> real
     \<Rightarrow> error + RemotelyControlledSampler" where
  "lockAndUpdateSampler s updateSampler strategies now =
     (case sampler s of
        Adaptive a \<Rightarrow>
          (case strategies of
             None \<Rightarrow> Inl NilPointerDereference
           | Some st \<Rightarrow>
               (case adaptiveSampler_update a st now of
                  (Some err, a') \<Rightarrow>
                    Inr (s\<lparr>sampler := Adaptive a',
                           metrics := (metrics s)\<lparr>SamplerUpdateFailure :=
                                                    SamplerUpdateFailure (metrics s) + 1\<rparr>\<rparr>)
                | (None, a') \<Rightarrow>
                    Inr (s\<lparr>sampler := deref updateSampler (Adaptive a'),
                           metrics := (metrics s)\<lparr>SamplerUpdated :=
                                                    SamplerUpdated (metrics s) + 1\<rparr>\<rparr>)))
      | _ \<Rightarrow>
          Inr (s\<lparr>sampler := deref updateSampler (sampler s),
                 metrics := (metrics s)\<lparr>SamplerUpdated := SamplerUpdated (metrics s) + 1\<rparr>\<rparr>))"

text \<open>
  \<^verbatim>\<open>updateSampler\<close>, one tick of the poll loop; \<open>fetched\<close> is what
  \<^verbatim>\<open>GetSamplingStrategy\<close> returned. The log line of the parsing failure is left out.
\<close>

definition updateSampler ::
  "RemotelyControlledSampler \<Rightarrow> error + SamplingStrategyResponse \<Rightarrow> real
     \<Rightarrow> error + RemotelyControlledSampler" where
  "updateSampler s fetched now =
     (case fetched of
        Inr res \<Rightarrow>
          (case extractSampler s res now of
             Inr (cand, strategies) \<Rightarrow>
               (let s1 = s\<lparr>metrics := (metrics s)\<lparr>SamplerRetrieved :=
                                                     SamplerRetrieved (metrics s) + 1\<rparr>\<rparr>
                in if \<not> Sampler_Equal (sampler s1) (deref cand (sampler s1))
                   then lockAndUpdateSampler s1 cand strategies now
                   else Inr s1)
           | Inl err \<Rightarrow>
               Inr (s\<lparr>metrics := (metrics s)\<lparr>SamplerParsingFailure :=
                                                SamplerParsingFailure (metrics s) + 1\<rparr>\<rparr>))
      | Inl err \<Rightarrow>
          Inr (s\<lparr>metrics := (metrics s)\<lparr>SamplerQueryFailure :=
                                           SamplerQueryFailure (metrics s) + 1\<rparr>\<rparr>))"

definition RemotelyControlledSampler_IsSampled ::
  "RemotelyControlledSampler \<Rightarrow> 64 word \<Rightarrow> string \<Rightarrow> real
     \<Rightarrow> (bool \<times> Tag list) \<times> RemotelyControlledSampler" where
  "RemotelyControlledSampler_IsSampled s tid op now =
     (case Sampler_IsSampled (sampler s) tid op now of
        (r, smp) \<Rightarrow> (r, s\<lparr>sampler := smp\<rparr>))"

subsection \<open>Lifetimes\<close>

text \<open>
  What happens to a sampler after its construction, as a list of calls in the order
  they are made; a failed \<^verbatim>\<open>update\<close> is part of a lifetime like a successful one.
\<close>

datatype call =
    CallIsSampled "64 word" string real
  | CallUpdate PerOperationSamplingStrategies real

fun adaptive_call :: "adaptiveSampler \<Rightarrow> call \<Rightarrow> adaptiveSampler" where
  "adaptive_call s (CallIsSampled tid op now) = snd (adaptiveSampler_IsSampled s tid op now)"
| "adaptive_call s (CallUpdate strategies now) = snd (adaptiveSampler_update s strategies now)"

definition adaptive_run :: "adaptiveSampler \<Rightarrow> call list \<Rightarrow> adaptiveSampler" where
  "adaptive_run s calls = foldl adaptive_call s calls"

text \<open>The calls of a lifetime that are calls of \<^verbatim>\<open>IsSampled\<close>.\<close>

fun is_IsSampled :: "call \<Rightarrow> bool" where
  "is_IsSampled (CallIsSampled tid op now) = True"
| "is_IsSampled (CallUpdate strategies now) = False"

datatype gtps_call =
    GCallIsSampled "64 word" string real
  | GCallUpdate float64 float64 real

fun GTPS_call ::
  "GuaranteedThroughputProbabilisticSampler \<Rightarrow> gtps_call
     \<Rightarrow> GuaranteedThroughputProbabilisticSampler" where
  "GTPS_call s (GCallIsSampled tid op now) = snd (GTPS_IsSampled s tid op now)"
| "GTPS_call s (GCallUpdate lowerBound rate now) = snd (GTPS_update s lowerBound rate now)"

definition GTPS_run ::
  "GuaranteedThroughputProbabilisticSampler \<Rightarrow> gtps_call list
     \<Rightarrow> GuaranteedThroughputProbabilisticSampler" where
  "GTPS_run s calls = foldl GTPS_call s calls"

text \<open>
  A sampler after a list of \<^verbatim>\<open>IsSampled\<close> calls, each given by its trace id, its
  operation and the time it is made.
\<close>

definition Sampler_run :: "Sampler \<Rightarrow> (64 word \<times> string \<times> real) list \<Rightarrow> Sampler" where
  "Sampler_run s calls =
     foldl (\<lambda>s (tid, op, now). snd (Sampler_IsSampled s tid op now)) s calls"

subsection \<open>Consistency of the samplers\<close>

text \<open>
  A rate is accepted when the guard of \<^verbatim>\<open>NewProbabilisticSampler\<close> lets it through:
  the real numbers of \<open>[0, 1]\<close>, and NaN.
\<close>

definition accepted :: "float64 \<Rightarrow> bool" where
  "accepted rate = (\<not> (f_lt rate (Finite 0) \<or> f_gt rate (Finite 1)))"

text \<open>A rate is in the unit interval when it is a real number of \<open>[0, 1]\<close>.\<close>

fun in_unit_interval :: "float64 \<Rightarrow> bool" where
  "in_unit_interval (Finite x) = (0 \<le> x \<and> x \<le> 1)"
| "in_unit_interval _ = False"

text \<open>
  What the constructors establish and every method keeps: the rate of a composite is
  accepted, and its probabilistic sampler and its tags are those built from that rate;
  likewise for the default sampler of an adaptive sampler.
\<close>

definition GTPS_inv :: "GuaranteedThroughputProbabilisticSampler \<Rightarrow> bool" where
  "GTPS_inv c =
     (accepted (samplingRate c)
      \<and> probabilisticSampler c =
          \<lparr>SamplingBoundary = samplingBoundary (samplingRate c),
           p_tags = mkTags SamplerTypeProbabilistic (FloatValue (samplingRate c))\<rparr>
      \<and> g_tags c = mkTags SamplerTypeLowerBound (FloatValue (samplingRate c)))"

definition adaptive_inv :: "adaptiveSampler \<Rightarrow> bool" where
  "adaptive_inv s =
     (fmpred (\<lambda>_. GTPS_inv) (samplers s)
      \<and> accepted (defaultSamplingProbability s)
      \<and> defaultSampler s =
          \<lparr>SamplingBoundary = samplingBoundary (defaultSamplingProbability s),
           p_tags = mkTags SamplerTypeProbabilistic
                      (FloatValue (defaultSamplingProbability s))\<rparr>)"

subsection \<open>Notions used in the statements and proofs\<close>

text \<open>
  The rate the strategies give for an operation: that of the last entry listed for it
  (the loops of \<^verbatim>\<open>NewAdaptiveSampler\<close> and \<^verbatim>\<open>update\<close> run through the list in
  order, so a later entry for the same operation overrides an earlier one). When every
  operation is listed once, it is the rate of its entry.
\<close>

definition strategy_rate ::
  "OperationSamplingStrategy list \<Rightarrow> string \<Rightarrow> float64 option" where
  "strategy_rate strategies op =
     map_option SamplingRate (find (\<lambda>st. Operation st = op) (rev strategies))"

text \<open>
  The body of the loop of \<^verbatim>\<open>update\<close> for one entry, as the composite it leaves
  under the operation or the error it stops with.
\<close>

definition update_step ::
  "samplers_map \<Rightarrow> OperationSamplingStrategy \<Rightarrow> float64 \<Rightarrow> real
     \<Rightarrow> error + GuaranteedThroughputProbabilisticSampler" where
  "update_step m strategy lowerBound now =
     (case fmlookup m (Operation strategy) of
        Some c \<Rightarrow>
          (case GTPS_update c lowerBound (SamplingRate strategy) now of
             (Some err, _) \<Rightarrow> Inl err
           | (None, c') \<Rightarrow> Inr c')
      | None \<Rightarrow>
          NewGuaranteedThroughputProbabilisticSampler
            (Operation strategy) lowerBound (SamplingRate strategy) now)"

subsection \<open>Inputs and states used in the examples\<close>

text \<open>
  The composite \<^verbatim>\<open>NewGuaranteedThroughputProbabilisticSampler("op", 1.0, 0.0)\<close> built
  at time 0, with the balance of its limiter left open: 1 when new, 0 after one call.
\<close>

abbreviation example_composite :: "real \<Rightarrow> GuaranteedThroughputProbabilisticSampler" where
  "example_composite bal \<equiv>
     \<lparr>probabilisticSampler =
        \<lparr>SamplingBoundary = 0,
         p_tags = mkTags SamplerTypeProbabilistic (FloatValue (Finite 0))\<rparr>,
      lowerBoundSampler =
        \<lparr>maxTracesPerSecond = Finite 1,
         rateLimiter = \<lparr>creditsPerSecond = 1, balance = bal, maxBalance = 1, lastTick = 0\<rparr>,
         r_tags = mkTags SamplerTypeRateLimiting (FloatValue (Finite 1))\<rparr>,
      operation = ''op'',
      g_tags = mkTags SamplerTypeLowerBound (FloatValue (Finite 0)),
      samplingRate = Finite 0,
      g_lowerBound = Finite 1\<rparr>"

text \<open>
  In general: the composite of an operation with a lower bound and a rate that are
  numbers, given with the boundary of the rate, the time its limiter was made and the
  balance of the limiter.
\<close>

abbreviation example_gtps ::
  "string \<Rightarrow> real \<Rightarrow> real \<Rightarrow> 64 word \<Rightarrow> real \<Rightarrow> real
     \<Rightarrow> GuaranteedThroughputProbabilisticSampler" where
  "example_gtps op lb rate boundary made bal \<equiv>
     \<lparr>probabilisticSampler =
        \<lparr>SamplingBoundary = boundary,
         p_tags = mkTags SamplerTypeProbabilistic (FloatValue (Finite rate))\<rparr>,
      lowerBoundSampler =
        \<lparr>maxTracesPerSecond = Finite lb,
         rateLimiter =
           \<lparr>creditsPerSecond = lb, balance = bal, maxBalance = max lb 1, lastTick = made\<rparr>,
         r_tags = mkTags SamplerTypeRateLimiting (FloatValue (Finite lb))\<rparr>,
      operation = op,
      g_tags = mkTags SamplerTypeLowerBound (FloatValue (Finite rate)),
      samplingRate = Finite rate,
      g_lowerBound = Finite lb\<rparr>"

text \<open>
  The rate-limiting sampler \<^verbatim>\<open>NewRateLimitingSampler(2)\<close> built at time 60, with the
  balance of its limiter left open.
\<close>

abbreviation example_limiter :: "real \<Rightarrow> rateLimitingSampler" where
  "example_limiter bal \<equiv>
     \<lparr>maxTracesPerSecond = Finite 2,
      rateLimiter = \<lparr>creditsPerSecond = 2, balance = bal, maxBalance = 2, lastTick = 60\<rparr>,
      r_tags = mkTags SamplerTypeRateLimiting (FloatValue (Finite 2))\<rparr>"

text \<open>
  Strategies with lower bound 1, and the adaptive sampler built from such strategies
  with default probability 0 at time 0, with its map and its cap left open.
\<close>

abbreviation example_strategies ::
  "float64 \<Rightarrow> OperationSamplingStrategy list \<Rightarrow> PerOperationSamplingStrategies" where
  "example_strategies p sts \<equiv>
     \<lparr>DefaultSamplingProbability = p,
      DefaultLowerBoundTracesPerSecond = Finite 1,
      PerOperationStrategies = sts\<rparr>"

abbreviation example_adaptive :: "samplers_map \<Rightarrow> int \<Rightarrow> adaptiveSampler" where
  "example_adaptive m maxOps \<equiv>
     \<lparr>samplers = m,
      defaultSampler =
        \<lparr>SamplingBoundary = 0,
         p_tags = mkTags SamplerTypeProbabilistic (FloatValue (Finite 0))\<rparr>,
      defaultSamplingProbability = Finite 0,
      a_lowerBound = Finite 1,
      a_maxOperations = maxOps\<rparr>"

text \<open>
  The adaptive sampler built at time 0 with cap 5 from strategies that list
  \<^verbatim>\<open>keep\<close> and \<^verbatim>\<open>op\<close> at rate 0, with the balance of the limiter of \<^verbatim>\<open>op\<close> left
  open; strategies with default probability 1/2 and lower bound 2 that list \<^verbatim>\<open>op\<close>
  at rate 1/2 and \<^verbatim>\<open>fresh\<close> at rate 1; an adaptive sampler with default probability
  1/2 and lower bound 2, with its map and its cap left open; and the adaptive sampler
  after an update of the first one with these strategies at time 10.
\<close>

abbreviation example_listed :: "real \<Rightarrow> adaptiveSampler" where
  "example_listed bal \<equiv>
     example_adaptive
       (fmupd ''op'' (example_composite bal)
          (fmupd ''keep'' (example_gtps ''keep'' 1 0 0 0 1) fmempty)) 5"

abbreviation example_update :: PerOperationSamplingStrategies where
  "example_update \<equiv>
     \<lparr>DefaultSamplingProbability = Finite (1 / 2),
      DefaultLowerBoundTracesPerSecond = Finite 2,
      PerOperationStrategies =
        [\<lparr>Operation = ''op'', SamplingRate = Finite (1 / 2)\<rparr>,
         \<lparr>Operation = ''fresh'', SamplingRate = Finite 1\<rparr>]\<rparr>"

abbreviation example_adaptive_half :: "samplers_map \<Rightarrow> int \<Rightarrow> adaptiveSampler" where
  "example_adaptive_half m maxOps \<equiv>
     \<lparr>samplers = m,
      defaultSampler =
        \<lparr>SamplingBoundary = 2 ^ 62,
         p_tags = mkTags SamplerTypeProbabilistic (FloatValue (Finite (1 / 2)))\<rparr>,
      defaultSamplingProbability = Finite (1 / 2),
      a_lowerBound = Finite 2,
      a_maxOperations = maxOps\<rparr>"

abbreviation example_updated :: adaptiveSampler where
  "example_updated \<equiv>
     example_adaptive_half
       (fmupd ''fresh'' (example_gtps ''fresh'' 2 1 (2 ^ 63) 10 2)
          (fmupd ''op'' (example_gtps ''op'' 2 (1 / 2) (2 ^ 62) 10 2)
             (fmupd ''keep'' (example_gtps ''keep'' 1 0 0 0 1) fmempty))) 5"

text \<open>
  A controller holding a given sampler, with given counts of retrieved and updated
  samplers and no failure counted.
\<close>

abbreviation example_controller :: "Sampler \<Rightarrow> nat \<Rightarrow> nat \<Rightarrow> RemotelyControlledSampler" where
  "example_controller smp retrieved updated \<equiv>
     \<lparr>sampler = smp,
      metrics = \<lparr>SamplerRetrieved = retrieved, SamplerUpdated = updated,
                 SamplerUpdateFailure = 0, SamplerQueryFailure = 0,
                 SamplerParsingFailure = 0\<rparr>,
      maxOperations = 2000\<rparr>"

text \<open>
  The adaptive sampler built at time 0 from strategies without operations, with lower
  bound 1 and NaN as default probability.
\<close>

abbreviation example_adaptive_NaN :: "int \<Rightarrow> adaptiveSampler" where
  "example_adaptive_NaN maxOps \<equiv>
     \<lparr>samplers = fmempty,
      defaultSampler =
        \<lparr>SamplingBoundary = samplingBoundary NaN,
         p_tags = mkTags SamplerTypeProbabilistic (FloatValue NaN)\<rparr>,
      defaultSamplingProbability = NaN,
      a_lowerBound = Finite 1,
      a_maxOperations = maxOps\<rparr>"

section \<open>Properties of the floating-point comparisons\<close>

lemma accepted_Finite [simp]: "accepted (Finite x) = (0 \<le> x \<and> x \<le> 1)"
  by (auto simp: accepted_def f_gt_def)

lemma accepted_NaN [simp]: "accepted NaN"
  by (simp add: accepted_def f_gt_def)

lemma accepted_PosInf [simp]: "\<not> accepted PosInf"
  by (simp add: accepted_def f_gt_def)

lemma accepted_NegInf [simp]: "\<not> accepted NegInf"
  by (simp add: accepted_def f_gt_def)

lemma accepted_cases: "accepted rate = ((\<exists>x. rate = Finite x \<and> 0 \<le> x \<and> x \<le> 1) \<or> rate = NaN)"
  by (cases rate) simp_all

lemma f_ne_same: "\<not> f_ne a b \<Longrightarrow> a = b"
  by (cases a; cases b) simp_all

lemma f_ne_NaN [simp]: "f_ne a NaN"
  by (cases a) simp_all

lemma f_ne_Finite [simp]: "f_ne (Finite x) (Finite y) = (x \<noteq> y)"
  by simp

lemma f_ne_accepted: "accepted a \<Longrightarrow> \<not> accepted b \<Longrightarrow> f_ne a b"
  by (cases a; cases b) auto

lemma f_eq_Finite [simp]: "f_eq (Finite x) (Finite y) = (x = y)"
  by (simp add: f_eq_def)

section \<open>Properties of the probabilistic sampler\<close>

lemma NewProbabilisticSampler_Inr:
  "accepted rate \<Longrightarrow>
   NewProbabilisticSampler rate =
     Inr \<lparr>SamplingBoundary = samplingBoundary rate,
          p_tags = mkTags SamplerTypeProbabilistic (FloatValue rate)\<rparr>"
  by (simp add: NewProbabilisticSampler_def accepted_def)

lemma NewProbabilisticSampler_Inl:
  "\<not> accepted rate \<Longrightarrow>
   NewProbabilisticSampler rate = Inl (SamplingRateOutOfRange rate)"
  by (simp add: NewProbabilisticSampler_def accepted_def)

lemma NewProbabilisticSampler_InrD:
  "NewProbabilisticSampler rate = Inr p \<Longrightarrow>
   accepted rate \<and>
   p = \<lparr>SamplingBoundary = samplingBoundary rate,
        p_tags = mkTags SamplerTypeProbabilistic (FloatValue rate)\<rparr>"
  by (auto simp: NewProbabilisticSampler_def accepted_def split: if_splits)

lemma samplingBoundary_0: "samplingBoundary (Finite 0) = 0"
  by simp

lemma samplingBoundary_1: "samplingBoundary (Finite 1) = 2 ^ 63"
  by (simp add: float64_maxRandomNumber_def)

text \<open>
  Claim C6. \<^verbatim>\<open>NewProbabilisticSampler(rate)\<close> returns an error exactly when
  \<open>rate < 0\<close> or \<open>rate > 1\<close>, and returns a sampler for every rate in \<open>[0, 1]\<close>;
  the constructions at \<open>-0.01\<close> and at \<open>1.01\<close> both fail. The first two lines are
  about every \<^verbatim>\<open>float64\<close>, with the comparisons of the source; the next two say the
  same of a rate that is a number, in the order of the reals.
\<close>

theorem NewProbabilisticSampler_fails_iff:
  "(\<exists>err. NewProbabilisticSampler rate = Inl err)
     = (f_lt rate (Finite 0) \<or> f_gt rate (Finite 1))
   \<and> (\<exists>p. NewProbabilisticSampler rate = Inr p)
       = (\<not> f_lt rate (Finite 0) \<and> \<not> f_gt rate (Finite 1))
   \<and> (\<exists>err. NewProbabilisticSampler (Finite x) = Inl err) = (x < 0 \<or> x > 1)
   \<and> (\<exists>p. NewProbabilisticSampler (Finite x) = Inr p) = (0 \<le> x \<and> x \<le> 1)
   \<and> NewProbabilisticSampler (Finite (- 0.01)) = Inl (SamplingRateOutOfRange (Finite (- 0.01)))
   \<and> NewProbabilisticSampler (Finite 1.01) = Inl (SamplingRateOutOfRange (Finite 1.01))"
  by (auto simp: NewProbabilisticSampler_def f_gt_def)

text \<open>
  Claim C3. For every trace id in \<open>[0, 2^63)\<close> a probabilistic sampler of rate 0
  should return false and one of rate 1 should return true. The comment of
  \<^verbatim>\<open>NewProbabilisticSampler\<close> announces the test \<^verbatim>\<open>traceID < samplingRate * 2^63\<close>,
  but \<^verbatim>\<open>IsSampled\<close> compares with \<^verbatim>\<open>>=\<close>: at rate 0 the boundary is 0 and the
  trace id 0 is sampled.
\<close>

theorem ProbabilisticSampler_rate_0_samples_id_0:
  "NewProbabilisticSampler (Finite 0) =
     Inr \<lparr>SamplingBoundary = 0,
          p_tags = mkTags SamplerTypeProbabilistic (FloatValue (Finite 0))\<rparr>
   \<and> (0 :: 64 word) < 2 ^ 63
   \<and> ProbabilisticSampler_IsSampled
        \<lparr>SamplingBoundary = 0,
         p_tags = mkTags SamplerTypeProbabilistic (FloatValue (Finite 0))\<rparr>
        0 ''op''
      = (True, mkTags SamplerTypeProbabilistic (FloatValue (Finite 0)))"
  by (simp add: NewProbabilisticSampler_def f_gt_def ProbabilisticSampler_IsSampled_def)

text \<open>The rest of the sentence holds: rate 1 samples every id below \<open>2^63\<close>, and rate 0
  rejects every id but 0.\<close>

lemma ProbabilisticSampler_rate_1:
  "NewProbabilisticSampler (Finite 1) = Inr p \<Longrightarrow> tid < 2 ^ 63 \<Longrightarrow>
   fst (ProbabilisticSampler_IsSampled p tid op)"
  by (auto simp: ProbabilisticSampler_IsSampled_def samplingBoundary_1
      simp del: samplingBoundary.simps dest!: NewProbabilisticSampler_InrD)

lemma ProbabilisticSampler_rate_0:
  "NewProbabilisticSampler (Finite 0) = Inr p \<Longrightarrow>
   fst (ProbabilisticSampler_IsSampled p tid op) = (tid = 0)"
  by (auto simp: ProbabilisticSampler_IsSampled_def dest!: NewProbabilisticSampler_InrD)

section \<open>Properties of the guaranteed-throughput sampler\<close>

lemma NewGTPS_InrD:
  "NewGuaranteedThroughputProbabilisticSampler op lowerBound rate now = Inr c \<Longrightarrow>
   accepted rate \<and>
   c = \<lparr>probabilisticSampler =
          \<lparr>SamplingBoundary = samplingBoundary rate,
           p_tags = mkTags SamplerTypeProbabilistic (FloatValue rate)\<rparr>,
        lowerBoundSampler = NewRateLimitingSampler lowerBound now,
        operation = op,
        g_tags = mkTags SamplerTypeLowerBound (FloatValue rate),
        samplingRate = rate,
        g_lowerBound = lowerBound\<rparr>"
  by (auto simp: NewGuaranteedThroughputProbabilisticSampler_def
      split: sum.splits dest!: NewProbabilisticSampler_InrD)

lemma NewGTPS_Inr:
  "accepted rate \<Longrightarrow>
   NewGuaranteedThroughputProbabilisticSampler op lowerBound rate now =
     Inr \<lparr>probabilisticSampler =
          \<lparr>SamplingBoundary = samplingBoundary rate,
           p_tags = mkTags SamplerTypeProbabilistic (FloatValue rate)\<rparr>,
        lowerBoundSampler = NewRateLimitingSampler lowerBound now,
        operation = op,
        g_tags = mkTags SamplerTypeLowerBound (FloatValue rate),
        samplingRate = rate,
        g_lowerBound = lowerBound\<rparr>"
  by (simp add: NewGuaranteedThroughputProbabilisticSampler_def NewProbabilisticSampler_Inr)

lemma NewGTPS_Inl:
  "\<not> accepted rate \<Longrightarrow>
   NewGuaranteedThroughputProbabilisticSampler op lowerBound rate now =
     Inl (SamplingRateOutOfRange rate)"
  by (simp add: NewGuaranteedThroughputProbabilisticSampler_def NewProbabilisticSampler_Inl)

lemma NewGTPS_inv:
  "NewGuaranteedThroughputProbabilisticSampler op lowerBound rate now = Inr c \<Longrightarrow> GTPS_inv c"
  by (auto simp: GTPS_inv_def dest!: NewGTPS_InrD)

lemma GTPS_update_inv:
  "GTPS_inv c \<Longrightarrow> GTPS_inv (snd (GTPS_update c lowerBound rate now))"
  by (simp add: GTPS_inv_def GTPS_update_def NewProbabilisticSampler_def accepted_def)

lemma GTPS_IsSampled_inv:
  "GTPS_inv c \<Longrightarrow> GTPS_inv (snd (GTPS_IsSampled c tid op now))"
  by (simp add: GTPS_inv_def GTPS_IsSampled_def ProbabilisticSampler_IsSampled_def
      rateLimitingSampler_IsSampled_def split: prod.split bool.split)

lemma GTPS_run_inv: "GTPS_inv c \<Longrightarrow> GTPS_inv (GTPS_run c calls)"
  unfolding GTPS_run_def
proof (induction calls arbitrary: c)
  case Nil
  then show ?case by simp
next
  case (Cons x xs)
  have "GTPS_inv (GTPS_call c x)"
    using Cons.prems by (cases x) (simp_all add: GTPS_update_inv GTPS_IsSampled_inv)
  then show ?case using Cons.IH by simp
qed

lemma GTPS_update_ok:
  "accepted rate \<Longrightarrow> fst (GTPS_update c lowerBound rate now) = None"
  by (simp add: GTPS_update_def NewProbabilisticSampler_Inr)

lemma GTPS_update_rate:
  "GTPS_update c lowerBound rate now = (None, c') \<Longrightarrow> samplingRate c' = rate \<and> g_lowerBound c' = lowerBound"
  by (auto simp: GTPS_update_def split: sum.splits if_splits
      dest!: NewProbabilisticSampler_InrD f_ne_same)

lemma GTPS_update_fail:
  "GTPS_inv c \<Longrightarrow> \<not> accepted rate \<Longrightarrow>
   GTPS_update c lowerBound rate now = (Some (SamplingRateOutOfRange rate), c)"
  by (simp add: GTPS_update_def GTPS_inv_def NewProbabilisticSampler_Inl f_ne_accepted)

lemma GTPS_update_error_unchanged:
  "GTPS_update c lowerBound rate now = (Some err, c') \<Longrightarrow> c' = c"
  by (auto simp: GTPS_update_def split: sum.splits if_splits)

lemma example_composite_new:
  "NewGuaranteedThroughputProbabilisticSampler ''op'' (Finite 1) (Finite 0) 0
     = Inr (example_composite 1)"
  by (simp add: NewGuaranteedThroughputProbabilisticSampler_def NewProbabilisticSampler_def
      f_gt_def NewRateLimitingSampler_def NewRateLimiter_def)

lemma example_composite_first:
  "GTPS_IsSampled (example_composite 1) 5 ''op'' 0 =
     ((True, mkTags SamplerTypeLowerBound (FloatValue (Finite 0))), example_composite 0)"
  by (simp add: GTPS_IsSampled_def ProbabilisticSampler_IsSampled_def
      rateLimitingSampler_IsSampled_def CheckCredit_def)

lemma example_composite_second:
  "GTPS_IsSampled (example_composite 0) 5 ''op'' 0 =
     ((False, mkTags SamplerTypeLowerBound (FloatValue (Finite 0))), example_composite 0)"
  by (simp add: GTPS_IsSampled_def ProbabilisticSampler_IsSampled_def
      rateLimitingSampler_IsSampled_def CheckCredit_def)

lemma rateLimitingSampler_IsSampled_eq:
  "rateLimitingSampler_IsSampled l tid op now =
     ((fst (CheckCredit (rateLimiter l) 1 now), r_tags l),
      l\<lparr>rateLimiter := snd (CheckCredit (rateLimiter l) 1 now)\<rparr>)"
  by (simp add: rateLimitingSampler_IsSampled_def split: prod.split)

lemma CheckCredit_granted:
  "fst (CheckCredit b cost now) \<Longrightarrow>
   balance (snd (CheckCredit b cost now)) =
     min (maxBalance b) (balance b + (now - lastTick b) * creditsPerSecond b) - cost"
  by (simp add: CheckCredit_def Let_def split: if_splits)

lemma GTPS_IsSampled_accepted:
  "fst (ProbabilisticSampler_IsSampled (probabilisticSampler s) tid op) \<Longrightarrow>
   GTPS_IsSampled s tid op now =
     ((True, snd (ProbabilisticSampler_IsSampled (probabilisticSampler s) tid op)),
      s\<lparr>lowerBoundSampler :=
           snd (rateLimitingSampler_IsSampled (lowerBoundSampler s) tid op now)\<rparr>)"
  by (simp add: GTPS_IsSampled_def ProbabilisticSampler_IsSampled_def split: prod.split)

lemma GTPS_IsSampled_rejected:
  "\<not> fst (ProbabilisticSampler_IsSampled (probabilisticSampler s) tid op) \<Longrightarrow>
   GTPS_IsSampled s tid op now =
     ((fst (fst (rateLimitingSampler_IsSampled (lowerBoundSampler s) tid op now)), g_tags s),
      s\<lparr>lowerBoundSampler :=
           snd (rateLimitingSampler_IsSampled (lowerBoundSampler s) tid op now)\<rparr>)"
  by (simp add: GTPS_IsSampled_def ProbabilisticSampler_IsSampled_def split: prod.split)

lemma GTPS_inv_p_tags:
  "GTPS_inv s \<Longrightarrow>
   p_tags (probabilisticSampler s) =
     [\<lparr>key = ''sampler.type'', val = StringValue ''probabilistic''\<rparr>,
      \<lparr>key = ''sampler.param'', val = FloatValue (samplingRate s)\<rparr>]"
  by (simp add: GTPS_inv_def mkTags_def SamplerTypeTagKey_def
      SamplerParamTagKey_def SamplerTypeProbabilistic_def)

lemma GTPS_inv_g_tags:
  "GTPS_inv s \<Longrightarrow>
   g_tags s =
     [\<lparr>key = ''sampler.type'', val = StringValue ''lowerbound''\<rparr>,
      \<lparr>key = ''sampler.param'', val = FloatValue (samplingRate s)\<rparr>]"
  by (simp add: GTPS_inv_def mkTags_def SamplerTypeTagKey_def
      SamplerParamTagKey_def SamplerTypeLowerBound_def)

text \<open>
  Claim C1. For a composite at any point of its lifetime, every trace id and every
  operation: if the inner probabilistic sampler accepts the id, \<^verbatim>\<open>IsSampled\<close> also
  calls the lower-bound limiter (which takes one token when it has one) and returns
  true with the probabilistic tags; otherwise it asks the lower-bound limiter and, if
  that grants a token, returns true with the tags \<^verbatim>\<open>sampler.type = lowerbound\<close> and
  \<^verbatim>\<open>sampler.param\<close> the probabilistic sampling rate.
\<close>

theorem GTPS_IsSampled_two_branches:
  assumes "NewGuaranteedThroughputProbabilisticSampler op0 lowerBound0 rate0 t0 = Inr s0"
    and "GTPS_run s0 calls = s"
  shows "(fst (ProbabilisticSampler_IsSampled (probabilisticSampler s) tid op) \<longrightarrow>
            GTPS_IsSampled s tid op now =
              ((True, [\<lparr>key = ''sampler.type'', val = StringValue ''probabilistic''\<rparr>,
                       \<lparr>key = ''sampler.param'', val = FloatValue (samplingRate s)\<rparr>]),
               s\<lparr>lowerBoundSampler :=
                    snd (rateLimitingSampler_IsSampled (lowerBoundSampler s) tid op now)\<rparr>)
            \<and> snd (ProbabilisticSampler_IsSampled (probabilisticSampler s) tid op) =
                [\<lparr>key = ''sampler.type'', val = StringValue ''probabilistic''\<rparr>,
                 \<lparr>key = ''sampler.param'', val = FloatValue (samplingRate s)\<rparr>])
       \<and> (\<not> fst (ProbabilisticSampler_IsSampled (probabilisticSampler s) tid op)
            \<and> fst (fst (rateLimitingSampler_IsSampled (lowerBoundSampler s) tid op now)) \<longrightarrow>
            GTPS_IsSampled s tid op now =
              ((True, [\<lparr>key = ''sampler.type'', val = StringValue ''lowerbound''\<rparr>,
                       \<lparr>key = ''sampler.param'', val = FloatValue (samplingRate s)\<rparr>]),
               s\<lparr>lowerBoundSampler :=
                    snd (rateLimitingSampler_IsSampled (lowerBoundSampler s) tid op now)\<rparr>))
       \<and> rateLimiter (snd (rateLimitingSampler_IsSampled (lowerBoundSampler s) tid op now)) =
            snd (CheckCredit (rateLimiter (lowerBoundSampler s)) 1 now)
       \<and> fst (fst (rateLimitingSampler_IsSampled (lowerBoundSampler s) tid op now)) =
            fst (CheckCredit (rateLimiter (lowerBoundSampler s)) 1 now)
       \<and> (fst (CheckCredit (rateLimiter (lowerBoundSampler s)) 1 now) \<longrightarrow>
            balance (snd (CheckCredit (rateLimiter (lowerBoundSampler s)) 1 now)) =
              min (maxBalance (rateLimiter (lowerBoundSampler s)))
                  (balance (rateLimiter (lowerBoundSampler s))
                   + (now - lastTick (rateLimiter (lowerBoundSampler s)))
                     * creditsPerSecond (rateLimiter (lowerBoundSampler s))) - 1)"
proof -
  have inv: "GTPS_inv s"
    using assms NewGTPS_inv GTPS_run_inv by blast
  have ptags: "snd (ProbabilisticSampler_IsSampled (probabilisticSampler s) tid op) =
                [\<lparr>key = ''sampler.type'', val = StringValue ''probabilistic''\<rparr>,
                 \<lparr>key = ''sampler.param'', val = FloatValue (samplingRate s)\<rparr>]"
    using GTPS_inv_p_tags [OF inv] by (simp add: ProbabilisticSampler_IsSampled_def)
  have lim: "rateLimiter (snd (rateLimitingSampler_IsSampled (lowerBoundSampler s) tid op now))
               = snd (CheckCredit (rateLimiter (lowerBoundSampler s)) 1 now)"
    and grant: "fst (fst (rateLimitingSampler_IsSampled (lowerBoundSampler s) tid op now)) =
            fst (CheckCredit (rateLimiter (lowerBoundSampler s)) 1 now)"
    by (simp_all add: rateLimitingSampler_IsSampled_eq)
  show ?thesis
    using GTPS_IsSampled_accepted [of s tid op now] GTPS_IsSampled_rejected [of s tid op now]
      ptags GTPS_inv_g_tags [OF inv] lim grant
      CheckCredit_granted [of "rateLimiter (lowerBoundSampler s)" 1 now]
    by simp
qed

theorem GTPS_IsSampled_two_branches_witness:
  "NewGuaranteedThroughputProbabilisticSampler ''op'' (Finite 1) (Finite 0) 0
     = Inr (example_composite 1)
   \<and> GTPS_run (example_composite 1) [] = example_composite 1
   \<and> fst (ProbabilisticSampler_IsSampled (probabilisticSampler (example_composite 1)) 0 ''op'')
   \<and> GTPS_IsSampled (example_composite 1) 0 ''op'' 0 =
       ((True, [\<lparr>key = ''sampler.type'', val = StringValue ''probabilistic''\<rparr>,
                \<lparr>key = ''sampler.param'', val = FloatValue (Finite 0)\<rparr>]),
        example_composite 0)
   \<and> \<not> fst (ProbabilisticSampler_IsSampled (probabilisticSampler (example_composite 1)) 5 ''op'')
   \<and> fst (fst (rateLimitingSampler_IsSampled (lowerBoundSampler (example_composite 1)) 5 ''op'' 0))
   \<and> GTPS_IsSampled (example_composite 1) 5 ''op'' 0 =
       ((True, [\<lparr>key = ''sampler.type'', val = StringValue ''lowerbound''\<rparr>,
                \<lparr>key = ''sampler.param'', val = FloatValue (Finite 0)\<rparr>]),
        example_composite 0)"
proof -
  have new: "NewGuaranteedThroughputProbabilisticSampler ''op'' (Finite 1) (Finite 0) 0
     = Inr (example_composite 1)"
    by (rule example_composite_new)
  have run: "GTPS_run (example_composite 1) [] = example_composite 1"
    by (simp add: GTPS_run_def)
  show ?thesis
    using new run
      GTPS_IsSampled_two_branches [OF new run, of 0 "''op''" 0]
      GTPS_IsSampled_two_branches [OF new run, of 5 "''op''" 0]
    by (simp add: ProbabilisticSampler_IsSampled_def rateLimitingSampler_IsSampled_def
        CheckCredit_def mkTags_def SamplerTypeTagKey_def SamplerParamTagKey_def
        SamplerTypeLowerBound_def SamplerTypeProbabilistic_def SamplerTypeRateLimiting_def)
qed

text \<open>
  Claim C7, as the spec states it: when the probabilistic sampler rejects the id and
  the limiter declines, \<^verbatim>\<open>IsSampled\<close> returns false and nil tags. The second of two
  calls made at the same instant on a new composite of rate 0 is such a call, and it
  returns the lower-bound tags of the composite.
\<close>

theorem GTPS_IsSampled_declined_nil_tags_counterexample:
  "NewGuaranteedThroughputProbabilisticSampler ''op'' (Finite 1) (Finite 0) 0
     = Inr (example_composite 1)
   \<and> snd (GTPS_IsSampled (example_composite 1) 5 ''op'' 0) = example_composite 0
   \<and> \<not> fst (ProbabilisticSampler_IsSampled (probabilisticSampler (example_composite 0)) 5 ''op'')
   \<and> \<not> fst (fst (rateLimitingSampler_IsSampled
                     (lowerBoundSampler (example_composite 0)) 5 ''op'' 0))
   \<and> fst (GTPS_IsSampled (example_composite 0) 5 ''op'' 0) =
       (False, [\<lparr>key = ''sampler.type'', val = StringValue ''lowerbound''\<rparr>,
                \<lparr>key = ''sampler.param'', val = FloatValue (Finite 0)\<rparr>])
   \<and> fst (GTPS_IsSampled (example_composite 0) 5 ''op'' 0) \<noteq> (False, [])"
proof -
  have first: "snd (GTPS_IsSampled (example_composite 1) 5 ''op'' 0) = example_composite 0"
    by (simp only: example_composite_first snd_conv)
  have rej: "\<not> fst (ProbabilisticSampler_IsSampled
                      (probabilisticSampler (example_composite 0)) 5 ''op'')"
    by (simp add: ProbabilisticSampler_IsSampled_def)
  have dec: "\<not> fst (fst (rateLimitingSampler_IsSampled
                     (lowerBoundSampler (example_composite 0)) 5 ''op'' 0))"
    by (simp add: rateLimitingSampler_IsSampled_def CheckCredit_def)
  have second: "fst (GTPS_IsSampled (example_composite 0) 5 ''op'' 0) =
       (False, [\<lparr>key = ''sampler.type'', val = StringValue ''lowerbound''\<rparr>,
                \<lparr>key = ''sampler.param'', val = FloatValue (Finite 0)\<rparr>])"
    by (simp only: example_composite_second fst_conv)
      (simp add: mkTags_def SamplerTypeTagKey_def SamplerParamTagKey_def
        SamplerTypeLowerBound_def)
  have "fst (GTPS_IsSampled (example_composite 0) 5 ''op'' 0) \<noteq> (False, [])"
    by (simp only: second) simp
  with example_composite_new first rej dec second show ?thesis
    by blast
qed

text \<open>
  Claim C7, amended. For a composite at any point of its lifetime: when the
  probabilistic sampler rejects the id and the limiter declines, \<^verbatim>\<open>IsSampled\<close>
  returns false together with the tags of the composite, \<^verbatim>\<open>sampler.type = lowerbound\<close>
  and \<^verbatim>\<open>sampler.param\<close> the sampling rate; the limiter has been asked once.
\<close>

theorem GTPS_IsSampled_declined:
  assumes "NewGuaranteedThroughputProbabilisticSampler op0 lowerBound0 rate0 t0 = Inr s0"
    and "GTPS_run s0 calls = s"
    and "\<not> fst (ProbabilisticSampler_IsSampled (probabilisticSampler s) tid op)"
    and "\<not> fst (fst (rateLimitingSampler_IsSampled (lowerBoundSampler s) tid op now))"
  shows "GTPS_IsSampled s tid op now =
           ((False, [\<lparr>key = ''sampler.type'', val = StringValue ''lowerbound''\<rparr>,
                     \<lparr>key = ''sampler.param'', val = FloatValue (samplingRate s)\<rparr>]),
            s\<lparr>lowerBoundSampler :=
                 snd (rateLimitingSampler_IsSampled (lowerBoundSampler s) tid op now)\<rparr>)"
proof -
  have inv: "GTPS_inv s"
    using assms(1,2) NewGTPS_inv GTPS_run_inv by blast
  show ?thesis
    using GTPS_IsSampled_rejected [OF assms(3), of now] assms(4) GTPS_inv_g_tags [OF inv]
    by simp
qed

theorem GTPS_IsSampled_declined_witness:
  "NewGuaranteedThroughputProbabilisticSampler ''op'' (Finite 1) (Finite 0) 0
     = Inr (example_composite 1)
   \<and> GTPS_run (example_composite 1) [GCallIsSampled 5 ''op'' 0] = example_composite 0
   \<and> \<not> fst (ProbabilisticSampler_IsSampled (probabilisticSampler (example_composite 0)) 5 ''op'')
   \<and> \<not> fst (fst (rateLimitingSampler_IsSampled
                     (lowerBoundSampler (example_composite 0)) 5 ''op'' 0))
   \<and> GTPS_IsSampled (example_composite 0) 5 ''op'' 0 =
       ((False, [\<lparr>key = ''sampler.type'', val = StringValue ''lowerbound''\<rparr>,
                 \<lparr>key = ''sampler.param'', val = FloatValue (Finite 0)\<rparr>]),
        example_composite 0)"
proof -
  have new: "NewGuaranteedThroughputProbabilisticSampler ''op'' (Finite 1) (Finite 0) 0
     = Inr (example_composite 1)"
    by (rule example_composite_new)
  have run: "GTPS_run (example_composite 1) [GCallIsSampled 5 ''op'' 0] = example_composite 0"
    by (simp add: GTPS_run_def example_composite_first)
  have rej: "\<not> fst (ProbabilisticSampler_IsSampled
                      (probabilisticSampler (example_composite 0)) 5 ''op'')"
    by (simp add: ProbabilisticSampler_IsSampled_def)
  have dec: "\<not> fst (fst (rateLimitingSampler_IsSampled
                     (lowerBoundSampler (example_composite 0)) 5 ''op'' 0))"
    by (simp add: rateLimitingSampler_IsSampled_def CheckCredit_def)
  show ?thesis
    using new run rej dec GTPS_IsSampled_declined [OF new run rej dec]
    by (simp add: rateLimitingSampler_IsSampled_def CheckCredit_def)
qed

section \<open>Properties of the adaptive sampler\<close>

lemma find_append_cases:
  "find P (xs @ ys) = (case find P xs of None \<Rightarrow> find P ys | Some x \<Rightarrow> Some x)"
  by (induction xs) simp_all

lemma strategy_rate_Nil: "strategy_rate [] op = None"
  by (simp add: strategy_rate_def)

lemma strategy_rate_Cons:
  "strategy_rate (st # rest) op =
     (case strategy_rate rest op of
        Some r \<Rightarrow> Some r
      | None \<Rightarrow> if Operation st = op then Some (SamplingRate st) else None)"
  by (simp add: strategy_rate_def find_append_cases split: option.split)

lemma strategy_rate_None: "(strategy_rate sts op = None) = (op \<notin> Operation ` set sts)"
  by (induction sts) (auto simp: strategy_rate_Nil strategy_rate_Cons split: option.split)

lemma strategy_rate_distinct:
  "distinct (map Operation sts) \<Longrightarrow> st \<in> set sts \<Longrightarrow>
   strategy_rate sts (Operation st) = Some (SamplingRate st)"
proof (induction sts)
  case Nil
  then show ?case by simp
next
  case (Cons a sts)
  show ?case
  proof (cases "st \<in> set sts")
    case True
    then show ?thesis using Cons by (simp add: strategy_rate_Cons)
  next
    case False
    then have "st = a" using Cons.prems by simp
    moreover have "strategy_rate sts (Operation a) = None"
      using Cons.prems by (simp add: strategy_rate_None)
    ultimately show ?thesis by (simp add: strategy_rate_Cons)
  qed
qed

lemma fmupd_same: "fmlookup m k = Some v \<Longrightarrow> fmupd k v m = m"
  by (rule fmap_ext) auto

lemma update_loop_Cons:
  "update_loop (st # rest) lb now m =
     (case update_step m st lb now of
        Inl err \<Rightarrow> (Some err, m)
      | Inr c \<Rightarrow> update_loop rest lb now (fmupd (Operation st) c m))"
proof (cases "fmlookup m (Operation st)")
  case None
  then show ?thesis by (simp add: update_step_def split: sum.split)
next
  case (Some c)
  obtain e c' where upd: "GTPS_update c lb (SamplingRate st) now = (e, c')"
    by (cases "GTPS_update c lb (SamplingRate st) now")
  show ?thesis
  proof (cases e)
    case None
    then show ?thesis using Some upd by (simp add: update_step_def)
  next
    case (Some err)
    then have "c' = c" using upd GTPS_update_error_unchanged by blast
    then show ?thesis
      using Some \<open>fmlookup m (Operation st) = Some c\<close> upd
      by (simp add: update_step_def fmupd_same)
  qed
qed

declare update_loop.simps(2) [simp del]

lemma update_step_rate:
  "update_step m st lb now = Inr c \<Longrightarrow> samplingRate c = SamplingRate st \<and> g_lowerBound c = lb"
  by (auto simp: update_step_def split: option.splits prod.splits
      dest: GTPS_update_rate dest!: NewGTPS_InrD)

lemma update_step_inv:
  assumes "fmpred (\<lambda>_. GTPS_inv) m" and "update_step m st lb now = Inr c"
  shows "GTPS_inv c"
proof (cases "fmlookup m (Operation st)")
  case None
  then show ?thesis using assms(2) by (simp add: update_step_def NewGTPS_inv)
next
  case (Some c0)
  then have "GTPS_inv c0" using assms(1) by auto
  then have "GTPS_inv (snd (GTPS_update c0 lb (SamplingRate st) now))"
    by (rule GTPS_update_inv)
  then show ?thesis
    using Some assms(2) by (auto simp: update_step_def split: prod.splits option.splits)
qed

lemma update_step_valid:
  assumes "accepted (SamplingRate st)"
  shows "\<exists>c. update_step m st lb now = Inr c"
proof (cases "fmlookup m (Operation st)")
  case None
  then show ?thesis using NewGTPS_Inr [OF assms] by (simp add: update_step_def)
next
  case (Some c0)
  then show ?thesis
    using GTPS_update_ok [OF assms, of c0 lb now]
    by (cases "GTPS_update c0 lb (SamplingRate st) now") (simp add: update_step_def)
qed

lemma update_step_invalid:
  assumes "fmpred (\<lambda>_. GTPS_inv) m" and "\<not> accepted (SamplingRate st)"
  shows "update_step m st lb now = Inl (SamplingRateOutOfRange (SamplingRate st))"
proof (cases "fmlookup m (Operation st)")
  case None
  then show ?thesis using NewGTPS_Inl [OF assms(2)] by (simp add: update_step_def)
next
  case (Some c0)
  then have "GTPS_inv c0" using assms(1) by auto
  then show ?thesis
    using Some GTPS_update_fail [OF _ assms(2), of c0 lb now] by (simp add: update_step_def)
qed

lemma update_loop_inv:
  "fmpred (\<lambda>_. GTPS_inv) m \<Longrightarrow> fmpred (\<lambda>_. GTPS_inv) (snd (update_loop sts lb now m))"
proof (induction sts arbitrary: m)
  case Nil
  then show ?case by simp
next
  case (Cons st sts)
  show ?case
  proof (cases "update_step m st lb now")
    case (Inl e)
    then show ?thesis using Cons.prems by (simp add: update_loop_Cons)
  next
    case (Inr c)
    then have "fmpred (\<lambda>_. GTPS_inv) (fmupd (Operation st) c m)"
      using Cons.prems update_step_inv by (intro fmpred_upd) auto
    then show ?thesis using Inr Cons.IH by (simp add: update_loop_Cons)
  qed
qed

lemma update_loop_dom:
  "op |\<in>| fmdom m \<Longrightarrow> op |\<in>| fmdom (snd (update_loop sts lb now m))"
proof (induction sts arbitrary: m)
  case Nil
  then show ?case by simp
next
  case (Cons st sts)
  show ?case
  proof (cases "update_step m st lb now")
    case (Inl e)
    then show ?thesis using Cons.prems by (simp add: update_loop_Cons)
  next
    case (Inr c)
    have "op |\<in>| fmdom (fmupd (Operation st) c m)" using Cons.prems by simp
    then show ?thesis using Inr Cons.IH by (simp add: update_loop_Cons)
  qed
qed

lemma update_loop_other:
  "op \<notin> Operation ` set sts \<Longrightarrow> fmlookup (snd (update_loop sts lb now m)) op = fmlookup m op"
proof (induction sts arbitrary: m)
  case Nil
  then show ?case by simp
next
  case (Cons st sts)
  show ?case
  proof (cases "update_step m st lb now")
    case (Inl e)
    then show ?thesis by (simp add: update_loop_Cons)
  next
    case (Inr c)
    have "fmlookup (snd (update_loop sts lb now (fmupd (Operation st) c m))) op
            = fmlookup (fmupd (Operation st) c m) op"
      using Cons.prems by (intro Cons.IH) simp
    then show ?thesis using Inr Cons.prems by (auto simp: update_loop_Cons)
  qed
qed

lemma update_loop_valid:
  "\<forall>st \<in> set sts. accepted (SamplingRate st) \<Longrightarrow>
   fst (update_loop sts lb now m) = None"
proof (induction sts arbitrary: m)
  case Nil
  then show ?case by simp
next
  case (Cons st sts)
  obtain c where "update_step m st lb now = Inr c"
    using update_step_valid [of st m lb now] Cons.prems by auto
  then show ?case using Cons by (simp add: update_loop_Cons)
qed

lemma update_loop_rate:
  "update_loop sts lb now m = (None, m') \<Longrightarrow> strategy_rate sts op = Some r \<Longrightarrow>
   \<exists>c. fmlookup m' op = Some c \<and> samplingRate c = r \<and> g_lowerBound c = lb"
proof (induction sts arbitrary: m)
  case Nil
  then show ?case by (simp add: strategy_rate_Nil)
next
  case (Cons st sts)
  from Cons.prems(1) obtain c where step: "update_step m st lb now = Inr c"
    and rest: "update_loop sts lb now (fmupd (Operation st) c m) = (None, m')"
    by (auto simp: update_loop_Cons split: sum.splits)
  show ?case
  proof (cases "strategy_rate sts op")
    case (Some r')
    then have "r' = r" using Cons.prems(2) by (simp add: strategy_rate_Cons)
    then show ?thesis using Cons.IH [OF rest] Some by simp
  next
    case None
    then have op: "Operation st = op" and r: "SamplingRate st = r"
      using Cons.prems(2) by (auto simp: strategy_rate_Cons split: if_splits)
    have "op \<notin> Operation ` set sts" using None by (simp add: strategy_rate_None)
    then have "fmlookup (snd (update_loop sts lb now (fmupd (Operation st) c m))) op
                 = fmlookup (fmupd (Operation st) c m) op"
      by (rule update_loop_other)
    then have "fmlookup m' op = Some c" using rest op by simp
    then show ?thesis using update_step_rate [OF step] r by simp
  qed
qed

lemma update_loop_append:
  "update_loop (pre @ post) lb now m =
     (case update_loop pre lb now m of
        (Some err, m') \<Rightarrow> (Some err, m')
      | (None, m') \<Rightarrow> update_loop post lb now m')"
proof (induction pre arbitrary: m)
  case Nil
  then show ?case by simp
next
  case (Cons st pre)
  show ?case
    by (cases "update_step m st lb now") (simp_all add: update_loop_Cons Cons.IH)
qed

lemma NewAdaptiveSampler_loop_inv:
  "fmpred (\<lambda>_. GTPS_inv) m \<Longrightarrow> NewAdaptiveSampler_loop sts lb now m = Inr m' \<Longrightarrow>
   fmpred (\<lambda>_. GTPS_inv) m'"
proof (induction sts arbitrary: m)
  case Nil
  then show ?case by simp
next
  case (Cons st sts)
  from Cons.prems(2) obtain c where
    new: "NewGuaranteedThroughputProbabilisticSampler (Operation st) lb (SamplingRate st) now = Inr c"
    and rest: "NewAdaptiveSampler_loop sts lb now (fmupd (Operation st) c m) = Inr m'"
    by (auto split: sum.splits)
  have "fmpred (\<lambda>_. GTPS_inv) (fmupd (Operation st) c m)"
    using Cons.prems(1) NewGTPS_inv [OF new] by (intro fmpred_upd)
  then show ?case using rest by (rule Cons.IH)
qed

lemma NewAdaptiveSampler_loop_dom:
  "NewAdaptiveSampler_loop sts lb now m = Inr m' \<Longrightarrow>
   fmdom m' = fmdom m |\<union>| fset_of_list (map Operation sts)"
proof (induction sts arbitrary: m)
  case Nil
  then show ?case by simp
next
  case (Cons st sts)
  from Cons.prems obtain c where
    rest: "NewAdaptiveSampler_loop sts lb now (fmupd (Operation st) c m) = Inr m'"
    by (auto split: sum.splits)
  show ?case using Cons.IH [OF rest] by auto
qed

lemma NewAdaptiveSampler_InrD:
  assumes "NewAdaptiveSampler strategies maxOps now = Inr s"
  shows "adaptive_inv s"
    and "fmdom (samplers s) = fset_of_list (map Operation (PerOperationStrategies strategies))"
    and "a_maxOperations s = maxOps"
    and "defaultSamplingProbability s = DefaultSamplingProbability strategies"
    and "a_lowerBound s = DefaultLowerBoundTracesPerSecond strategies"
proof -
  from assms obtain m d where
    loop: "NewAdaptiveSampler_loop (PerOperationStrategies strategies)
             (DefaultLowerBoundTracesPerSecond strategies) now fmempty = Inr m"
    and d: "NewProbabilisticSampler (DefaultSamplingProbability strategies) = Inr d"
    and s: "s = \<lparr>samplers = m, defaultSampler = d,
                 defaultSamplingProbability = DefaultSamplingProbability strategies,
                 a_lowerBound = DefaultLowerBoundTracesPerSecond strategies,
                 a_maxOperations = maxOps\<rparr>"
    by (auto simp: NewAdaptiveSampler_def split: sum.splits)
  have "fmpred (\<lambda>_. GTPS_inv) m"
    using NewAdaptiveSampler_loop_inv [OF _ loop] by simp
  then show "adaptive_inv s"
    using NewProbabilisticSampler_InrD [OF d] s by (simp add: adaptive_inv_def)
  show "fmdom (samplers s) = fset_of_list (map Operation (PerOperationStrategies strategies))"
    using NewAdaptiveSampler_loop_dom [OF loop] s by simp
  show "a_maxOperations s = maxOps"
    and "defaultSamplingProbability s = DefaultSamplingProbability strategies"
    and "a_lowerBound s = DefaultLowerBoundTracesPerSecond strategies"
    using s by simp_all
qed

text \<open>The two outcomes of update.\<close>

lemma adaptiveSampler_update_loop_error:
  "update_loop (PerOperationStrategies st) (DefaultLowerBoundTracesPerSecond st) now (samplers s)
     = (Some err, m) \<Longrightarrow>
   adaptiveSampler_update s st now = (Some err, s\<lparr>samplers := m\<rparr>)"
  by (simp add: adaptiveSampler_update_def)

lemma adaptiveSampler_update_loop_ok:
  "update_loop (PerOperationStrategies st) (DefaultLowerBoundTracesPerSecond st) now (samplers s)
     = (None, m) \<Longrightarrow>
   adaptiveSampler_update s st now =
     (if \<not> f_ne (defaultSamplingProbability s) (DefaultSamplingProbability st)
      then (None, s\<lparr>samplers := m, a_lowerBound := DefaultLowerBoundTracesPerSecond st\<rparr>)
      else if \<not> accepted (DefaultSamplingProbability st)
      then (Some (SamplingRateOutOfRange (DefaultSamplingProbability st)),
            s\<lparr>samplers := m, a_lowerBound := DefaultLowerBoundTracesPerSecond st\<rparr>)
      else (None, s\<lparr>samplers := m, a_lowerBound := DefaultLowerBoundTracesPerSecond st,
                     defaultSamplingProbability := DefaultSamplingProbability st,
                     defaultSampler :=
                       \<lparr>SamplingBoundary = samplingBoundary (DefaultSamplingProbability st),
                        p_tags = mkTags SamplerTypeProbabilistic
                                   (FloatValue (DefaultSamplingProbability st))\<rparr>\<rparr>))"
  by (simp add: adaptiveSampler_update_def NewProbabilisticSampler_def accepted_def Let_def)

lemma adaptiveSampler_update_samplers:
  "samplers (snd (adaptiveSampler_update s st now)) =
     snd (update_loop (PerOperationStrategies st) (DefaultLowerBoundTracesPerSecond st) now
            (samplers s))"
proof (cases "update_loop (PerOperationStrategies st) (DefaultLowerBoundTracesPerSecond st) now
            (samplers s)")
  case (Pair e m)
  show ?thesis
  proof (cases e)
    case None
    then show ?thesis using Pair adaptiveSampler_update_loop_ok [of st now s m] by simp
  next
    case (Some err)
    then show ?thesis using Pair adaptiveSampler_update_loop_error [of st now s err m] by simp
  qed
qed

lemma adaptiveSampler_update_maxOperations:
  "a_maxOperations (snd (adaptiveSampler_update s st now)) = a_maxOperations s"
proof (cases "update_loop (PerOperationStrategies st) (DefaultLowerBoundTracesPerSecond st) now
            (samplers s)")
  case (Pair e m)
  show ?thesis
  proof (cases e)
    case None
    then show ?thesis using Pair adaptiveSampler_update_loop_ok [of st now s m] by simp
  next
    case (Some err)
    then show ?thesis using Pair adaptiveSampler_update_loop_error [of st now s err m] by simp
  qed
qed

lemma adaptiveSampler_update_inv:
  assumes "adaptive_inv s"
  shows "adaptive_inv (snd (adaptiveSampler_update s st now))"
proof (cases "update_loop (PerOperationStrategies st) (DefaultLowerBoundTracesPerSecond st) now
            (samplers s)")
  case (Pair e m)
  have m: "fmpred (\<lambda>_. GTPS_inv) m"
    using update_loop_inv [of "samplers s" "PerOperationStrategies st"
        "DefaultLowerBoundTracesPerSecond st" now] assms Pair
    by (simp add: adaptive_inv_def)
  show ?thesis
  proof (cases e)
    case None
    then show ?thesis
      using Pair adaptiveSampler_update_loop_ok [of st now s m] assms m
      by (simp add: adaptive_inv_def)
  next
    case (Some err)
    then show ?thesis
      using Pair adaptiveSampler_update_loop_error [of st now s err m] assms m
      by (simp add: adaptive_inv_def)
  qed
qed

text \<open>The three branches of IsSampled.\<close>

lemma adaptiveSampler_IsSampled_present:
  "fmlookup (samplers s) op = Some c \<Longrightarrow>
   adaptiveSampler_IsSampled s tid op now =
     (fst (GTPS_IsSampled c tid op now),
      s\<lparr>samplers := fmupd op (snd (GTPS_IsSampled c tid op now)) (samplers s)\<rparr>)"
  by (simp add: adaptiveSampler_IsSampled_def split: prod.split)

lemma adaptiveSampler_IsSampled_default:
  "fmlookup (samplers s) op = None \<Longrightarrow>
   int (fcard (fmdom (samplers s))) \<ge> a_maxOperations s \<Longrightarrow>
   adaptiveSampler_IsSampled s tid op now =
     (ProbabilisticSampler_IsSampled (defaultSampler s) tid op, s)"
  by (simp add: adaptiveSampler_IsSampled_def)

lemma adaptiveSampler_IsSampled_create:
  "fmlookup (samplers s) op = None \<Longrightarrow>
   int (fcard (fmdom (samplers s))) < a_maxOperations s \<Longrightarrow>
   NewGuaranteedThroughputProbabilisticSampler op (a_lowerBound s)
     (defaultSamplingProbability s) now = Inr c \<Longrightarrow>
   adaptiveSampler_IsSampled s tid op now =
     (fst (GTPS_IsSampled c tid op now),
      s\<lparr>samplers := fmupd op (snd (GTPS_IsSampled c tid op now)) (samplers s)\<rparr>)"
  by (simp add: adaptiveSampler_IsSampled_def split: prod.split)

lemma adaptive_inv_create:
  "adaptive_inv s \<Longrightarrow>
   \<exists>c. NewGuaranteedThroughputProbabilisticSampler op (a_lowerBound s)
          (defaultSamplingProbability s) now = Inr c"
  by (simp add: adaptive_inv_def NewGTPS_Inr)

lemma adaptiveSampler_IsSampled_inv:
  assumes "adaptive_inv s"
  shows "adaptive_inv (snd (adaptiveSampler_IsSampled s tid op now))"
proof (cases "fmlookup (samplers s) op")
  case (Some c)
  then have "GTPS_inv c" using assms by (auto simp: adaptive_inv_def)
  then have "GTPS_inv (snd (GTPS_IsSampled c tid op now))" by (rule GTPS_IsSampled_inv)
  then have "fmpred (\<lambda>_. GTPS_inv) (fmupd op (snd (GTPS_IsSampled c tid op now)) (samplers s))"
    using assms by (intro fmpred_upd) (simp_all add: adaptive_inv_def)
  then show ?thesis
    using assms adaptiveSampler_IsSampled_present [OF Some] by (simp add: adaptive_inv_def)
next
  case None
  show ?thesis
  proof (cases "int (fcard (fmdom (samplers s))) \<ge> a_maxOperations s")
    case True
    then show ?thesis using assms adaptiveSampler_IsSampled_default [OF None] by simp
  next
    case False
    obtain c where c: "NewGuaranteedThroughputProbabilisticSampler op (a_lowerBound s)
          (defaultSamplingProbability s) now = Inr c"
      using adaptive_inv_create [OF assms] by blast
    have "GTPS_inv (snd (GTPS_IsSampled c tid op now))"
      using NewGTPS_inv [OF c] by (rule GTPS_IsSampled_inv)
    then have "fmpred (\<lambda>_. GTPS_inv) (fmupd op (snd (GTPS_IsSampled c tid op now)) (samplers s))"
      using assms by (intro fmpred_upd) (simp_all add: adaptive_inv_def)
    then show ?thesis
      using assms adaptiveSampler_IsSampled_create [OF None _ c] False
      by (simp add: adaptive_inv_def)
  qed
qed

lemma adaptive_run_inv: "adaptive_inv s \<Longrightarrow> adaptive_inv (adaptive_run s calls)"
  unfolding adaptive_run_def
proof (induction calls arbitrary: s)
  case Nil
  then show ?case by simp
next
  case (Cons x xs)
  have "adaptive_inv (adaptive_call s x)"
    using Cons.prems
    by (cases x) (simp_all add: adaptiveSampler_update_inv adaptiveSampler_IsSampled_inv)
  then show ?case using Cons.IH by simp
qed

lemma adaptive_reachable_inv:
  "NewAdaptiveSampler strategies maxOps t0 = Inr s0 \<Longrightarrow> adaptive_run s0 calls = s \<Longrightarrow>
   adaptive_inv s"
  using NewAdaptiveSampler_InrD(1) adaptive_run_inv by blast

lemma example_adaptive_new_empty:
  "NewAdaptiveSampler (example_strategies (Finite 0) []) maxOps 0
     = Inr (example_adaptive fmempty maxOps)"
  by (simp add: NewAdaptiveSampler_def NewProbabilisticSampler_def f_gt_def)

lemma example_adaptive_new_op:
  "NewAdaptiveSampler
     (example_strategies (Finite 0) [\<lparr>Operation = ''op'', SamplingRate = Finite 0\<rparr>]) maxOps 0
     = Inr (example_adaptive (fmupd ''op'' (example_composite 1) fmempty) maxOps)"
  by (simp add: NewAdaptiveSampler_def example_composite_new)
    (simp add: NewProbabilisticSampler_def f_gt_def)

section \<open>Properties of update on the adaptive sampler\<close>

lemma update_step_cong:
  "fmlookup m1 (Operation e) = fmlookup m (Operation e) \<Longrightarrow>
   update_step m1 e lb now = update_step m e lb now"
  by (simp add: update_step_def)

lemma update_loop_distinct_lookup:
  "update_loop sts lb now m = (None, m') \<Longrightarrow> distinct (map Operation sts) \<Longrightarrow>
   e \<in> set sts \<Longrightarrow>
   \<exists>c. update_step m e lb now = Inr c \<and> fmlookup m' (Operation e) = Some c"
proof (induction sts arbitrary: m)
  case Nil
  then show ?case by simp
next
  case (Cons st sts)
  from Cons.prems(1) obtain c where step: "update_step m st lb now = Inr c"
    and rest: "update_loop sts lb now (fmupd (Operation st) c m) = (None, m')"
    by (auto simp: update_loop_Cons split: sum.splits)
  have fresh: "Operation st \<notin> Operation ` set sts" and d: "distinct (map Operation sts)"
    using Cons.prems(2) by simp_all
  show ?case
  proof (cases "e \<in> set sts")
    case True
    then have "Operation e \<in> Operation ` set sts" by (rule imageI)
    then have ne: "Operation e \<noteq> Operation st" using fresh by metis
    from Cons.IH [OF rest d True] obtain c' where
      c': "update_step (fmupd (Operation st) c m) e lb now = Inr c'"
      "fmlookup m' (Operation e) = Some c'"
      by blast
    have "update_step (fmupd (Operation st) c m) e lb now = update_step m e lb now"
      using ne by (intro update_step_cong) simp
    then show ?thesis using c' by simp
  next
    case False
    then have e: "e = st" using Cons.prems(3) by simp
    have "fmlookup (snd (update_loop sts lb now (fmupd (Operation st) c m))) (Operation st)
            = fmlookup (fmupd (Operation st) c m) (Operation st)"
      using fresh by (rule update_loop_other)
    then have "fmlookup m' (Operation st) = Some c" using rest by simp
    then show ?thesis using step e by simp
  qed
qed

lemma update_step_Some:
  "update_step m e lb now = Inr c \<Longrightarrow> fmlookup m (Operation e) = Some c0 \<Longrightarrow>
   c = snd (GTPS_update c0 lb (SamplingRate e) now)
   \<and> fst (GTPS_update c0 lb (SamplingRate e) now) = None"
  by (auto simp: update_step_def split: prod.splits option.splits)

lemma update_step_None:
  "update_step m e lb now = Inr c \<Longrightarrow> fmlookup m (Operation e) = None \<Longrightarrow>
   NewGuaranteedThroughputProbabilisticSampler (Operation e) lb (SamplingRate e) now = Inr c"
  by (simp add: update_step_def)

lemma update_loop_dom_eq:
  "update_loop sts lb now m = (None, m') \<Longrightarrow>
   fmdom m' = fmdom m |\<union>| fset_of_list (map Operation sts)"
proof (induction sts arbitrary: m)
  case Nil
  then show ?case by simp
next
  case (Cons st sts)
  from Cons.prems obtain c where
    rest: "update_loop sts lb now (fmupd (Operation st) c m) = (None, m')"
    by (auto simp: update_loop_Cons split: sum.splits)
  show ?case using Cons.IH [OF rest] by auto
qed

lemma adaptiveSampler_update_valid:
  assumes "\<forall>e \<in> set (PerOperationStrategies st). accepted (SamplingRate e)"
    and "accepted (DefaultSamplingProbability st)"
  shows "fst (adaptiveSampler_update s st now) = None"
proof -
  obtain e m where loop: "update_loop (PerOperationStrategies st)
      (DefaultLowerBoundTracesPerSecond st) now (samplers s) = (e, m)"
    by (cases "update_loop (PerOperationStrategies st)
      (DefaultLowerBoundTracesPerSecond st) now (samplers s)")
  have "e = None"
    using update_loop_valid [OF assms(1), of "DefaultLowerBoundTracesPerSecond st" now "samplers s"]
      loop by simp
  then show ?thesis
    using adaptiveSampler_update_loop_ok [of st now s m] loop assms(2) by simp
qed

lemma update_loop_rate_inv:
  assumes "fmpred (\<lambda>_. GTPS_inv) m"
    and "update_loop sts lb now m = (None, m')"
    and "e \<in> set sts"
  shows "\<exists>c. fmlookup m' (Operation e) = Some c
           \<and> strategy_rate sts (Operation e) = Some (samplingRate c)
           \<and> g_lowerBound c = lb
           \<and> NewProbabilisticSampler (samplingRate c) = Inr (probabilisticSampler c)"
proof -
  obtain r where r: "strategy_rate sts (Operation e) = Some r"
    using assms(3) strategy_rate_None [of sts "Operation e"]
    by (cases "strategy_rate sts (Operation e)") auto
  obtain c where c: "fmlookup m' (Operation e) = Some c" "samplingRate c = r" "g_lowerBound c = lb"
    using update_loop_rate [OF assms(2) r] by blast
  have "fmpred (\<lambda>_. GTPS_inv) m'"
    using update_loop_inv [OF assms(1), of sts lb now] assms(2) by simp
  then have "GTPS_inv c" using c(1) by auto
  then have "accepted (samplingRate c)"
    and "probabilisticSampler c =
          \<lparr>SamplingBoundary = samplingBoundary (samplingRate c),
           p_tags = mkTags SamplerTypeProbabilistic (FloatValue (samplingRate c))\<rparr>"
    unfolding GTPS_inv_def by blast+
  then have "NewProbabilisticSampler (samplingRate c) = Inr (probabilisticSampler c)"
    using NewProbabilisticSampler_Inr [of "samplingRate c"] by simp
  then show ?thesis using c r by simp
qed



lemma update_loop_in_place:
  assumes "update_loop sts lb now m = (None, m')"
    and "distinct (map Operation sts)"
    and "e \<in> set sts"
  shows "\<exists>c. fmlookup m' (Operation e) = Some c
           \<and> samplingRate c = SamplingRate e
           \<and> (\<forall>c0. fmlookup m (Operation e) = Some c0 \<longrightarrow>
                  GTPS_update c0 lb (SamplingRate e) now = (None, c))
           \<and> (fmlookup m (Operation e) = None \<longrightarrow>
                  NewGuaranteedThroughputProbabilisticSampler (Operation e) lb (SamplingRate e) now
                    = Inr c)"
proof -
  obtain c where step: "update_step m e lb now = Inr c"
    and c: "fmlookup m' (Operation e) = Some c"
    using update_loop_distinct_lookup [OF assms] by blast
  have rate: "samplingRate c = SamplingRate e"
    using update_step_rate [OF step] by simp
  have old: "\<forall>c0. fmlookup m (Operation e) = Some c0 \<longrightarrow>
                  GTPS_update c0 lb (SamplingRate e) now = (None, c)"
  proof (intro allI impI)
    fix c0
    assume "fmlookup m (Operation e) = Some c0"
    from update_step_Some [OF step this]
    show "GTPS_update c0 lb (SamplingRate e) now = (None, c)"
      by (cases "GTPS_update c0 lb (SamplingRate e) now") simp
  qed
  have new: "fmlookup m (Operation e) = None \<longrightarrow>
                  NewGuaranteedThroughputProbabilisticSampler (Operation e) lb (SamplingRate e) now
                    = Inr c"
    using update_step_None [OF step] by (rule impI)
  show ?thesis
    by (rule exI [of _ c]) (intro conjI c rate old new)
qed

text \<open>The lifetime used as example for \<^verbatim>\<open>update\<close>, evaluated.\<close>

lemma example_half: "samplingBoundary (Finite (1 / 2)) = 2 ^ 62"
  by (simp add: float64_maxRandomNumber_def)

lemma example_keep_new:
  "NewGuaranteedThroughputProbabilisticSampler ''keep'' (Finite 1) (Finite 0) 0
     = Inr (example_gtps ''keep'' 1 0 0 0 1)"
  by (simp add: NewGuaranteedThroughputProbabilisticSampler_def NewProbabilisticSampler_def
      f_gt_def NewRateLimitingSampler_def NewRateLimiter_def)

lemma example_fresh_new:
  "NewGuaranteedThroughputProbabilisticSampler ''fresh'' (Finite 2) (Finite 1) 10
     = Inr (example_gtps ''fresh'' 2 1 (2 ^ 63) 10 2)"
  by (simp add: NewGuaranteedThroughputProbabilisticSampler_def NewProbabilisticSampler_def
      f_gt_def NewRateLimitingSampler_def NewRateLimiter_def float64_maxRandomNumber_def)

lemma example_op_update:
  "GTPS_update (example_composite 0) (Finite 2) (Finite (1 / 2)) 10
     = (None, example_gtps ''op'' 2 (1 / 2) (2 ^ 62) 10 2)"
  by (simp add: GTPS_update_def NewProbabilisticSampler_def f_gt_def
      NewRateLimitingSampler_def NewRateLimiter_def float64_maxRandomNumber_def)

lemma example_two_new:
  "NewAdaptiveSampler
     (example_strategies (Finite 0)
        [\<lparr>Operation = ''keep'', SamplingRate = Finite 0\<rparr>,
         \<lparr>Operation = ''op'', SamplingRate = Finite 0\<rparr>]) 5 0
     = Inr (example_adaptive
              (fmupd ''op'' (example_composite 1)
                 (fmupd ''keep'' (example_gtps ''keep'' 1 0 0 0 1) fmempty)) 5)"
  by (simp add: NewAdaptiveSampler_def example_composite_new example_keep_new)
    (simp add: NewProbabilisticSampler_def f_gt_def)

lemma example_two_first:
  "adaptive_run
     (example_adaptive
        (fmupd ''op'' (example_composite 1)
           (fmupd ''keep'' (example_gtps ''keep'' 1 0 0 0 1) fmempty)) 5)
     [CallIsSampled 5 ''op'' 0]
   = example_adaptive
       (fmupd ''op'' (example_composite 0)
          (fmupd ''keep'' (example_gtps ''keep'' 1 0 0 0 1) fmempty)) 5"
proof -
  have "adaptiveSampler_IsSampled
     (example_adaptive
        (fmupd ''op'' (example_composite 1)
           (fmupd ''keep'' (example_gtps ''keep'' 1 0 0 0 1) fmempty)) 5) 5 ''op'' 0
     = (fst (GTPS_IsSampled (example_composite 1) 5 ''op'' 0),
        (example_adaptive
          (fmupd ''op'' (example_composite 1)
             (fmupd ''keep'' (example_gtps ''keep'' 1 0 0 0 1) fmempty)) 5)
        \<lparr>samplers := fmupd ''op'' (snd (GTPS_IsSampled (example_composite 1) 5 ''op'' 0))
            (samplers (example_adaptive
              (fmupd ''op'' (example_composite 1)
                 (fmupd ''keep'' (example_gtps ''keep'' 1 0 0 0 1) fmempty)) 5))\<rparr>)"
    by (rule adaptiveSampler_IsSampled_present) simp
  then show ?thesis
    by (simp add: adaptive_run_def example_composite_first)
qed

lemma example_two_update:
  "adaptiveSampler_update
     (example_adaptive
        (fmupd ''op'' (example_composite 0)
           (fmupd ''keep'' (example_gtps ''keep'' 1 0 0 0 1) fmempty)) 5)
     \<lparr>DefaultSamplingProbability = Finite (1 / 2),
      DefaultLowerBoundTracesPerSecond = Finite 2,
      PerOperationStrategies =
        [\<lparr>Operation = ''op'', SamplingRate = Finite (1 / 2)\<rparr>,
         \<lparr>Operation = ''fresh'', SamplingRate = Finite 1\<rparr>]\<rparr> 10
   = (None, example_updated)"
proof -
  have loop: "update_loop
      [\<lparr>Operation = ''op'', SamplingRate = Finite (1 / 2)\<rparr>,
       \<lparr>Operation = ''fresh'', SamplingRate = Finite 1\<rparr>] (Finite 2) 10
      (fmupd ''op'' (example_composite 0)
           (fmupd ''keep'' (example_gtps ''keep'' 1 0 0 0 1) fmempty))
    = (None, fmupd ''fresh'' (example_gtps ''fresh'' 2 1 (2 ^ 63) 10 2)
           (fmupd ''op'' (example_gtps ''op'' 2 (1 / 2) (2 ^ 62) 10 2)
              (fmupd ''keep'' (example_gtps ''keep'' 1 0 0 0 1) fmempty)))"
    by (simp add: update_loop.simps(2) update_step_def example_op_update example_fresh_new)
  show ?thesis
    using adaptiveSampler_update_loop_ok [of
      "\<lparr>DefaultSamplingProbability = Finite (1 / 2),
      DefaultLowerBoundTracesPerSecond = Finite 2,
      PerOperationStrategies =
        [\<lparr>Operation = ''op'', SamplingRate = Finite (1 / 2)\<rparr>,
         \<lparr>Operation = ''fresh'', SamplingRate = Finite 1\<rparr>]\<rparr>" 10
      "example_adaptive
        (fmupd ''op'' (example_composite 0)
           (fmupd ''keep'' (example_gtps ''keep'' 1 0 0 0 1) fmempty)) 5"] loop
    by (simp add: float64_maxRandomNumber_def)
qed

text \<open>
  Claim C4. For an adaptive sampler at any point of its lifetime: \<^verbatim>\<open>update\<close> succeeds
  when every listed rate and the default probability pass the range check. After an
  \<^verbatim>\<open>update\<close> that succeeds, every operation listed in the strategies has a composite
  whose sampling rate is the rate listed for it (the last one, if it is listed more
  than once) and whose probabilistic sampler is the one built from that rate, with
  the new lower bound. When operations are listed once, the composite of a listed
  operation is the result of updating in place the composite the operation had, or a
  new composite if it had none. The composite of an operation that is not listed is
  untouched, and no operation is removed. The lower bound of the sampler is
  \<^verbatim>\<open>DefaultLowerBoundTracesPerSecond\<close>; the default sampler is the one built from
  \<^verbatim>\<open>DefaultSamplingProbability\<close> when that differs from the stored probability, and
  the old one otherwise; \<^verbatim>\<open>maxOperations\<close> is unchanged.
\<close>

theorem adaptiveSampler_update_success:
  assumes "NewAdaptiveSampler strategies0 maxOps t0 = Inr s0"
    and "adaptive_run s0 calls = s"
  shows "((\<forall>e \<in> set (PerOperationStrategies strategies). accepted (SamplingRate e))
            \<and> accepted (DefaultSamplingProbability strategies) \<longrightarrow>
          (\<exists>s'. adaptiveSampler_update s strategies now = (None, s')))
       \<and> (adaptiveSampler_update s strategies now = (None, s') \<longrightarrow>
            (\<forall>e \<in> set (PerOperationStrategies strategies).
               \<exists>c. fmlookup (samplers s') (Operation e) = Some c
                 \<and> strategy_rate (PerOperationStrategies strategies) (Operation e)
                       = Some (samplingRate c)
                 \<and> NewProbabilisticSampler (samplingRate c) = Inr (probabilisticSampler c)
                 \<and> g_lowerBound c = DefaultLowerBoundTracesPerSecond strategies)
          \<and> (distinct (map Operation (PerOperationStrategies strategies)) \<longrightarrow>
               (\<forall>e \<in> set (PerOperationStrategies strategies).
                  \<exists>c. fmlookup (samplers s') (Operation e) = Some c
                    \<and> samplingRate c = SamplingRate e
                    \<and> (\<forall>c0. fmlookup (samplers s) (Operation e) = Some c0 \<longrightarrow>
                           GTPS_update c0 (DefaultLowerBoundTracesPerSecond strategies)
                             (SamplingRate e) now = (None, c))
                    \<and> (fmlookup (samplers s) (Operation e) = None \<longrightarrow>
                           NewGuaranteedThroughputProbabilisticSampler (Operation e)
                             (DefaultLowerBoundTracesPerSecond strategies) (SamplingRate e) now
                             = Inr c)))
          \<and> (\<forall>op. op \<notin> Operation ` set (PerOperationStrategies strategies) \<longrightarrow>
                 fmlookup (samplers s') op = fmlookup (samplers s) op)
          \<and> (\<forall>op. op |\<in>| fmdom (samplers s) \<longrightarrow> op |\<in>| fmdom (samplers s'))
          \<and> a_lowerBound s' = DefaultLowerBoundTracesPerSecond strategies
          \<and> defaultSamplingProbability s' = DefaultSamplingProbability strategies
          \<and> (f_ne (defaultSamplingProbability s) (DefaultSamplingProbability strategies) \<longrightarrow>
                NewProbabilisticSampler (DefaultSamplingProbability strategies)
                  = Inr (defaultSampler s'))
          \<and> (\<not> f_ne (defaultSamplingProbability s) (DefaultSamplingProbability strategies) \<longrightarrow>
                defaultSampler s' = defaultSampler s)
          \<and> a_maxOperations s' = a_maxOperations s)"
proof (rule conjI; rule impI)
  let ?sts = "PerOperationStrategies strategies"
  let ?lb = "DefaultLowerBoundTracesPerSecond strategies"
  assume "(\<forall>e \<in> set ?sts. accepted (SamplingRate e))
            \<and> accepted (DefaultSamplingProbability strategies)"
  then have "fst (adaptiveSampler_update s strategies now) = None"
    using adaptiveSampler_update_valid by blast
  then show "\<exists>s'. adaptiveSampler_update s strategies now = (None, s')"
    by (cases "adaptiveSampler_update s strategies now") simp
next
  let ?sts = "PerOperationStrategies strategies"
  let ?lb = "DefaultLowerBoundTracesPerSecond strategies"
  assume upd: "adaptiveSampler_update s strategies now = (None, s')"
  have inv: "adaptive_inv s"
    using assms(1,2) by (rule adaptive_reachable_inv)
  then have minv: "fmpred (\<lambda>_. GTPS_inv) (samplers s)"
    by (simp add: adaptive_inv_def)
  obtain e m where loop: "update_loop ?sts ?lb now (samplers s) = (e, m)"
    by (cases "update_loop ?sts ?lb now (samplers s)")
  have e: "e = None"
    using loop upd adaptiveSampler_update_loop_error [of strategies now s _ m]
    by (cases e) auto
  note ok = adaptiveSampler_update_loop_ok [OF loop [unfolded e]]
  have m: "samplers s' = m"
    using adaptiveSampler_update_samplers [of s strategies now] upd loop by simp
  have listed: "\<forall>e \<in> set ?sts.
            \<exists>c. fmlookup (samplers s') (Operation e) = Some c
              \<and> strategy_rate ?sts (Operation e) = Some (samplingRate c)
              \<and> NewProbabilisticSampler (samplingRate c) = Inr (probabilisticSampler c)
              \<and> g_lowerBound c = ?lb"
    using update_loop_rate_inv [OF minv loop [unfolded e]] m by blast
  have once: "distinct (map Operation ?sts) \<longrightarrow>
               (\<forall>e \<in> set ?sts.
                  \<exists>c. fmlookup (samplers s') (Operation e) = Some c
                    \<and> samplingRate c = SamplingRate e
                    \<and> (\<forall>c0. fmlookup (samplers s) (Operation e) = Some c0 \<longrightarrow>
                           GTPS_update c0 ?lb (SamplingRate e) now = (None, c))
                    \<and> (fmlookup (samplers s) (Operation e) = None \<longrightarrow>
                           NewGuaranteedThroughputProbabilisticSampler (Operation e)
                             ?lb (SamplingRate e) now = Inr c))"
    using update_loop_in_place [OF loop [unfolded e]] m by blast
  have others: "\<forall>op. op \<notin> Operation ` set ?sts \<longrightarrow>
                 fmlookup (samplers s') op = fmlookup (samplers s) op"
    using update_loop_other [of _ ?sts ?lb now "samplers s"] loop m by simp
  have kept: "\<forall>op. op |\<in>| fmdom (samplers s) \<longrightarrow> op |\<in>| fmdom (samplers s')"
    using update_loop_dom [of _ "samplers s" ?sts ?lb now] loop m by simp
  let ?p = "DefaultSamplingProbability strategies"
  have fields: "a_lowerBound s' = ?lb \<and> a_maxOperations s' = a_maxOperations s
      \<and> defaultSamplingProbability s' = ?p
      \<and> (f_ne (defaultSamplingProbability s) ?p \<longrightarrow>
             NewProbabilisticSampler ?p = Inr (defaultSampler s'))
      \<and> (\<not> f_ne (defaultSamplingProbability s) ?p \<longrightarrow>
             defaultSampler s' = defaultSampler s)"
  proof (cases "f_ne (defaultSamplingProbability s) ?p")
    case False
    then have "s' = s\<lparr>samplers := m, a_lowerBound := ?lb\<rparr>"
      using ok upd by simp
    then show ?thesis using False f_ne_same [OF False] by simp
  next
    case True
    show ?thesis
    proof (cases "accepted ?p")
      case False
      then show ?thesis using True ok upd by simp
    next
      case acc: True
      then have "s' = s\<lparr>samplers := m, a_lowerBound := ?lb,
                     defaultSamplingProbability := ?p,
                     defaultSampler :=
                       \<lparr>SamplingBoundary = samplingBoundary ?p,
                        p_tags = mkTags SamplerTypeProbabilistic (FloatValue ?p)\<rparr>\<rparr>"
        using True ok upd by simp
      then show ?thesis using True NewProbabilisticSampler_Inr [OF acc] by simp
    qed
  qed
  show "(\<forall>e \<in> set ?sts.
               \<exists>c. fmlookup (samplers s') (Operation e) = Some c
                 \<and> strategy_rate ?sts (Operation e) = Some (samplingRate c)
                 \<and> NewProbabilisticSampler (samplingRate c) = Inr (probabilisticSampler c)
                 \<and> g_lowerBound c = ?lb)
          \<and> (distinct (map Operation ?sts) \<longrightarrow>
               (\<forall>e \<in> set ?sts.
                  \<exists>c. fmlookup (samplers s') (Operation e) = Some c
                    \<and> samplingRate c = SamplingRate e
                    \<and> (\<forall>c0. fmlookup (samplers s) (Operation e) = Some c0 \<longrightarrow>
                           GTPS_update c0 ?lb (SamplingRate e) now = (None, c))
                    \<and> (fmlookup (samplers s) (Operation e) = None \<longrightarrow>
                           NewGuaranteedThroughputProbabilisticSampler (Operation e)
                             ?lb (SamplingRate e) now = Inr c)))
          \<and> (\<forall>op. op \<notin> Operation ` set ?sts \<longrightarrow>
                 fmlookup (samplers s') op = fmlookup (samplers s) op)
          \<and> (\<forall>op. op |\<in>| fmdom (samplers s) \<longrightarrow> op |\<in>| fmdom (samplers s'))
          \<and> a_lowerBound s' = ?lb
          \<and> defaultSamplingProbability s' = DefaultSamplingProbability strategies
          \<and> (f_ne (defaultSamplingProbability s) (DefaultSamplingProbability strategies) \<longrightarrow>
                NewProbabilisticSampler (DefaultSamplingProbability strategies)
                  = Inr (defaultSampler s'))
          \<and> (\<not> f_ne (defaultSamplingProbability s) (DefaultSamplingProbability strategies) \<longrightarrow>
                defaultSampler s' = defaultSampler s)
          \<and> a_maxOperations s' = a_maxOperations s"
    using listed once others kept fields by (intro conjI) blast+
qed

theorem adaptiveSampler_update_success_witness:
  "NewAdaptiveSampler
     (example_strategies (Finite 0)
        [\<lparr>Operation = ''keep'', SamplingRate = Finite 0\<rparr>,
         \<lparr>Operation = ''op'', SamplingRate = Finite 0\<rparr>]) 5 0
     = Inr (example_listed 1)
   \<and> adaptive_run (example_listed 1) [CallIsSampled 5 ''op'' 0] = example_listed 0
   \<and> accepted (Finite (1 / 2)) \<and> accepted (Finite 1)
   \<and> distinct (map Operation (PerOperationStrategies example_update))
   \<and> adaptiveSampler_update (example_listed 0) example_update 10 = (None, example_updated)
   \<and> fmlookup (samplers (example_listed 0)) ''op'' = Some (example_composite 0)
   \<and> GTPS_update (example_composite 0) (Finite 2) (Finite (1 / 2)) 10
        = (None, example_gtps ''op'' 2 (1 / 2) (2 ^ 62) 10 2)
   \<and> fmlookup (samplers example_updated) ''op''
        = Some (example_gtps ''op'' 2 (1 / 2) (2 ^ 62) 10 2)
   \<and> fmlookup (samplers (example_listed 0)) ''fresh'' = None
   \<and> NewGuaranteedThroughputProbabilisticSampler ''fresh'' (Finite 2) (Finite 1) 10
        = Inr (example_gtps ''fresh'' 2 1 (2 ^ 63) 10 2)
   \<and> fmlookup (samplers example_updated) ''fresh''
        = Some (example_gtps ''fresh'' 2 1 (2 ^ 63) 10 2)
   \<and> fmlookup (samplers (example_listed 0)) ''keep'' = Some (example_gtps ''keep'' 1 0 0 0 1)
   \<and> fmlookup (samplers example_updated) ''keep'' = Some (example_gtps ''keep'' 1 0 0 0 1)
   \<and> a_lowerBound example_updated = Finite 2
   \<and> defaultSamplingProbability example_updated = Finite (1 / 2)
   \<and> NewProbabilisticSampler (Finite (1 / 2)) = Inr (defaultSampler example_updated)
   \<and> a_maxOperations example_updated = a_maxOperations (example_listed 0)"
proof -
  have new: "NewAdaptiveSampler
     (example_strategies (Finite 0)
        [\<lparr>Operation = ''keep'', SamplingRate = Finite 0\<rparr>,
         \<lparr>Operation = ''op'', SamplingRate = Finite 0\<rparr>]) 5 0
     = Inr (example_listed 1)"
    by (rule example_two_new)
  have run: "adaptive_run (example_listed 1) [CallIsSampled 5 ''op'' 0] = example_listed 0"
    by (rule example_two_first)
  have upd: "adaptiveSampler_update (example_listed 0) example_update 10 = (None, example_updated)"
    by (rule example_two_update)
  have half: "NewProbabilisticSampler (Finite (1 / 2)) = Inr (defaultSampler example_updated)"
    by (simp add: NewProbabilisticSampler_def f_gt_def float64_maxRandomNumber_def)
  show ?thesis
    using adaptiveSampler_update_success [OF new run, of example_update 10 example_updated]
      new run upd half example_op_update example_fresh_new
    by simp
qed
text \<open>
  Claim C8. When \<^verbatim>\<open>update(strategies)\<close> meets a sampling rate outside \<open>[0, 1]\<close> at an
  entry of the list (a rate that fails the range check), all entries before it
  passing the check, it stops and returns the error; the updates and insertions made for the entries before it stay in the map,
  and the lower bound and the default sampler are as before the call. The controller
  counts the failure in \<^verbatim>\<open>SamplerUpdateFailure\<close> and keeps the adaptive sampler, with
  the partial update in it.
\<close>

theorem adaptiveSampler_update_partial:
  assumes "NewAdaptiveSampler strategies0 maxOps t0 = Inr s0"
    and "adaptive_run s0 calls = s"
    and "PerOperationStrategies strategies = pre @ bad # post"
    and "\<forall>e \<in> set pre. accepted (SamplingRate e)"
    and "f_lt (SamplingRate bad) (Finite 0) \<or> f_gt (SamplingRate bad) (Finite 1)"
  shows "\<exists>m. update_loop pre (DefaultLowerBoundTracesPerSecond strategies) now (samplers s)
               = (None, m)
           \<and> adaptiveSampler_update s strategies now =
               (Some (SamplingRateOutOfRange (SamplingRate bad)), s\<lparr>samplers := m\<rparr>)
           \<and> (\<forall>e \<in> set pre.
                 \<exists>c. fmlookup m (Operation e) = Some c
                   \<and> strategy_rate pre (Operation e) = Some (samplingRate c)
                   \<and> g_lowerBound c = DefaultLowerBoundTracesPerSecond strategies)
           \<and> a_lowerBound (s\<lparr>samplers := m\<rparr>) = a_lowerBound s
           \<and> defaultSampler (s\<lparr>samplers := m\<rparr>) = defaultSampler s
           \<and> defaultSamplingProbability (s\<lparr>samplers := m\<rparr>) = defaultSamplingProbability s
           \<and> (sampler rc = Adaptive s \<longrightarrow>
                lockAndUpdateSampler rc cand (Some strategies) now =
                  Inr (rc\<lparr>sampler := Adaptive (s\<lparr>samplers := m\<rparr>),
                         metrics := (metrics rc)
                           \<lparr>SamplerUpdateFailure := SamplerUpdateFailure (metrics rc) + 1\<rparr>\<rparr>))"
proof -
  let ?lb = "DefaultLowerBoundTracesPerSecond strategies"
  have inv: "adaptive_inv s"
    using assms(1,2) by (rule adaptive_reachable_inv)
  then have minv: "fmpred (\<lambda>_. GTPS_inv) (samplers s)"
    by (simp add: adaptive_inv_def)
  obtain e m where pre: "update_loop pre ?lb now (samplers s) = (e, m)"
    by (cases "update_loop pre ?lb now (samplers s)")
  have e: "e = None"
    using update_loop_valid [OF assms(4), of ?lb now "samplers s"] pre by simp
  have bad: "\<not> accepted (SamplingRate bad)"
    using assms(5) by (simp add: accepted_def)
  have m_inv: "fmpred (\<lambda>_. GTPS_inv) m"
    using update_loop_inv [OF minv, of pre ?lb now] pre by simp
  have "update_loop (bad # post) ?lb now m = (Some (SamplingRateOutOfRange (SamplingRate bad)), m)"
    using update_step_invalid [OF m_inv bad, of ?lb now] by (simp add: update_loop_Cons)
  then have loop: "update_loop (PerOperationStrategies strategies) ?lb now (samplers s)
                     = (Some (SamplingRateOutOfRange (SamplingRate bad)), m)"
    using pre e assms(3) by (simp add: update_loop_append)
  have upd: "adaptiveSampler_update s strategies now =
               (Some (SamplingRateOutOfRange (SamplingRate bad)), s\<lparr>samplers := m\<rparr>)"
    using loop by (rule adaptiveSampler_update_loop_error)
  have rates: "\<forall>e \<in> set pre.
                 \<exists>c. fmlookup m (Operation e) = Some c
                   \<and> strategy_rate pre (Operation e) = Some (samplingRate c)
                   \<and> g_lowerBound c = ?lb"
    using update_loop_rate_inv [OF minv pre [unfolded e]] by blast
  have ctl: "sampler rc = Adaptive s \<longrightarrow>
                lockAndUpdateSampler rc cand (Some strategies) now =
                  Inr (rc\<lparr>sampler := Adaptive (s\<lparr>samplers := m\<rparr>),
                         metrics := (metrics rc)
                           \<lparr>SamplerUpdateFailure := SamplerUpdateFailure (metrics rc) + 1\<rparr>\<rparr>)"
    using upd by (simp add: lockAndUpdateSampler_def)
  from pre e upd rates ctl show ?thesis
    by auto
qed

lemma example_update_loop:
  "update_loop [\<lparr>Operation = ''op'', SamplingRate = Finite 0\<rparr>] (Finite 1) 0 fmempty =
     (None, fmupd ''op'' (example_composite 1) fmempty)"
  by (simp add: update_loop.simps(2) update_step_def example_composite_new)

theorem adaptiveSampler_update_partial_witness:
  "NewAdaptiveSampler (example_strategies (Finite 0) []) 2 0 = Inr (example_adaptive fmempty 2)
   \<and> adaptive_run (example_adaptive fmempty 2) [] = example_adaptive fmempty 2
   \<and> PerOperationStrategies
        (example_strategies (Finite 1) [\<lparr>Operation = ''op'', SamplingRate = Finite 0\<rparr>,
                               \<lparr>Operation = ''bad'', SamplingRate = Finite 2\<rparr>,
                               \<lparr>Operation = ''later'', SamplingRate = Finite 0\<rparr>])
      = [\<lparr>Operation = ''op'', SamplingRate = Finite 0\<rparr>]
        @ \<lparr>Operation = ''bad'', SamplingRate = Finite 2\<rparr>
        # [\<lparr>Operation = ''later'', SamplingRate = Finite 0\<rparr>]
   \<and> accepted (SamplingRate \<lparr>Operation = ''op'', SamplingRate = Finite 0\<rparr>)
   \<and> (f_lt (SamplingRate \<lparr>Operation = ''bad'', SamplingRate = Finite 2\<rparr>) (Finite 0)
        \<or> f_gt (SamplingRate \<lparr>Operation = ''bad'', SamplingRate = Finite 2\<rparr>) (Finite 1))
   \<and> adaptiveSampler_update (example_adaptive fmempty 2)
        (example_strategies (Finite 1) [\<lparr>Operation = ''op'', SamplingRate = Finite 0\<rparr>,
                               \<lparr>Operation = ''bad'', SamplingRate = Finite 2\<rparr>,
                               \<lparr>Operation = ''later'', SamplingRate = Finite 0\<rparr>]) 0
      = (Some (SamplingRateOutOfRange (Finite 2)),
         example_adaptive (fmupd ''op'' (example_composite 1) fmempty) 2)
   \<and> lockAndUpdateSampler
        \<lparr>sampler = Adaptive (example_adaptive fmempty 2),
         metrics = \<lparr>SamplerRetrieved = 1, SamplerUpdated = 0, SamplerUpdateFailure = 0,
                    SamplerQueryFailure = 0, SamplerParsingFailure = 0\<rparr>,
         maxOperations = 2\<rparr>
        Active
        (Some (example_strategies (Finite 1) [\<lparr>Operation = ''op'', SamplingRate = Finite 0\<rparr>,
                                     \<lparr>Operation = ''bad'', SamplingRate = Finite 2\<rparr>,
                                     \<lparr>Operation = ''later'', SamplingRate = Finite 0\<rparr>])) 0
      = Inr \<lparr>sampler = Adaptive (example_adaptive (fmupd ''op'' (example_composite 1) fmempty) 2),
             metrics = \<lparr>SamplerRetrieved = 1, SamplerUpdated = 0, SamplerUpdateFailure = 1,
                        SamplerQueryFailure = 0, SamplerParsingFailure = 0\<rparr>,
             maxOperations = 2\<rparr>"
proof -
  let ?st = "example_strategies (Finite 1) [\<lparr>Operation = ''op'', SamplingRate = Finite 0\<rparr>,
                               \<lparr>Operation = ''bad'', SamplingRate = Finite 2\<rparr>,
                               \<lparr>Operation = ''later'', SamplingRate = Finite 0\<rparr>]"
  let ?rc = "\<lparr>sampler = Adaptive (example_adaptive fmempty 2),
         metrics = \<lparr>SamplerRetrieved = 1, SamplerUpdated = 0, SamplerUpdateFailure = 0,
                    SamplerQueryFailure = 0, SamplerParsingFailure = 0\<rparr>,
         maxOperations = 2\<rparr>"
  have new: "NewAdaptiveSampler (example_strategies (Finite 0) []) 2 0 = Inr (example_adaptive fmempty 2)"
    by (rule example_adaptive_new_empty)
  have run: "adaptive_run (example_adaptive fmempty 2) [] = example_adaptive fmempty 2"
    by (simp add: adaptive_run_def)
  have split: "PerOperationStrategies ?st
      = [\<lparr>Operation = ''op'', SamplingRate = Finite 0\<rparr>]
        @ \<lparr>Operation = ''bad'', SamplingRate = Finite 2\<rparr>
        # [\<lparr>Operation = ''later'', SamplingRate = Finite 0\<rparr>]"
    by simp
  have pre: "\<forall>e \<in> set [\<lparr>Operation = ''op'', SamplingRate = Finite 0\<rparr>]. accepted (SamplingRate e)"
    by simp
  have bad: "f_lt (SamplingRate \<lparr>Operation = ''bad'', SamplingRate = Finite 2\<rparr>) (Finite 0)
        \<or> f_gt (SamplingRate \<lparr>Operation = ''bad'', SamplingRate = Finite 2\<rparr>) (Finite 1)"
    by (simp add: f_gt_def)
  from adaptiveSampler_update_partial [OF new run split pre bad, of 0 ?rc Active]
  obtain m where
    m: "update_loop [\<lparr>Operation = ''op'', SamplingRate = Finite 0\<rparr>]
          (DefaultLowerBoundTracesPerSecond ?st) 0 (samplers (example_adaptive fmempty 2))
        = (None, m)"
    and upd: "adaptiveSampler_update (example_adaptive fmempty 2) ?st 0 =
               (Some (SamplingRateOutOfRange
                        (SamplingRate \<lparr>Operation = ''bad'', SamplingRate = Finite 2\<rparr>)),
                (example_adaptive fmempty 2)\<lparr>samplers := m\<rparr>)"
    and ctl: "sampler ?rc = Adaptive (example_adaptive fmempty 2) \<longrightarrow>
                lockAndUpdateSampler ?rc Active (Some ?st) 0 =
                  Inr (?rc\<lparr>sampler := Adaptive ((example_adaptive fmempty 2)\<lparr>samplers := m\<rparr>),
                         metrics := (metrics ?rc)
                           \<lparr>SamplerUpdateFailure := SamplerUpdateFailure (metrics ?rc) + 1\<rparr>\<rparr>)"
    by blast
  have "m = fmupd ''op'' (example_composite 1) fmempty"
    using m example_update_loop by simp
  with upd ctl new run split pre bad show ?thesis
    by simp
qed

section \<open>Properties of the cap and of the dispatch of the adaptive sampler\<close>

lemma fcard_fmdom_fmupd_present:
  "fmlookup m k = Some v \<Longrightarrow> fcard (fmdom (fmupd k v' m)) = fcard (fmdom m)"
  by (simp add: fcard_finsert_if fmdomI)

lemma fcard_fmdom_fmupd_absent:
  "fmlookup m k = None \<Longrightarrow> fcard (fmdom (fmupd k v' m)) = Suc (fcard (fmdom m))"
  by (simp add: fcard_finsert_if fmdom_notI)

lemma adaptiveSampler_IsSampled_maxOperations:
  "a_maxOperations (snd (adaptiveSampler_IsSampled s tid op now)) = a_maxOperations s"
  by (simp add: adaptiveSampler_IsSampled_def split: option.split sum.split prod.split)

lemma adaptiveSampler_IsSampled_size:
  "int (fcard (fmdom (samplers (snd (adaptiveSampler_IsSampled s tid op now)))))
     \<le> max (int (fcard (fmdom (samplers s)))) (a_maxOperations s)"
proof (cases "fmlookup (samplers s) op")
  case (Some c)
  then show ?thesis
    using fcard_fmdom_fmupd_present [OF Some]
    by (simp add: adaptiveSampler_IsSampled_present del: fmdom_fmupd)
next
  case None
  show ?thesis
  proof (cases "int (fcard (fmdom (samplers s))) \<ge> a_maxOperations s")
    case True
    then show ?thesis using None by (simp add: adaptiveSampler_IsSampled_default)
  next
    case False
    show ?thesis
    proof (cases "NewGuaranteedThroughputProbabilisticSampler op (a_lowerBound s)
                    (defaultSamplingProbability s) now")
      case (Inl e)
      then show ?thesis using None False by (simp add: adaptiveSampler_IsSampled_def)
    next
      case (Inr c)
      then show ?thesis
        using False adaptiveSampler_IsSampled_create [OF None _ Inr, of tid]
          fcard_fmdom_fmupd_absent [OF None]
        by (simp del: fmdom_fmupd)
    qed
  qed
qed

lemma adaptive_run_IsSampled_size:
  "list_all is_IsSampled calls \<Longrightarrow>
   int (fcard (fmdom (samplers (adaptive_run s calls))))
     \<le> max (int (fcard (fmdom (samplers s)))) (a_maxOperations s)
   \<and> a_maxOperations (adaptive_run s calls) = a_maxOperations s"
  unfolding adaptive_run_def
proof (induction calls arbitrary: s)
  case Nil
  then show ?case by simp
next
  case (Cons x xs)
  then obtain tid op now where x: "x = CallIsSampled tid op now"
    by (cases x) simp_all
  let ?s1 = "snd (adaptiveSampler_IsSampled s tid op now)"
  have step: "int (fcard (fmdom (samplers ?s1)))
                \<le> max (int (fcard (fmdom (samplers s)))) (a_maxOperations s)"
    by (rule adaptiveSampler_IsSampled_size)
  have cap: "a_maxOperations ?s1 = a_maxOperations s"
    by (rule adaptiveSampler_IsSampled_maxOperations)
  have ih: "int (fcard (fmdom (samplers (foldl adaptive_call ?s1 xs))))
          \<le> max (int (fcard (fmdom (samplers ?s1)))) (a_maxOperations ?s1)
        \<and> a_maxOperations (foldl adaptive_call ?s1 xs) = a_maxOperations ?s1"
    using Cons.prems by (intro Cons.IH) simp
  have eq: "foldl adaptive_call s (x # xs) = foldl adaptive_call ?s1 xs"
    using x by simp
  have "int (fcard (fmdom (samplers (foldl adaptive_call ?s1 xs))))
          \<le> max (int (fcard (fmdom (samplers s)))) (a_maxOperations s)"
    using ih step cap by linarith
  moreover have "a_maxOperations (foldl adaptive_call ?s1 xs) = a_maxOperations s"
    using ih cap by simp
  ultimately show ?case unfolding eq by blast
qed

lemma NewAdaptiveSampler_loop_valid:
  "\<forall>st \<in> set sts. accepted (SamplingRate st) \<Longrightarrow>
   \<exists>m'. NewAdaptiveSampler_loop sts lb now m = Inr m'"
proof (induction sts arbitrary: m)
  case Nil
  then show ?case by simp
next
  case (Cons st sts)
  have acc: "accepted (SamplingRate st)" using Cons.prems by simp
  obtain c where c: "NewGuaranteedThroughputProbabilisticSampler (Operation st) lb
                       (SamplingRate st) now = Inr c"
    using NewGTPS_Inr [OF acc] by blast
  have "\<exists>m'. NewAdaptiveSampler_loop sts lb now (fmupd (Operation st) c m) = Inr m'"
    using Cons.prems by (intro Cons.IH) simp
  then show ?case using c by simp
qed

lemma NewAdaptiveSampler_valid:
  assumes "\<forall>e \<in> set (PerOperationStrategies st). accepted (SamplingRate e)"
    and "accepted (DefaultSamplingProbability st)"
  shows "\<exists>s. NewAdaptiveSampler st maxOps now = Inr s"
proof -
  obtain m where "NewAdaptiveSampler_loop (PerOperationStrategies st)
             (DefaultLowerBoundTracesPerSecond st) now fmempty = Inr m"
    using NewAdaptiveSampler_loop_valid [OF assms(1)] by blast
  then show ?thesis
    using NewProbabilisticSampler_Inr [OF assms(2)] by (simp add: NewAdaptiveSampler_def)
qed

lemma adaptiveSampler_update_dom:
  assumes "adaptiveSampler_update s st now = (None, s')"
  shows "fmdom (samplers s') =
           fmdom (samplers s) |\<union>| fset_of_list (map Operation (PerOperationStrategies st))"
proof -
  obtain e m where loop: "update_loop (PerOperationStrategies st)
      (DefaultLowerBoundTracesPerSecond st) now (samplers s) = (e, m)"
    by (cases "update_loop (PerOperationStrategies st)
      (DefaultLowerBoundTracesPerSecond st) now (samplers s)")
  have e: "e = None"
    using loop assms adaptiveSampler_update_loop_error [of st now s _ m]
    by (cases e) auto
  have "samplers s' = m"
    using adaptiveSampler_update_samplers [of s st now] assms loop by simp
  then show ?thesis
    using update_loop_dom_eq [OF loop [unfolded e]] by simp
qed

lemma adaptiveSampler_IsSampled_dom:
  "op' |\<in>| fmdom (samplers s) \<Longrightarrow>
   op' |\<in>| fmdom (samplers (snd (adaptiveSampler_IsSampled s tid op now)))"
  by (simp add: adaptiveSampler_IsSampled_def split: option.split sum.split prod.split)

lemma adaptive_run_dom:
  "op |\<in>| fmdom (samplers s) \<Longrightarrow> op |\<in>| fmdom (samplers (adaptive_run s calls))"
  unfolding adaptive_run_def
proof (induction calls arbitrary: s)
  case Nil
  then show ?case by simp
next
  case (Cons x xs)
  have "op |\<in>| fmdom (samplers (adaptive_call s x))"
  proof (cases x)
    case (CallIsSampled tid op' now)
    then show ?thesis using Cons.prems by (simp add: adaptiveSampler_IsSampled_dom)
  next
    case (CallUpdate st now)
    then show ?thesis
      using Cons.prems update_loop_dom [of op "samplers s"]
      by (simp add: adaptiveSampler_update_samplers)
  qed
  then show ?case using Cons.IH by simp
qed

lemma adaptive_listed_present:
  assumes "NewAdaptiveSampler strategies maxOps t0 = Inr s0"
    and "adaptive_run s0 calls = s"
    and "e \<in> set (PerOperationStrategies strategies)"
  shows "\<exists>c. fmlookup (samplers s) (Operation e) = Some c"
proof -
  have "Operation e |\<in>| fmdom (samplers s0)"
    using NewAdaptiveSampler_InrD(2) [OF assms(1)] assms(3)
    by (simp add: fset_of_list.rep_eq)
  then have "Operation e |\<in>| fmdom (samplers s)"
    using adaptive_run_dom assms(2) by blast
  then show ?thesis
    by (cases "fmlookup (samplers s) (Operation e)") (auto dest: fmdom_notI)
qed

lemma adaptive_updated_present:
  assumes "adaptiveSampler_update s st now = (None, s')"
    and "e \<in> set (PerOperationStrategies st)"
  shows "\<exists>c. fmlookup (samplers s') (Operation e) = Some c"
proof -
  have "Operation e |\<in>| fmdom (samplers s')"
    using adaptiveSampler_update_dom [OF assms(1)] assms(2)
    by (simp add: fset_of_list.rep_eq)
  then show ?thesis
    by (cases "fmlookup (samplers s') (Operation e)") (auto dest: fmdom_notI)
qed

lemma example_adaptive_update_op:
  "adaptiveSampler_update (example_adaptive fmempty maxOps)
     (example_strategies (Finite 0) [\<lparr>Operation = ''op'', SamplingRate = Finite 0\<rparr>]) 0
     = (None, example_adaptive (fmupd ''op'' (example_composite 1) fmempty) maxOps)"
  by (simp add: adaptiveSampler_update_def update_loop.simps(2) update_step_def
      example_composite_new)

text \<open>
  Claim C2, as the spec states it: at every point of the lifetime of an adaptive
  sampler, also right after its construction and after an update, the map holds at
  most \<^verbatim>\<open>maxOperations\<close> composites. The loops of \<^verbatim>\<open>NewAdaptiveSampler\<close> and of
  \<^verbatim>\<open>update\<close> store a composite for every listed operation and never look at the cap: a
  sampler built or updated with one listed operation and the cap 0 holds one composite.
\<close>

theorem adaptive_cap_exceeded_counterexample:
  "NewAdaptiveSampler (example_strategies (Finite 0) [\<lparr>Operation = ''op'', SamplingRate = Finite 0\<rparr>]) 0 0
     = Inr (example_adaptive (fmupd ''op'' (example_composite 1) fmempty) 0)
   \<and> adaptiveSampler_update (example_adaptive fmempty 0)
        (example_strategies (Finite 0) [\<lparr>Operation = ''op'', SamplingRate = Finite 0\<rparr>]) 0
     = (None, example_adaptive (fmupd ''op'' (example_composite 1) fmempty) 0)
   \<and> a_maxOperations (example_adaptive (fmupd ''op'' (example_composite 1) fmempty) 0) = 0
   \<and> fcard (fmdom (samplers (example_adaptive (fmupd ''op'' (example_composite 1) fmempty) 0)))
       = 1
   \<and> \<not> int (fcard (fmdom (samplers
              (example_adaptive (fmupd ''op'' (example_composite 1) fmempty) 0))))
         \<le> a_maxOperations (example_adaptive (fmupd ''op'' (example_composite 1) fmempty) 0)"
  using example_adaptive_new_op [of 0] example_adaptive_update_op [of 0]
  by (simp add: fcard_finsert_if fcard_fempty)

text \<open>
  Claim C2, amended. The cap is enforced by \<^verbatim>\<open>IsSampled\<close> only: after any sequence of
  \<^verbatim>\<open>IsSampled\<close> calls the map holds at most \<open>max n maxOperations\<close> composites, \<open>n\<close>
  being the number it held before, so a map within the cap stays within it; an
  operation without a composite that arrives when the map has reached the cap is
  handled by the default probabilistic sampler and the map is left as it is.
  \<^verbatim>\<open>NewAdaptiveSampler\<close>, and an \<^verbatim>\<open>update\<close> that succeeds, store a composite for every
  listed operation, whatever the cap is: the map of a new sampler holds the listed
  operations, the map after the update holds those it held and the listed ones, and
  the cap is as it was. Both succeed when every listed rate and the default
  probability pass the range check.
\<close>

theorem adaptive_IsSampled_respects_cap:
  assumes "list_all is_IsSampled calls"
  shows "int (fcard (fmdom (samplers (adaptive_run s calls))))
           \<le> max (int (fcard (fmdom (samplers s)))) (a_maxOperations s)
       \<and> a_maxOperations (adaptive_run s calls) = a_maxOperations s
       \<and> (int (fcard (fmdom (samplers s))) \<le> a_maxOperations s \<longrightarrow>
            int (fcard (fmdom (samplers (adaptive_run s calls))))
              \<le> a_maxOperations (adaptive_run s calls))
       \<and> (fmlookup (samplers s) op = None
            \<and> a_maxOperations s \<le> int (fcard (fmdom (samplers s))) \<longrightarrow>
            adaptiveSampler_IsSampled s tid op now =
              (ProbabilisticSampler_IsSampled (defaultSampler s) tid op, s))
       \<and> (NewAdaptiveSampler strategies maxOps t0 = Inr s0 \<longrightarrow>
            fmdom (samplers s0) = fset_of_list (map Operation (PerOperationStrategies strategies))
            \<and> a_maxOperations s0 = maxOps)
       \<and> (adaptiveSampler_update s strategies now = (None, s') \<longrightarrow>
            fmdom (samplers s') =
              fmdom (samplers s)
                |\<union>| fset_of_list (map Operation (PerOperationStrategies strategies))
            \<and> a_maxOperations s' = a_maxOperations s)
       \<and> ((\<forall>e \<in> set (PerOperationStrategies strategies). accepted (SamplingRate e))
            \<and> accepted (DefaultSamplingProbability strategies) \<longrightarrow>
            (\<exists>s1. NewAdaptiveSampler strategies maxOps t0 = Inr s1)
            \<and> (\<exists>s2. adaptiveSampler_update s strategies now = (None, s2)))"
proof -
  have size: "int (fcard (fmdom (samplers (adaptive_run s calls))))
           \<le> max (int (fcard (fmdom (samplers s)))) (a_maxOperations s)"
    and cap: "a_maxOperations (adaptive_run s calls) = a_maxOperations s"
    using adaptive_run_IsSampled_size [OF assms, of s] by simp_all
  have within: "int (fcard (fmdom (samplers s))) \<le> a_maxOperations s \<longrightarrow>
            int (fcard (fmdom (samplers (adaptive_run s calls))))
              \<le> a_maxOperations (adaptive_run s calls)"
    using size cap by auto
  have dflt: "fmlookup (samplers s) op = None
            \<and> a_maxOperations s \<le> int (fcard (fmdom (samplers s))) \<longrightarrow>
            adaptiveSampler_IsSampled s tid op now =
              (ProbabilisticSampler_IsSampled (defaultSampler s) tid op, s)"
    using adaptiveSampler_IsSampled_default [of s op tid now] by simp
  have new: "NewAdaptiveSampler strategies maxOps t0 = Inr s0 \<longrightarrow>
            fmdom (samplers s0) = fset_of_list (map Operation (PerOperationStrategies strategies))
            \<and> a_maxOperations s0 = maxOps"
    using NewAdaptiveSampler_InrD(2,3) [of strategies maxOps t0 s0] by simp
  have upd: "adaptiveSampler_update s strategies now = (None, s') \<longrightarrow>
            fmdom (samplers s') =
              fmdom (samplers s)
                |\<union>| fset_of_list (map Operation (PerOperationStrategies strategies))
            \<and> a_maxOperations s' = a_maxOperations s"
  proof
    assume u: "adaptiveSampler_update s strategies now = (None, s')"
    have "a_maxOperations s' = a_maxOperations s"
      using adaptiveSampler_update_maxOperations [of s strategies now] u by simp
    then show "fmdom (samplers s') =
              fmdom (samplers s)
                |\<union>| fset_of_list (map Operation (PerOperationStrategies strategies))
            \<and> a_maxOperations s' = a_maxOperations s"
      using adaptiveSampler_update_dom [OF u] by simp
  qed
  have ok: "(\<forall>e \<in> set (PerOperationStrategies strategies). accepted (SamplingRate e))
            \<and> accepted (DefaultSamplingProbability strategies) \<longrightarrow>
            (\<exists>s1. NewAdaptiveSampler strategies maxOps t0 = Inr s1)
            \<and> (\<exists>s2. adaptiveSampler_update s strategies now = (None, s2))"
  proof
    assume a: "(\<forall>e \<in> set (PerOperationStrategies strategies). accepted (SamplingRate e))
            \<and> accepted (DefaultSamplingProbability strategies)"
    then have "fst (adaptiveSampler_update s strategies now) = None"
      using adaptiveSampler_update_valid by blast
    then have "\<exists>s2. adaptiveSampler_update s strategies now = (None, s2)"
      by (cases "adaptiveSampler_update s strategies now") simp
    moreover have "\<exists>s1. NewAdaptiveSampler strategies maxOps t0 = Inr s1"
      using a NewAdaptiveSampler_valid by blast
    ultimately show "(\<exists>s1. NewAdaptiveSampler strategies maxOps t0 = Inr s1)
            \<and> (\<exists>s2. adaptiveSampler_update s strategies now = (None, s2))"
      by simp
  qed
  show ?thesis
    by (intro conjI size cap within dflt new upd ok)
qed

lemma example_adaptive_first:
  "adaptiveSampler_IsSampled (example_adaptive fmempty 1) 5 ''op'' 0 =
     ((True, mkTags SamplerTypeLowerBound (FloatValue (Finite 0))),
      example_adaptive (fmupd ''op'' (example_composite 0) fmempty) 1)"
proof -
  have "adaptiveSampler_IsSampled (example_adaptive fmempty 1) 5 ''op'' 0 =
     (fst (GTPS_IsSampled (example_composite 1) 5 ''op'' 0),
      (example_adaptive fmempty 1)
        \<lparr>samplers := fmupd ''op'' (snd (GTPS_IsSampled (example_composite 1) 5 ''op'' 0))
                        (samplers (example_adaptive fmempty 1))\<rparr>)"
    by (rule adaptiveSampler_IsSampled_create)
      (simp_all add: fcard_fempty example_composite_new)
  then show ?thesis
    by (simp only: example_composite_first) simp
qed

lemma example_adaptive_full:
  "adaptiveSampler_IsSampled
     (example_adaptive (fmupd ''op'' (example_composite 0) fmempty) 1) 5 ''other'' 0 =
     ((False, mkTags SamplerTypeProbabilistic (FloatValue (Finite 0))),
      example_adaptive (fmupd ''op'' (example_composite 0) fmempty) 1)"
proof -
  have "adaptiveSampler_IsSampled
     (example_adaptive (fmupd ''op'' (example_composite 0) fmempty) 1) 5 ''other'' 0 =
     (ProbabilisticSampler_IsSampled
        (defaultSampler (example_adaptive (fmupd ''op'' (example_composite 0) fmempty) 1))
        5 ''other'',
      example_adaptive (fmupd ''op'' (example_composite 0) fmempty) 1)"
    by (rule adaptiveSampler_IsSampled_default)
      (simp_all add: fcard_finsert_if fcard_fempty)
  then show ?thesis
    by (simp add: ProbabilisticSampler_IsSampled_def)
qed

theorem adaptive_IsSampled_respects_cap_witness:
  "list_all is_IsSampled [CallIsSampled 5 ''op'' 0, CallIsSampled 5 ''other'' 0]
   \<and> int (fcard (fmdom (samplers (example_adaptive fmempty 1))))
       \<le> a_maxOperations (example_adaptive fmempty 1)
   \<and> int (fcard (fmdom (samplers
            (adaptive_run (example_adaptive fmempty 1)
               [CallIsSampled 5 ''op'' 0, CallIsSampled 5 ''other'' 0]))))
       \<le> a_maxOperations (example_adaptive fmempty 1)
   \<and> list_all is_IsSampled []
   \<and> fmlookup (samplers (example_adaptive (fmupd ''op'' (example_composite 0) fmempty) 1))
        ''other'' = None
   \<and> a_maxOperations (example_adaptive (fmupd ''op'' (example_composite 0) fmempty) 1)
       \<le> int (fcard (fmdom (samplers
                 (example_adaptive (fmupd ''op'' (example_composite 0) fmempty) 1))))
   \<and> adaptiveSampler_IsSampled
        (example_adaptive (fmupd ''op'' (example_composite 0) fmempty) 1) 5 ''other'' 0
      = (ProbabilisticSampler_IsSampled
           (defaultSampler (example_adaptive (fmupd ''op'' (example_composite 0) fmempty) 1))
           5 ''other'',
         example_adaptive (fmupd ''op'' (example_composite 0) fmempty) 1)
   \<and> NewAdaptiveSampler (example_strategies (Finite 0) [\<lparr>Operation = ''op'', SamplingRate = Finite 0\<rparr>]) 0 0
       = Inr (example_adaptive (fmupd ''op'' (example_composite 1) fmempty) 0)
   \<and> fmdom (samplers (example_adaptive (fmupd ''op'' (example_composite 1) fmempty) 0))
       = fset_of_list (map Operation [\<lparr>Operation = ''op'', SamplingRate = Finite 0\<rparr>])
   \<and> accepted (SamplingRate \<lparr>Operation = ''op'', SamplingRate = Finite 0\<rparr>)
   \<and> accepted (DefaultSamplingProbability
         (example_strategies (Finite 0) [\<lparr>Operation = ''op'', SamplingRate = Finite 0\<rparr>]))
   \<and> adaptiveSampler_update (example_adaptive fmempty 0)
        (example_strategies (Finite 0) [\<lparr>Operation = ''op'', SamplingRate = Finite 0\<rparr>]) 0
      = (None, example_adaptive (fmupd ''op'' (example_composite 1) fmempty) 0)
   \<and> fmdom (samplers (example_adaptive (fmupd ''op'' (example_composite 1) fmempty) 0))
       = fmdom (samplers (example_adaptive fmempty 0))
           |\<union>| fset_of_list (map Operation [\<lparr>Operation = ''op'', SamplingRate = Finite 0\<rparr>])
   \<and> a_maxOperations (example_adaptive (fmupd ''op'' (example_composite 1) fmempty) 0)
       = a_maxOperations (example_adaptive fmempty 0)
   \<and> \<not> int (fcard (fmdom (samplers
              (example_adaptive (fmupd ''op'' (example_composite 1) fmempty) 0))))
         \<le> a_maxOperations (example_adaptive (fmupd ''op'' (example_composite 1) fmempty) 0)"
proof -
  have calls: "list_all is_IsSampled [CallIsSampled 5 ''op'' 0, CallIsSampled 5 ''other'' 0]"
    and none: "list_all is_IsSampled []"
    by simp_all
  have within: "int (fcard (fmdom (samplers (example_adaptive fmempty 1))))
       \<le> a_maxOperations (example_adaptive fmempty 1)"
    by (simp add: fcard_fempty)
  have absent: "fmlookup (samplers (example_adaptive (fmupd ''op'' (example_composite 0) fmempty) 1))
        ''other'' = None"
    by simp
  have full: "a_maxOperations (example_adaptive (fmupd ''op'' (example_composite 0) fmempty) 1)
       \<le> int (fcard (fmdom (samplers
                 (example_adaptive (fmupd ''op'' (example_composite 0) fmempty) 1))))"
    by (simp add: fcard_finsert_if fcard_fempty)
  note new = example_adaptive_new_op [of 0]
  have a: "int (fcard (fmdom (samplers
            (adaptive_run (example_adaptive fmempty 1)
               [CallIsSampled 5 ''op'' 0, CallIsSampled 5 ''other'' 0]))))
       \<le> a_maxOperations (example_adaptive fmempty 1)"
    using adaptive_IsSampled_respects_cap [OF calls, of "example_adaptive fmempty 1"] within
    by (simp del: fmdom_fmupd)
  have b: "adaptiveSampler_IsSampled
        (example_adaptive (fmupd ''op'' (example_composite 0) fmempty) 1) 5 ''other'' 0
      = (ProbabilisticSampler_IsSampled
           (defaultSampler (example_adaptive (fmupd ''op'' (example_composite 0) fmempty) 1))
           5 ''other'',
         example_adaptive (fmupd ''op'' (example_composite 0) fmempty) 1)"
    using adaptive_IsSampled_respects_cap [OF none,
        of "example_adaptive (fmupd ''op'' (example_composite 0) fmempty) 1" "''other''" 5 0]
      absent full
    by blast
  have c: "fmdom (samplers (example_adaptive (fmupd ''op'' (example_composite 1) fmempty) 0))
       = fset_of_list (map Operation [\<lparr>Operation = ''op'', SamplingRate = Finite 0\<rparr>])"
    by simp
  have acc: "accepted (SamplingRate \<lparr>Operation = ''op'', SamplingRate = Finite 0\<rparr>)"
    "accepted (DefaultSamplingProbability
         (example_strategies (Finite 0) [\<lparr>Operation = ''op'', SamplingRate = Finite 0\<rparr>]))"
    by simp_all
  note upd = example_adaptive_update_op [of 0]
  have d: "fmdom (samplers (example_adaptive (fmupd ''op'' (example_composite 1) fmempty) 0))
       = fmdom (samplers (example_adaptive fmempty 0))
           |\<union>| fset_of_list (map Operation [\<lparr>Operation = ''op'', SamplingRate = Finite 0\<rparr>])
     \<and> a_maxOperations (example_adaptive (fmupd ''op'' (example_composite 1) fmempty) 0)
       = a_maxOperations (example_adaptive fmempty 0)"
    using adaptive_IsSampled_respects_cap [OF none,
        where s = "example_adaptive fmempty 0"
          and strategies = "example_strategies (Finite 0)
                              [\<lparr>Operation = ''op'', SamplingRate = Finite 0\<rparr>]"
          and now = 0
          and s' = "example_adaptive (fmupd ''op'' (example_composite 1) fmempty) 0"] upd
    by simp
  have over: "\<not> int (fcard (fmdom (samplers
              (example_adaptive (fmupd ''op'' (example_composite 1) fmempty) 0))))
         \<le> a_maxOperations (example_adaptive (fmupd ''op'' (example_composite 1) fmempty) 0)"
    by (simp add: fcard_finsert_if fcard_fempty)
  from calls none within absent full new a b c acc upd d over show ?thesis
    by blast
qed

text \<open>
  Claim C5, as the spec states it: the three-way dispatch of \<^verbatim>\<open>IsSampled\<close>, and in
  particular with \<^verbatim>\<open>maxOperations = 0\<close> every operation goes to the default sampler.
  An operation listed in the strategies has a composite whatever the cap is, and the
  first branch delegates to it: with the cap 0, a call for it is answered by its
  composite (here with the lower-bound tags), not by the default sampler.
\<close>

theorem adaptive_maxOperations_0_counterexample:
  "NewAdaptiveSampler (example_strategies (Finite 0) [\<lparr>Operation = ''op'', SamplingRate = Finite 0\<rparr>]) 0 0
     = Inr (example_adaptive (fmupd ''op'' (example_composite 1) fmempty) 0)
   \<and> a_maxOperations (example_adaptive (fmupd ''op'' (example_composite 1) fmempty) 0) = 0
   \<and> adaptiveSampler_IsSampled
        (example_adaptive (fmupd ''op'' (example_composite 1) fmempty) 0) 5 ''op'' 0
      = ((True, mkTags SamplerTypeLowerBound (FloatValue (Finite 0))),
         example_adaptive (fmupd ''op'' (example_composite 0) fmempty) 0)
   \<and> ProbabilisticSampler_IsSampled
        (defaultSampler (example_adaptive (fmupd ''op'' (example_composite 1) fmempty) 0))
        5 ''op''
      = (False, mkTags SamplerTypeProbabilistic (FloatValue (Finite 0)))
   \<and> adaptiveSampler_IsSampled
        (example_adaptive (fmupd ''op'' (example_composite 1) fmempty) 0) 5 ''op'' 0
      \<noteq> (ProbabilisticSampler_IsSampled
           (defaultSampler (example_adaptive (fmupd ''op'' (example_composite 1) fmempty) 0))
           5 ''op'',
         example_adaptive (fmupd ''op'' (example_composite 1) fmempty) 0)"
proof -
  have "adaptiveSampler_IsSampled
        (example_adaptive (fmupd ''op'' (example_composite 1) fmempty) 0) 5 ''op'' 0
      = (fst (GTPS_IsSampled (example_composite 1) 5 ''op'' 0),
         (example_adaptive (fmupd ''op'' (example_composite 1) fmempty) 0)
           \<lparr>samplers := fmupd ''op'' (snd (GTPS_IsSampled (example_composite 1) 5 ''op'' 0))
              (samplers (example_adaptive (fmupd ''op'' (example_composite 1) fmempty) 0))\<rparr>)"
    by (rule adaptiveSampler_IsSampled_present) simp
  then have composite: "adaptiveSampler_IsSampled
        (example_adaptive (fmupd ''op'' (example_composite 1) fmempty) 0) 5 ''op'' 0
      = ((True, mkTags SamplerTypeLowerBound (FloatValue (Finite 0))),
         example_adaptive (fmupd ''op'' (example_composite 0) fmempty) 0)"
    by (simp only: example_composite_first) simp
  have dflt: "ProbabilisticSampler_IsSampled
        (defaultSampler (example_adaptive (fmupd ''op'' (example_composite 1) fmempty) 0))
        5 ''op''
      = (False, mkTags SamplerTypeProbabilistic (FloatValue (Finite 0)))"
    by (simp add: ProbabilisticSampler_IsSampled_def)
  have "adaptiveSampler_IsSampled
        (example_adaptive (fmupd ''op'' (example_composite 1) fmempty) 0) 5 ''op'' 0
      \<noteq> (ProbabilisticSampler_IsSampled
           (defaultSampler (example_adaptive (fmupd ''op'' (example_composite 1) fmempty) 0))
           5 ''op'',
         example_adaptive (fmupd ''op'' (example_composite 1) fmempty) 0)"
    by (simp only: composite dflt) simp
  with example_adaptive_new_op [of 0] composite dflt show ?thesis
    by simp
qed

text \<open>
  Claim C5, amended. For an adaptive sampler at any point of its lifetime,
  \<^verbatim>\<open>IsSampled(id, op)\<close> delegates to the composite of \<open>op\<close> if there is one; if
  there is none and the map holds fewer than \<^verbatim>\<open>maxOperations\<close> composites, it
  creates a composite with \<^verbatim>\<open>(lowerBound, defaultSamplingProbability)\<close>, stores it
  under \<open>op\<close> and delegates to it; if there is none and the map has reached
  \<^verbatim>\<open>maxOperations\<close>, it delegates to the default sampler. In particular, with
  \<^verbatim>\<open>maxOperations = 0\<close> every operation that has no composite goes to the default
  sampler, and that is every operation when the map is empty. An operation listed in
  the strategies the sampler was built from has a composite at every later point,
  and an operation listed in an \<^verbatim>\<open>update\<close> that succeeds has one after that update,
  whatever the cap is; \<^verbatim>\<open>IsSampled\<close> delegates to that composite.
\<close>

theorem adaptiveSampler_IsSampled_dispatch:
  assumes "NewAdaptiveSampler strategies maxOps t0 = Inr s0"
    and "adaptive_run s0 calls = s"
  shows "(\<forall>c. fmlookup (samplers s) op = Some c \<longrightarrow>
            adaptiveSampler_IsSampled s tid op now =
              (fst (GTPS_IsSampled c tid op now),
               s\<lparr>samplers := fmupd op (snd (GTPS_IsSampled c tid op now)) (samplers s)\<rparr>))
       \<and> (fmlookup (samplers s) op = None
            \<and> int (fcard (fmdom (samplers s))) < a_maxOperations s \<longrightarrow>
            (\<exists>c. NewGuaranteedThroughputProbabilisticSampler op (a_lowerBound s)
                    (defaultSamplingProbability s) now = Inr c
               \<and> adaptiveSampler_IsSampled s tid op now =
                   (fst (GTPS_IsSampled c tid op now),
                    s\<lparr>samplers := fmupd op (snd (GTPS_IsSampled c tid op now)) (samplers s)\<rparr>)))
       \<and> (fmlookup (samplers s) op = None
            \<and> a_maxOperations s \<le> int (fcard (fmdom (samplers s))) \<longrightarrow>
            adaptiveSampler_IsSampled s tid op now =
              (ProbabilisticSampler_IsSampled (defaultSampler s) tid op, s))
       \<and> (a_maxOperations s = 0 \<and> fmlookup (samplers s) op = None \<longrightarrow>
            adaptiveSampler_IsSampled s tid op now =
              (ProbabilisticSampler_IsSampled (defaultSampler s) tid op, s))
       \<and> (a_maxOperations s = 0 \<and> samplers s = fmempty \<longrightarrow>
            (\<forall>op'. adaptiveSampler_IsSampled s tid op' now =
                     (ProbabilisticSampler_IsSampled (defaultSampler s) tid op', s)))
       \<and> (\<forall>e \<in> set (PerOperationStrategies strategies).
            \<exists>c. fmlookup (samplers s) (Operation e) = Some c
              \<and> adaptiveSampler_IsSampled s tid (Operation e) now =
                  (fst (GTPS_IsSampled c tid (Operation e) now),
                   s\<lparr>samplers := fmupd (Operation e)
                                   (snd (GTPS_IsSampled c tid (Operation e) now))
                                   (samplers s)\<rparr>))
       \<and> (adaptiveSampler_update s strategies' now' = (None, s') \<longrightarrow>
            (\<forall>e \<in> set (PerOperationStrategies strategies').
               \<exists>c. fmlookup (samplers s') (Operation e) = Some c
                 \<and> adaptiveSampler_IsSampled s' tid (Operation e) now =
                     (fst (GTPS_IsSampled c tid (Operation e) now),
                      s'\<lparr>samplers := fmupd (Operation e)
                                       (snd (GTPS_IsSampled c tid (Operation e) now))
                                       (samplers s')\<rparr>)))"
proof -
  have inv: "adaptive_inv s"
    using assms by (rule adaptive_reachable_inv)
  have listed: "\<forall>e \<in> set (PerOperationStrategies strategies).
            \<exists>c. fmlookup (samplers s) (Operation e) = Some c
              \<and> adaptiveSampler_IsSampled s tid (Operation e) now =
                  (fst (GTPS_IsSampled c tid (Operation e) now),
                   s\<lparr>samplers := fmupd (Operation e)
                                   (snd (GTPS_IsSampled c tid (Operation e) now))
                                   (samplers s)\<rparr>)"
  proof
    fix e
    assume "e \<in> set (PerOperationStrategies strategies)"
    then obtain c where c: "fmlookup (samplers s) (Operation e) = Some c"
      using adaptive_listed_present [OF assms] by blast
    show "\<exists>c. fmlookup (samplers s) (Operation e) = Some c
              \<and> adaptiveSampler_IsSampled s tid (Operation e) now =
                  (fst (GTPS_IsSampled c tid (Operation e) now),
                   s\<lparr>samplers := fmupd (Operation e)
                                   (snd (GTPS_IsSampled c tid (Operation e) now))
                                   (samplers s)\<rparr>)"
      using c adaptiveSampler_IsSampled_present [OF c] by blast
  qed
  have updated: "adaptiveSampler_update s strategies' now' = (None, s') \<longrightarrow>
            (\<forall>e \<in> set (PerOperationStrategies strategies').
               \<exists>c. fmlookup (samplers s') (Operation e) = Some c
                 \<and> adaptiveSampler_IsSampled s' tid (Operation e) now =
                     (fst (GTPS_IsSampled c tid (Operation e) now),
                      s'\<lparr>samplers := fmupd (Operation e)
                                       (snd (GTPS_IsSampled c tid (Operation e) now))
                                       (samplers s')\<rparr>))"
  proof (intro impI ballI)
    fix e
    assume u: "adaptiveSampler_update s strategies' now' = (None, s')"
      and "e \<in> set (PerOperationStrategies strategies')"
    then obtain c where c: "fmlookup (samplers s') (Operation e) = Some c"
      using adaptive_updated_present by blast
    show "\<exists>c. fmlookup (samplers s') (Operation e) = Some c
                 \<and> adaptiveSampler_IsSampled s' tid (Operation e) now =
                     (fst (GTPS_IsSampled c tid (Operation e) now),
                      s'\<lparr>samplers := fmupd (Operation e)
                                       (snd (GTPS_IsSampled c tid (Operation e) now))
                                       (samplers s')\<rparr>)"
      using c adaptiveSampler_IsSampled_present [OF c] by blast
  qed
  have present: "\<forall>c. fmlookup (samplers s) op = Some c \<longrightarrow>
            adaptiveSampler_IsSampled s tid op now =
              (fst (GTPS_IsSampled c tid op now),
               s\<lparr>samplers := fmupd op (snd (GTPS_IsSampled c tid op now)) (samplers s)\<rparr>)"
    using adaptiveSampler_IsSampled_present by blast
  obtain c where c: "NewGuaranteedThroughputProbabilisticSampler op (a_lowerBound s)
                    (defaultSamplingProbability s) now = Inr c"
    using adaptive_inv_create [OF inv] by blast
  have create: "fmlookup (samplers s) op = None
            \<and> int (fcard (fmdom (samplers s))) < a_maxOperations s \<longrightarrow>
            (\<exists>c. NewGuaranteedThroughputProbabilisticSampler op (a_lowerBound s)
                    (defaultSamplingProbability s) now = Inr c
               \<and> adaptiveSampler_IsSampled s tid op now =
                   (fst (GTPS_IsSampled c tid op now),
                    s\<lparr>samplers := fmupd op (snd (GTPS_IsSampled c tid op now)) (samplers s)\<rparr>))"
    using c adaptiveSampler_IsSampled_create [of s op now c tid] by blast
  have dflt: "\<And>op'. fmlookup (samplers s) op' = None
            \<and> a_maxOperations s \<le> int (fcard (fmdom (samplers s))) \<longrightarrow>
            adaptiveSampler_IsSampled s tid op' now =
              (ProbabilisticSampler_IsSampled (defaultSampler s) tid op', s)"
    using adaptiveSampler_IsSampled_default by blast
  have zero: "\<And>op'. a_maxOperations s = 0 \<and> fmlookup (samplers s) op' = None \<longrightarrow>
            adaptiveSampler_IsSampled s tid op' now =
              (ProbabilisticSampler_IsSampled (defaultSampler s) tid op', s)"
    using dflt by simp
  have empty: "a_maxOperations s = 0 \<and> samplers s = fmempty \<longrightarrow>
            (\<forall>op'. adaptiveSampler_IsSampled s tid op' now =
                     (ProbabilisticSampler_IsSampled (defaultSampler s) tid op', s))"
    using zero by simp
  show ?thesis
    by (intro conjI present create dflt [of op] zero [of op] empty listed updated)
qed

theorem adaptiveSampler_IsSampled_dispatch_witness:
  "NewAdaptiveSampler (example_strategies (Finite 0) [\<lparr>Operation = ''op'', SamplingRate = Finite 0\<rparr>]) 0 0
     = Inr (example_adaptive (fmupd ''op'' (example_composite 1) fmempty) 0)
   \<and> adaptive_run (example_adaptive (fmupd ''op'' (example_composite 1) fmempty) 0) []
       = example_adaptive (fmupd ''op'' (example_composite 1) fmempty) 0
   \<and> fmlookup (samplers (example_adaptive (fmupd ''op'' (example_composite 1) fmempty) 0)) ''op''
       = Some (example_composite 1)
   \<and> adaptiveSampler_IsSampled
        (example_adaptive (fmupd ''op'' (example_composite 1) fmempty) 0) 5 ''op'' 0
      = ((True, mkTags SamplerTypeLowerBound (FloatValue (Finite 0))),
         example_adaptive (fmupd ''op'' (example_composite 0) fmempty) 0)
   \<and> NewAdaptiveSampler (example_strategies (Finite 0) []) 1 0 = Inr (example_adaptive fmempty 1)
   \<and> adaptive_run (example_adaptive fmempty 1) [] = example_adaptive fmempty 1
   \<and> fmlookup (samplers (example_adaptive fmempty 1)) ''op'' = None
   \<and> int (fcard (fmdom (samplers (example_adaptive fmempty 1))))
       < a_maxOperations (example_adaptive fmempty 1)
   \<and> adaptiveSampler_IsSampled (example_adaptive fmempty 1) 5 ''op'' 0
      = ((True, mkTags SamplerTypeLowerBound (FloatValue (Finite 0))),
         example_adaptive (fmupd ''op'' (example_composite 0) fmempty) 1)
   \<and> adaptive_run (example_adaptive fmempty 1) [CallIsSampled 5 ''op'' 0]
       = example_adaptive (fmupd ''op'' (example_composite 0) fmempty) 1
   \<and> fmlookup (samplers (example_adaptive (fmupd ''op'' (example_composite 0) fmempty) 1))
        ''other'' = None
   \<and> a_maxOperations (example_adaptive (fmupd ''op'' (example_composite 0) fmempty) 1)
       \<le> int (fcard (fmdom (samplers
                 (example_adaptive (fmupd ''op'' (example_composite 0) fmempty) 1))))
   \<and> adaptiveSampler_IsSampled
        (example_adaptive (fmupd ''op'' (example_composite 0) fmempty) 1) 5 ''other'' 0
      = ((False, mkTags SamplerTypeProbabilistic (FloatValue (Finite 0))),
         example_adaptive (fmupd ''op'' (example_composite 0) fmempty) 1)
   \<and> NewAdaptiveSampler (example_strategies (Finite 0) []) 0 0 = Inr (example_adaptive fmempty 0)
   \<and> adaptive_run (example_adaptive fmempty 0) [] = example_adaptive fmempty 0
   \<and> a_maxOperations (example_adaptive fmempty 0) = 0
   \<and> samplers (example_adaptive fmempty 0) = fmempty
   \<and> adaptiveSampler_IsSampled (example_adaptive fmempty 0) 5 ''op'' 0
      = ((False, mkTags SamplerTypeProbabilistic (FloatValue (Finite 0))), example_adaptive fmempty 0)
   \<and> adaptive_run (example_adaptive (fmupd ''op'' (example_composite 1) fmempty) 0)
        [CallIsSampled 5 ''op'' 0]
       = example_adaptive (fmupd ''op'' (example_composite 0) fmempty) 0
   \<and> adaptiveSampler_IsSampled
        (example_adaptive (fmupd ''op'' (example_composite 0) fmempty) 0) 5 ''op'' 0
      = ((False, mkTags SamplerTypeLowerBound (FloatValue (Finite 0))),
         example_adaptive (fmupd ''op'' (example_composite 0) fmempty) 0)
   \<and> adaptiveSampler_update (example_adaptive fmempty 0)
        (example_strategies (Finite 0) [\<lparr>Operation = ''op'', SamplingRate = Finite 0\<rparr>]) 0
      = (None, example_adaptive (fmupd ''op'' (example_composite 1) fmempty) 0)"
proof -
  let ?listed = "example_adaptive (fmupd ''op'' (example_composite 1) fmempty) 0"
  let ?later = "example_adaptive (fmupd ''op'' (example_composite 0) fmempty) 0"
  let ?st = "example_strategies (Finite 0) [\<lparr>Operation = ''op'', SamplingRate = Finite 0\<rparr>]"
  let ?full = "example_adaptive (fmupd ''op'' (example_composite 0) fmempty) 1"
  note new_listed = example_adaptive_new_op [of 0]
  note new1 = example_adaptive_new_empty [of 1]
  note new0 = example_adaptive_new_empty [of 0]
  have run_listed: "adaptive_run ?listed [] = ?listed"
    and run1: "adaptive_run (example_adaptive fmempty 1) [] = example_adaptive fmempty 1"
    and run0: "adaptive_run (example_adaptive fmempty 0) [] = example_adaptive fmempty 0"
    by (simp_all add: adaptive_run_def)
  have run_full: "adaptive_run (example_adaptive fmempty 1) [CallIsSampled 5 ''op'' 0] = ?full"
    by (simp add: adaptive_run_def example_adaptive_first)
  have present: "fmlookup (samplers ?listed) ''op'' = Some (example_composite 1)"
    by simp
  have absent1: "fmlookup (samplers (example_adaptive fmempty 1)) ''op'' = None"
    and room: "int (fcard (fmdom (samplers (example_adaptive fmempty 1))))
       < a_maxOperations (example_adaptive fmempty 1)"
    by (simp_all add: fcard_fempty)
  have absent2: "fmlookup (samplers ?full) ''other'' = None"
    and full: "a_maxOperations ?full \<le> int (fcard (fmdom (samplers ?full)))"
    by (simp_all add: fcard_finsert_if fcard_fempty)
  have zero: "a_maxOperations (example_adaptive fmempty 0) = 0"
    and empty: "samplers (example_adaptive fmempty 0) = fmempty"
    by simp_all
  have "adaptiveSampler_IsSampled ?listed 5 ''op'' 0
      = (fst (GTPS_IsSampled (example_composite 1) 5 ''op'' 0),
         ?listed\<lparr>samplers := fmupd ''op'' (snd (GTPS_IsSampled (example_composite 1) 5 ''op'' 0))
                                 (samplers ?listed)\<rparr>)"
    using adaptiveSampler_IsSampled_dispatch [OF new_listed run_listed, of "''op''" 5 0] present
    by blast
  then have a: "adaptiveSampler_IsSampled ?listed 5 ''op'' 0
      = ((True, mkTags SamplerTypeLowerBound (FloatValue (Finite 0))),
         example_adaptive (fmupd ''op'' (example_composite 0) fmempty) 0)"
    by (simp only: example_composite_first) simp
  from adaptiveSampler_IsSampled_dispatch [OF new1 run1, of "''op''" 5 0] absent1 room
  obtain c where c: "NewGuaranteedThroughputProbabilisticSampler ''op''
                       (a_lowerBound (example_adaptive fmempty 1))
                       (defaultSamplingProbability (example_adaptive fmempty 1)) 0 = Inr c"
    and r: "adaptiveSampler_IsSampled (example_adaptive fmempty 1) 5 ''op'' 0 =
              (fst (GTPS_IsSampled c 5 ''op'' 0),
               (example_adaptive fmempty 1)
                 \<lparr>samplers := fmupd ''op'' (snd (GTPS_IsSampled c 5 ''op'' 0))
                                 (samplers (example_adaptive fmempty 1))\<rparr>)"
    by blast
  have "c = example_composite 1"
    using c example_composite_new by simp
  then have b: "adaptiveSampler_IsSampled (example_adaptive fmempty 1) 5 ''op'' 0
      = ((True, mkTags SamplerTypeLowerBound (FloatValue (Finite 0))), ?full)"
    using r by (simp only: example_composite_first) simp
  have "adaptiveSampler_IsSampled ?full 5 ''other'' 0
      = (ProbabilisticSampler_IsSampled (defaultSampler ?full) 5 ''other'', ?full)"
    using adaptiveSampler_IsSampled_dispatch [OF new1 run_full, of "''other''" 5 0] absent2 full
    by blast
  then have d: "adaptiveSampler_IsSampled ?full 5 ''other'' 0
      = ((False, mkTags SamplerTypeProbabilistic (FloatValue (Finite 0))), ?full)"
    by (simp add: ProbabilisticSampler_IsSampled_def)
  have "adaptiveSampler_IsSampled (example_adaptive fmempty 0) 5 ''op'' 0
      = (ProbabilisticSampler_IsSampled (defaultSampler (example_adaptive fmempty 0)) 5 ''op'',
         example_adaptive fmempty 0)"
    using adaptiveSampler_IsSampled_dispatch [OF new0 run0, of _ 5 0] zero empty
    by blast
  then have e: "adaptiveSampler_IsSampled (example_adaptive fmempty 0) 5 ''op'' 0
      = ((False, mkTags SamplerTypeProbabilistic (FloatValue (Finite 0))), example_adaptive fmempty 0)"
    by (simp add: ProbabilisticSampler_IsSampled_def)
  have run_later: "adaptive_run ?listed [CallIsSampled 5 ''op'' 0] = ?later"
    by (simp add: adaptive_run_def a)
  have "\<forall>e \<in> set (PerOperationStrategies ?st).
          \<exists>c. fmlookup (samplers ?later) (Operation e) = Some c
            \<and> adaptiveSampler_IsSampled ?later 5 (Operation e) 0 =
                (fst (GTPS_IsSampled c 5 (Operation e) 0),
                 ?later\<lparr>samplers := fmupd (Operation e)
                                       (snd (GTPS_IsSampled c 5 (Operation e) 0))
                                       (samplers ?later)\<rparr>)"
    by (rule adaptiveSampler_IsSampled_dispatch [OF new_listed run_later,
          where tid = 5 and now = 0,
          THEN conjunct2, THEN conjunct2, THEN conjunct2, THEN conjunct2, THEN conjunct2,
          THEN conjunct1])
  then obtain c1 where c1: "fmlookup (samplers ?later) ''op'' = Some c1"
    and r1: "adaptiveSampler_IsSampled ?later 5 ''op'' 0 =
                (fst (GTPS_IsSampled c1 5 ''op'' 0),
                 ?later\<lparr>samplers := fmupd ''op'' (snd (GTPS_IsSampled c1 5 ''op'' 0))
                                       (samplers ?later)\<rparr>)"
    by auto
  have "c1 = example_composite 0"
    using c1 by simp
  then have f: "adaptiveSampler_IsSampled ?later 5 ''op'' 0
      = ((False, mkTags SamplerTypeLowerBound (FloatValue (Finite 0))), ?later)"
    using r1 by (simp only: example_composite_second) simp
  note upd = example_adaptive_update_op [of 0]
  from new_listed run_listed present a new1 run1 absent1 room b run_full absent2 full d
    new0 run0 zero empty e run_later f upd
  show ?thesis
    by blast
qed
section \<open>The default probability and the lazy creation\<close>

lemma example_adaptive_NaN_new:
  "NewAdaptiveSampler (example_strategies NaN []) maxOps 0 = Inr (example_adaptive_NaN maxOps)"
  by (simp add: NewAdaptiveSampler_def NewProbabilisticSampler_def f_gt_def)

lemma example_adaptive_NaN_update:
  "adaptiveSampler_update (example_adaptive fmempty maxOps) (example_strategies NaN []) 0
     = (None, example_adaptive_NaN maxOps)"
  by (simp add: adaptiveSampler_update_def NewProbabilisticSampler_def f_gt_def)

text \<open>
  Claim C10, as stated: an adaptive sampler built by \<^verbatim>\<open>NewAdaptiveSampler\<close> and
  evolved by \<^verbatim>\<open>update\<close> keeps \<^verbatim>\<open>defaultSamplingProbability\<close> in \<open>[0, 1]\<close>. NaN makes
  both comparisons of the guard of \<^verbatim>\<open>NewProbabilisticSampler\<close> false, so a default
  probability NaN is stored by the constructor, and by an update as well.
\<close>

theorem adaptive_default_probability_NaN_counterexample:
  "NewAdaptiveSampler (example_strategies NaN []) 1 0 = Inr (example_adaptive_NaN 1)
   \<and> adaptiveSampler_update (example_adaptive fmempty 1) (example_strategies NaN []) 0
       = (None, example_adaptive_NaN 1)
   \<and> defaultSamplingProbability (example_adaptive_NaN 1) = NaN
   \<and> \<not> in_unit_interval (defaultSamplingProbability (example_adaptive_NaN 1))"
  using example_adaptive_NaN_new [of 1] example_adaptive_NaN_update [of 1] by simp

text \<open>
  Claim C10, amended. An adaptive sampler built by \<^verbatim>\<open>NewAdaptiveSampler\<close> and then
  used and updated in any way keeps \<^verbatim>\<open>defaultSamplingProbability\<close> a value that
  \<^verbatim>\<open>NewProbabilisticSampler\<close> accepts (both paths pass it through
  \<^verbatim>\<open>NewProbabilisticSampler\<close> before they store it): a number in \<open>[0, 1]\<close>, or NaN,
  which passes the range check. So the construction of a composite at
  \<^verbatim>\<open>(lowerBound, defaultSamplingProbability)\<close> succeeds: the lazy creation of
  \<^verbatim>\<open>IsSampled\<close> never takes its error branch, it stores the new composite and
  delegates to it.
\<close>

theorem adaptive_lazy_create_never_fails:
  assumes "NewAdaptiveSampler strategies maxOps t0 = Inr s0"
    and "adaptive_run s0 calls = s"
  shows "(\<exists>p. NewProbabilisticSampler (defaultSamplingProbability s) = Inr p)
       \<and> (\<forall>x. defaultSamplingProbability s = Finite x \<longrightarrow> 0 \<le> x \<and> x \<le> 1)
       \<and> (in_unit_interval (defaultSamplingProbability s)
            \<or> defaultSamplingProbability s = NaN)
       \<and> (\<exists>c. NewGuaranteedThroughputProbabilisticSampler op (a_lowerBound s)
                 (defaultSamplingProbability s) now = Inr c
              \<and> (fmlookup (samplers s) op = None
                    \<and> int (fcard (fmdom (samplers s))) < a_maxOperations s \<longrightarrow>
                  adaptiveSampler_IsSampled s tid op now =
                    (fst (GTPS_IsSampled c tid op now),
                     s\<lparr>samplers := fmupd op (snd (GTPS_IsSampled c tid op now)) (samplers s)\<rparr>)))"
proof -
  have inv: "adaptive_inv s"
    using assms by (rule adaptive_reachable_inv)
  then have acc: "accepted (defaultSamplingProbability s)"
    by (simp add: adaptive_inv_def)
  obtain c where c: "NewGuaranteedThroughputProbabilisticSampler op (a_lowerBound s)
                 (defaultSamplingProbability s) now = Inr c"
    using adaptive_inv_create [OF inv] by blast
  have p: "\<exists>p. NewProbabilisticSampler (defaultSamplingProbability s) = Inr p"
    using NewProbabilisticSampler_Inr [OF acc] by simp
  have num: "\<forall>x. defaultSamplingProbability s = Finite x \<longrightarrow> 0 \<le> x \<and> x \<le> 1"
    using acc by auto
  have unit: "in_unit_interval (defaultSamplingProbability s)
            \<or> defaultSamplingProbability s = NaN"
    using acc by (cases "defaultSamplingProbability s") simp_all
  have create: "fmlookup (samplers s) op = None
                    \<and> int (fcard (fmdom (samplers s))) < a_maxOperations s \<longrightarrow>
                  adaptiveSampler_IsSampled s tid op now =
                    (fst (GTPS_IsSampled c tid op now),
                     s\<lparr>samplers := fmupd op (snd (GTPS_IsSampled c tid op now)) (samplers s)\<rparr>)"
    using adaptiveSampler_IsSampled_create [of s op now c tid] c by blast
  from p num unit c create show ?thesis
    by blast
qed

theorem adaptive_lazy_create_never_fails_witness:
  "NewAdaptiveSampler (example_strategies (Finite 0) []) 1 0 = Inr (example_adaptive fmempty 1)
   \<and> adaptive_run (example_adaptive fmempty 1) [] = example_adaptive fmempty 1
   \<and> fmlookup (samplers (example_adaptive fmempty 1)) ''op'' = None
   \<and> int (fcard (fmdom (samplers (example_adaptive fmempty 1)))) < a_maxOperations (example_adaptive fmempty 1)
   \<and> NewGuaranteedThroughputProbabilisticSampler ''op'' (a_lowerBound (example_adaptive fmempty 1))
        (defaultSamplingProbability (example_adaptive fmempty 1)) 0 = Inr (example_composite 1)
   \<and> adaptiveSampler_IsSampled (example_adaptive fmempty 1) 5 ''op'' 0 =
       (fst (GTPS_IsSampled (example_composite 1) 5 ''op'' 0),
        (example_adaptive fmempty 1)
          \<lparr>samplers := fmupd ''op'' (snd (GTPS_IsSampled (example_composite 1) 5 ''op'' 0))
                          (samplers (example_adaptive fmempty 1))\<rparr>)
   \<and> NewAdaptiveSampler (example_strategies NaN []) 1 0 = Inr (example_adaptive_NaN 1)
   \<and> adaptive_run (example_adaptive_NaN 1) [] = example_adaptive_NaN 1
   \<and> (\<exists>c. NewGuaranteedThroughputProbabilisticSampler ''op''
               (a_lowerBound (example_adaptive_NaN 1))
               (defaultSamplingProbability (example_adaptive_NaN 1)) 0 = Inr c)
   \<and> adaptive_run (example_adaptive fmempty 1)
        [CallUpdate \<lparr>DefaultSamplingProbability = Finite (1 / 2),
                     DefaultLowerBoundTracesPerSecond = Finite 2,
                     PerOperationStrategies = []\<rparr> 10]
       = example_adaptive_half fmempty 1
   \<and> in_unit_interval (defaultSamplingProbability (example_adaptive_half fmempty 1))
   \<and> fmlookup (samplers (example_adaptive_half fmempty 1)) ''op'' = None
   \<and> int (fcard (fmdom (samplers (example_adaptive_half fmempty 1))))
       < a_maxOperations (example_adaptive_half fmempty 1)
   \<and> NewGuaranteedThroughputProbabilisticSampler ''op''
        (a_lowerBound (example_adaptive_half fmempty 1))
        (defaultSamplingProbability (example_adaptive_half fmempty 1)) 10
       = Inr (example_gtps ''op'' 2 (1 / 2) (2 ^ 62) 10 2)
   \<and> adaptiveSampler_IsSampled (example_adaptive_half fmempty 1) 5 ''op'' 10 =
       (fst (GTPS_IsSampled (example_gtps ''op'' 2 (1 / 2) (2 ^ 62) 10 2) 5 ''op'' 10),
        (example_adaptive_half fmempty 1)
          \<lparr>samplers :=
             fmupd ''op'' (snd (GTPS_IsSampled (example_gtps ''op'' 2 (1 / 2) (2 ^ 62) 10 2)
                                 5 ''op'' 10))
               (samplers (example_adaptive_half fmempty 1))\<rparr>)"
proof -
  have new: "NewAdaptiveSampler (example_strategies (Finite 0) []) 1 0 = Inr (example_adaptive fmempty 1)"
    by (rule example_adaptive_new_empty)
  have run: "adaptive_run (example_adaptive fmempty 1) [] = example_adaptive fmempty 1"
    by (simp add: adaptive_run_def)
  have absent: "fmlookup (samplers (example_adaptive fmempty 1)) ''op'' = None"
    by simp
  have room: "int (fcard (fmdom (samplers (example_adaptive fmempty 1))))
                < a_maxOperations (example_adaptive fmempty 1)"
    by (simp add: fcard_fempty)
  have c: "NewGuaranteedThroughputProbabilisticSampler ''op'' (a_lowerBound (example_adaptive fmempty 1))
        (defaultSamplingProbability (example_adaptive fmempty 1)) 0 = Inr (example_composite 1)"
    using example_composite_new by simp
  from adaptive_lazy_create_never_fails [OF new run, of "''op''" 0 5]
  obtain c' where c': "NewGuaranteedThroughputProbabilisticSampler ''op''
        (a_lowerBound (example_adaptive fmempty 1))
        (defaultSamplingProbability (example_adaptive fmempty 1)) 0 = Inr c'"
    and r: "fmlookup (samplers (example_adaptive fmempty 1)) ''op'' = None
         \<and> int (fcard (fmdom (samplers (example_adaptive fmempty 1)))) < a_maxOperations (example_adaptive fmempty 1)
         \<longrightarrow> adaptiveSampler_IsSampled (example_adaptive fmempty 1) 5 ''op'' 0 =
       (fst (GTPS_IsSampled c' 5 ''op'' 0),
        (example_adaptive fmempty 1)
          \<lparr>samplers := fmupd ''op'' (snd (GTPS_IsSampled c' 5 ''op'' 0))
                          (samplers (example_adaptive fmempty 1))\<rparr>)"
    by blast
  have "c' = example_composite 1" using c c' by simp
  with r absent room have "adaptiveSampler_IsSampled (example_adaptive fmempty 1) 5 ''op'' 0 =
       (fst (GTPS_IsSampled (example_composite 1) 5 ''op'' 0),
        (example_adaptive fmempty 1)
          \<lparr>samplers := fmupd ''op'' (snd (GTPS_IsSampled (example_composite 1) 5 ''op'' 0))
                          (samplers (example_adaptive fmempty 1))\<rparr>)"
    by blast
  note new_NaN = example_adaptive_NaN_new [of 1]
  have run_NaN: "adaptive_run (example_adaptive_NaN 1) [] = example_adaptive_NaN 1"
    by (simp add: adaptive_run_def)
  have "\<exists>c. NewGuaranteedThroughputProbabilisticSampler ''op''
               (a_lowerBound (example_adaptive_NaN 1))
               (defaultSamplingProbability (example_adaptive_NaN 1)) 0 = Inr c"
    using adaptive_lazy_create_never_fails [OF new_NaN run_NaN, of "''op''" 0 5] by blast
  have run_half: "adaptive_run (example_adaptive fmempty 1)
        [CallUpdate \<lparr>DefaultSamplingProbability = Finite (1 / 2),
                     DefaultLowerBoundTracesPerSecond = Finite 2,
                     PerOperationStrategies = []\<rparr> 10]
       = example_adaptive_half fmempty 1"
    by (simp add: adaptive_run_def adaptiveSampler_update_def NewProbabilisticSampler_def
        f_gt_def example_half del: samplingBoundary.simps)
  have unit_half: "in_unit_interval (defaultSamplingProbability (example_adaptive_half fmempty 1))"
    by simp
  have absent_half: "fmlookup (samplers (example_adaptive_half fmempty 1)) ''op'' = None"
    by simp
  have room_half: "int (fcard (fmdom (samplers (example_adaptive_half fmempty 1))))
                < a_maxOperations (example_adaptive_half fmempty 1)"
    by (simp add: fcard_fempty)
  have c_half: "NewGuaranteedThroughputProbabilisticSampler ''op''
        (a_lowerBound (example_adaptive_half fmempty 1))
        (defaultSamplingProbability (example_adaptive_half fmempty 1)) 10
       = Inr (example_gtps ''op'' 2 (1 / 2) (2 ^ 62) 10 2)"
    by (simp add: NewGuaranteedThroughputProbabilisticSampler_def NewProbabilisticSampler_def
        f_gt_def NewRateLimitingSampler_def NewRateLimiter_def example_half
        del: samplingBoundary.simps)
  from adaptive_lazy_create_never_fails [OF new run_half, of "''op''" 10 5]
  obtain c2 where c2: "NewGuaranteedThroughputProbabilisticSampler ''op''
        (a_lowerBound (example_adaptive_half fmempty 1))
        (defaultSamplingProbability (example_adaptive_half fmempty 1)) 10 = Inr c2"
    and r2: "fmlookup (samplers (example_adaptive_half fmempty 1)) ''op'' = None
         \<and> int (fcard (fmdom (samplers (example_adaptive_half fmempty 1))))
             < a_maxOperations (example_adaptive_half fmempty 1)
         \<longrightarrow> adaptiveSampler_IsSampled (example_adaptive_half fmempty 1) 5 ''op'' 10 =
       (fst (GTPS_IsSampled c2 5 ''op'' 10),
        (example_adaptive_half fmempty 1)
          \<lparr>samplers := fmupd ''op'' (snd (GTPS_IsSampled c2 5 ''op'' 10))
                          (samplers (example_adaptive_half fmempty 1))\<rparr>)"
    by blast
  have "c2 = example_gtps ''op'' 2 (1 / 2) (2 ^ 62) 10 2"
    using c_half c2 by simp
  with r2 absent_half room_half
  have half: "adaptiveSampler_IsSampled (example_adaptive_half fmempty 1) 5 ''op'' 10 =
       (fst (GTPS_IsSampled (example_gtps ''op'' 2 (1 / 2) (2 ^ 62) 10 2) 5 ''op'' 10),
        (example_adaptive_half fmempty 1)
          \<lparr>samplers :=
             fmupd ''op'' (snd (GTPS_IsSampled (example_gtps ''op'' 2 (1 / 2) (2 ^ 62) 10 2)
                                 5 ''op'' 10))
               (samplers (example_adaptive_half fmempty 1))\<rparr>)"
    by blast
  from \<open>adaptiveSampler_IsSampled (example_adaptive fmempty 1) 5 ''op'' 0 =
       (fst (GTPS_IsSampled (example_composite 1) 5 ''op'' 0),
        (example_adaptive fmempty 1)
          \<lparr>samplers := fmupd ''op'' (snd (GTPS_IsSampled (example_composite 1) 5 ''op'' 0))
                          (samplers (example_adaptive fmempty 1))\<rparr>)\<close>
    \<open>\<exists>c. NewGuaranteedThroughputProbabilisticSampler ''op''
               (a_lowerBound (example_adaptive_NaN 1))
               (defaultSamplingProbability (example_adaptive_NaN 1)) 0 = Inr c\<close>
    new run absent room c new_NaN run_NaN run_half unit_half absent_half room_half c_half half
  show ?thesis by blast
qed

section \<open>Properties of the remote controller\<close>

lemma Sampler_run_Probabilistic: "Sampler_run (Probabilistic p) calls = Probabilistic p"
  unfolding Sampler_run_def by (induction calls) (simp_all split: prod.split)

lemma Sampler_run_RateLimiting:
  "\<exists>r. Sampler_run (RateLimiting r0) calls = RateLimiting r
       \<and> maxTracesPerSecond r = maxTracesPerSecond r0"
  unfolding Sampler_run_def
proof (induction calls arbitrary: r0)
  case Nil
  then show ?case by simp
next
  case (Cons x xs)
  obtain tid op now where x: "x = (tid, op, now)" by (cases x)
  let ?r1 = "snd (rateLimitingSampler_IsSampled r0 tid op now)"
  have step: "snd (Sampler_IsSampled (RateLimiting r0) tid op now) = RateLimiting ?r1"
    by (simp split: prod.split)
  have keep: "maxTracesPerSecond ?r1 = maxTracesPerSecond r0"
    by (simp add: rateLimitingSampler_IsSampled_eq)
  show ?case using Cons.IH [of ?r1] step keep x by simp
qed

text \<open>A rate-limiting sampler of rate 0 never samples.\<close>

lemma CheckCredit_rate_0:
  "creditsPerSecond b = 0 \<Longrightarrow> balance b < 1 \<Longrightarrow>
   \<not> fst (CheckCredit b 1 now)
   \<and> creditsPerSecond (snd (CheckCredit b 1 now)) = 0
   \<and> balance (snd (CheckCredit b 1 now)) < 1"
  by (simp add: CheckCredit_def Let_def min_def)

lemma NewRateLimitingSampler_rate_0:
  "creditsPerSecond (rateLimiter (NewRateLimitingSampler (Finite 0) t0)) = 0
   \<and> balance (rateLimiter (NewRateLimitingSampler (Finite 0) t0)) < 1"
  by (simp add: NewRateLimitingSampler_def NewRateLimiter_def)

lemma rateLimitingSampler_rate_0_step:
  assumes "creditsPerSecond (rateLimiter r) = 0" and "balance (rateLimiter r) < 1"
  shows "\<not> fst (fst (rateLimitingSampler_IsSampled r tid op now))
   \<and> creditsPerSecond (rateLimiter (snd (rateLimitingSampler_IsSampled r tid op now))) = 0
   \<and> balance (rateLimiter (snd (rateLimitingSampler_IsSampled r tid op now))) < 1"
  using CheckCredit_rate_0 [OF assms, of now]
  by (simp add: rateLimitingSampler_IsSampled_eq)

lemma rateLimitingSampler_rate_0_run:
  "creditsPerSecond (rateLimiter r0) = 0 \<Longrightarrow> balance (rateLimiter r0) < 1 \<Longrightarrow>
   \<exists>r. Sampler_run (RateLimiting r0) calls = RateLimiting r
       \<and> \<not> fst (fst (rateLimitingSampler_IsSampled r tid op now))"
  unfolding Sampler_run_def
proof (induction calls arbitrary: r0)
  case Nil
  then show ?case using rateLimitingSampler_rate_0_step by simp
next
  case (Cons x xs)
  obtain tid' op' now' where x: "x = (tid', op', now')" by (cases x)
  let ?r1 = "snd (rateLimitingSampler_IsSampled r0 tid' op' now')"
  have step: "snd (Sampler_IsSampled (RateLimiting r0) tid' op' now') = RateLimiting ?r1"
    by (simp split: prod.split)
  have "creditsPerSecond (rateLimiter ?r1) = 0" and "balance (rateLimiter ?r1) < 1"
    using rateLimitingSampler_rate_0_step [OF Cons.prems] by simp_all
  then show ?case using Cons.IH [of ?r1] step x by simp
qed

lemma rateLimitingSampler_rate_0_never_samples:
  "\<exists>r. Sampler_run (RateLimiting (NewRateLimitingSampler (Finite 0) t0)) calls = RateLimiting r
       \<and> \<not> fst (fst (rateLimitingSampler_IsSampled r tid op now))"
  using rateLimitingSampler_rate_0_run NewRateLimitingSampler_rate_0 by blast

lemma extractSampler_non_adaptive:
  "OperationSampling res = None \<Longrightarrow>
   extractSampler s res now =
     (case ProbabilisticSampling res of
        Some rate \<Rightarrow>
          (case NewProbabilisticSampler rate of
             Inl err \<Rightarrow> Inl err
           | Inr p \<Rightarrow> Inr (Built (Probabilistic p), None))
      | None \<Rightarrow>
          (case RateLimitingSampling res of
             Some n \<Rightarrow> Inr (Built (RateLimiting (NewRateLimitingSampler (Finite (of_int n)) now)), None)
           | None \<Rightarrow> Inl UnsupportedStrategyType))"
  by (simp add: extractSampler_def)

lemma updateSampler_equal:
  "extractSampler s res now = Inr (cand, strategies) \<Longrightarrow>
   Sampler_Equal (sampler s) (deref cand (sampler s)) \<Longrightarrow>
   updateSampler s (Inr res) now =
     Inr (s\<lparr>metrics := (metrics s)\<lparr>SamplerRetrieved := SamplerRetrieved (metrics s) + 1\<rparr>\<rparr>)"
  by (simp add: updateSampler_def)

text \<open>
  Claim C9. For a response of the probabilistic or the rate-limiting variant: if the
  sampler the controller holds was produced from the response (and has answered any
  number of \<^verbatim>\<open>IsSampled\<close> calls since), then processing the same response again
  extracts a candidate that \<^verbatim>\<open>Equal\<close> of the held sampler reports as equivalent, so
  \<^verbatim>\<open>lockAndUpdateSampler\<close> is not called: the tick increments \<^verbatim>\<open>SamplerRetrieved\<close>
  and nothing else, and \<^verbatim>\<open>SamplerUpdated\<close> stays as it is.
\<close>

theorem updateSampler_same_response:
  assumes "OperationSampling res = None"
    and "extractSampler s0 res t0 = Inr (Built smp0, strategies0)"
    and "Sampler_run smp0 calls = sampler s"
  shows "\<exists>smp s'. extractSampler s res now = Inr (Built smp, None)
           \<and> Sampler_Equal (sampler s) smp
           \<and> updateSampler s (Inr res) now = Inr s'
           \<and> s' = s\<lparr>metrics := (metrics s)
                        \<lparr>SamplerRetrieved := SamplerRetrieved (metrics s) + 1\<rparr>\<rparr>
           \<and> SamplerUpdated (metrics s') = SamplerUpdated (metrics s)
           \<and> sampler s' = sampler s"
proof (cases "ProbabilisticSampling res")
  case (Some rate)
  from assms(2) obtain p where p: "NewProbabilisticSampler rate = Inr p"
    and smp0: "smp0 = Probabilistic p"
    using Some by (auto simp: extractSampler_non_adaptive [OF assms(1)] split: sum.splits)
  have held: "sampler s = Probabilistic p"
    using assms(3) smp0 by (simp add: Sampler_run_Probabilistic)
  have ex: "extractSampler s res now = Inr (Built (Probabilistic p), None)"
    using Some p by (simp add: extractSampler_non_adaptive [OF assms(1)])
  have eq: "Sampler_Equal (sampler s) (Probabilistic p)"
    using held by (simp add: ProbabilisticSampler_Equal_def)
  have "updateSampler s (Inr res) now =
               Inr (s\<lparr>metrics := (metrics s)
                        \<lparr>SamplerRetrieved := SamplerRetrieved (metrics s) + 1\<rparr>\<rparr>)"
    using updateSampler_equal [OF ex] eq by simp
  then show ?thesis using ex eq by simp
next
  case None
  from assms(2) obtain n where n: "RateLimitingSampling res = Some n"
    and smp0: "smp0 = RateLimiting (NewRateLimitingSampler (Finite (of_int n)) t0)"
    using None by (auto simp: extractSampler_non_adaptive [OF assms(1)] split: option.splits)
  obtain r where held: "sampler s = RateLimiting r"
    and rate: "maxTracesPerSecond r = Finite (of_int n)"
    using Sampler_run_RateLimiting [of "NewRateLimitingSampler (Finite (of_int n)) t0" calls]
      assms(3) smp0
    by (auto simp: NewRateLimitingSampler_def)
  let ?c = "RateLimiting (NewRateLimitingSampler (Finite (of_int n)) now)"
  have ex: "extractSampler s res now = Inr (Built ?c, None)"
    using None n by (simp add: extractSampler_non_adaptive [OF assms(1)])
  have eq: "Sampler_Equal (sampler s) ?c"
    using held rate by (simp add: rateLimitingSampler_Equal_def NewRateLimitingSampler_def f_eq_def)
  have "updateSampler s (Inr res) now =
               Inr (s\<lparr>metrics := (metrics s)
                        \<lparr>SamplerRetrieved := SamplerRetrieved (metrics s) + 1\<rparr>\<rparr>)"
    using updateSampler_equal [OF ex] eq by simp
  then show ?thesis using ex eq by simp
qed

theorem updateSampler_same_response_witness:
  "OperationSampling
     \<lparr>OperationSampling = None, ProbabilisticSampling = Some (Finite (1 / 2)),
      RateLimitingSampling = None\<rparr> = None
   \<and> extractSampler
        (example_controller
           (Probabilistic \<lparr>SamplingBoundary = 0,
                           p_tags = mkTags SamplerTypeProbabilistic (FloatValue (Finite 0))\<rparr>) 0 0)
        \<lparr>OperationSampling = None, ProbabilisticSampling = Some (Finite (1 / 2)),
         RateLimitingSampling = None\<rparr> 60
      = Inr (Built (Probabilistic
                      \<lparr>SamplingBoundary = 2 ^ 62,
                       p_tags = mkTags SamplerTypeProbabilistic (FloatValue (Finite (1 / 2)))\<rparr>),
             None)
   \<and> updateSampler
        (example_controller
           (Probabilistic \<lparr>SamplingBoundary = 0,
                           p_tags = mkTags SamplerTypeProbabilistic (FloatValue (Finite 0))\<rparr>) 0 0)
        (Inr \<lparr>OperationSampling = None, ProbabilisticSampling = Some (Finite (1 / 2)),
              RateLimitingSampling = None\<rparr>) 60
      = Inr (example_controller
               (Probabilistic
                  \<lparr>SamplingBoundary = 2 ^ 62,
                   p_tags = mkTags SamplerTypeProbabilistic (FloatValue (Finite (1 / 2)))\<rparr>) 1 1)
   \<and> Sampler_run
        (Probabilistic \<lparr>SamplingBoundary = 2 ^ 62,
                        p_tags = mkTags SamplerTypeProbabilistic (FloatValue (Finite (1 / 2)))\<rparr>)
        [(5, ''op'', 61)]
      = sampler (example_controller
                   (Probabilistic
                      \<lparr>SamplingBoundary = 2 ^ 62,
                       p_tags = mkTags SamplerTypeProbabilistic (FloatValue (Finite (1 / 2)))\<rparr>) 1 1)
   \<and> updateSampler
        (example_controller
           (Probabilistic
              \<lparr>SamplingBoundary = 2 ^ 62,
               p_tags = mkTags SamplerTypeProbabilistic (FloatValue (Finite (1 / 2)))\<rparr>) 1 1)
        (Inr \<lparr>OperationSampling = None, ProbabilisticSampling = Some (Finite (1 / 2)),
              RateLimitingSampling = None\<rparr>) 120
      = Inr (example_controller
               (Probabilistic
                  \<lparr>SamplingBoundary = 2 ^ 62,
                   p_tags = mkTags SamplerTypeProbabilistic (FloatValue (Finite (1 / 2)))\<rparr>) 2 1)
   \<and> OperationSampling
       \<lparr>OperationSampling = None, ProbabilisticSampling = None,
        RateLimitingSampling = Some 2\<rparr> = None
   \<and> extractSampler
        (example_controller
           (Probabilistic \<lparr>SamplingBoundary = 0,
                           p_tags = mkTags SamplerTypeProbabilistic (FloatValue (Finite 0))\<rparr>) 0 0)
        \<lparr>OperationSampling = None, ProbabilisticSampling = None,
         RateLimitingSampling = Some 2\<rparr> 60
      = Inr (Built (RateLimiting (example_limiter 2)), None)
   \<and> Sampler_run (RateLimiting (example_limiter 2)) [(5, ''op'', 60)]
      = sampler (example_controller (RateLimiting (example_limiter 1)) 1 1)
   \<and> updateSampler (example_controller (RateLimiting (example_limiter 1)) 1 1)
        (Inr \<lparr>OperationSampling = None, ProbabilisticSampling = None,
              RateLimitingSampling = Some 2\<rparr>) 120
      = Inr (example_controller (RateLimiting (example_limiter 1)) 2 1)"
proof -
  let ?res = "\<lparr>OperationSampling = None, ProbabilisticSampling = Some (Finite (1 / 2)),
               RateLimitingSampling = None\<rparr>"
  let ?initial = "Probabilistic \<lparr>SamplingBoundary = 0,
                    p_tags = mkTags SamplerTypeProbabilistic (FloatValue (Finite 0))\<rparr>"
  let ?half = "Probabilistic \<lparr>SamplingBoundary = 2 ^ 62,
                 p_tags = mkTags SamplerTypeProbabilistic (FloatValue (Finite (1 / 2)))\<rparr>"
  have variant: "OperationSampling ?res = None"
    by simp
  have produced: "extractSampler (example_controller ?initial 0 0) ?res 60
                    = Inr (Built ?half, None)"
    by (simp add: extractSampler_def NewProbabilisticSampler_def f_gt_def example_half
        del: samplingBoundary.simps)
  have first: "updateSampler (example_controller ?initial 0 0) (Inr ?res) 60
                 = Inr (example_controller ?half 1 1)"
    by (simp add: updateSampler_def produced lockAndUpdateSampler_def
        ProbabilisticSampler_Equal_def)
  have used: "Sampler_run ?half [(5, ''op'', 61)] = sampler (example_controller ?half 1 1)"
    by (simp add: Sampler_run_def)
  from updateSampler_same_response [OF variant produced used, of 120]
  have again: "updateSampler (example_controller ?half 1 1) (Inr ?res) 120
                 = Inr (example_controller ?half 2 1)"
    by auto
  let ?res2 = "\<lparr>OperationSampling = None, ProbabilisticSampling = None,
                RateLimitingSampling = Some 2\<rparr>"
  have variant2: "OperationSampling ?res2 = None"
    by simp
  have produced2: "extractSampler (example_controller ?initial 0 0) ?res2 60
                     = Inr (Built (RateLimiting (example_limiter 2)), None)"
    by (simp add: extractSampler_def NewRateLimitingSampler_def NewRateLimiter_def)
  have used2: "Sampler_run (RateLimiting (example_limiter 2)) [(5, ''op'', 60)]
                 = sampler (example_controller (RateLimiting (example_limiter 1)) 1 1)"
    by (simp add: Sampler_run_def rateLimitingSampler_IsSampled_def CheckCredit_def)
  from updateSampler_same_response [OF variant2 produced2 used2, of 120]
  have again2: "updateSampler (example_controller (RateLimiting (example_limiter 1)) 1 1)
                  (Inr ?res2) 120
                 = Inr (example_controller (RateLimiting (example_limiter 1)) 2 1)"
    by auto
  from variant produced first used again variant2 produced2 used2 again2 show ?thesis
    by blast
qed
end
